theory Spec2Isabelle
  imports Main
begin

section \<open>Python strings and paths\<close>

text \<open>
  The development embeds \<^verbatim>\<open>src/lib/script_utils.py\<close>: the tree walker
  \<^verbatim>\<open>WalkObject\<close>, the transfer strategy \<^verbatim>\<open>CopyMethod\<close>, the task
  bundler and the scheduler submitter. Python strings are \<open>string\<close>; the library
  functions of \<^verbatim>\<open>str\<close> and \<^verbatim>\<open>os.path\<close> (POSIX flavour) the code calls
  are written out below.
\<close>

type_synonym path = string

datatype error =
    InvalidArgumentError string
  | DimensionError string
  | ExternalError string
  | AttributeError
  | TypeError
  | IndexError
  | ValueError
  | ZeroDivisionError
  | FileExistsError path
  | FileNotFoundError path
  | NotADirectoryError path
  | KeyError string
  | ImportError

text \<open>\<^verbatim>\<open>s.startswith(p)\<close>, \<^verbatim>\<open>s.endswith(p)\<close> and \<^verbatim>\<open>p in s\<close>.\<close>

fun startswith :: "string \<Rightarrow> string \<Rightarrow> bool" where
  "startswith s [] = True"
| "startswith [] (p # ps) = False"
| "startswith (c # cs) (p # ps) = (c = p \<and> startswith cs ps)"

definition endswith :: "string \<Rightarrow> string \<Rightarrow> bool" where
  "endswith s p = startswith (rev s) (rev p)"

fun str_contains :: "string \<Rightarrow> string \<Rightarrow> bool" where
  "str_contains [] sub = (sub = [])"
| "str_contains (c # cs) sub = (startswith (c # cs) sub \<or> str_contains cs sub)"

text \<open>\<^verbatim>\<open>str.isspace\<close> on the code points below 256, and \<^verbatim>\<open>s.strip()\<close>.\<close>

definition is_space :: "char \<Rightarrow> bool" where
  "is_space c = (c \<in> set [CHR '' '', CHR 0x09, CHR 0x0A, CHR 0x0B, CHR 0x0C, CHR 0x0D,
                            CHR 0x1C, CHR 0x1D, CHR 0x1E, CHR 0x1F, CHR 0x85, CHR 0xA0])"

definition lstrip :: "string \<Rightarrow> string" where
  "lstrip s = dropWhile is_space s"

definition strip :: "string \<Rightarrow> string" where
  "strip s = rev (dropWhile is_space (rev (dropWhile is_space s)))"

text \<open>
  \<^verbatim>\<open>s.split(sep)\<close> for a separator string: scanning from the left, every
  occurrence of \<open>sep\<close> closes the current field. Python raises ValueError on the
  empty separator; \<open>py_split\<close> returns that error.
\<close>

function split_from :: "string \<Rightarrow> string \<Rightarrow> string \<Rightarrow> string list" where
  "split_from sep acc s =
     (if sep \<noteq> [] \<and> startswith s sep then rev acc # split_from sep [] (drop (length sep) s)
      else (case s of [] \<Rightarrow> [rev acc] | c # cs \<Rightarrow> split_from sep (c # acc) cs))"
  by pat_completeness auto
termination
proof (relation "measure (\<lambda>(sep, acc, s). length s)")
  show "wf (measure (\<lambda>(sep, acc, s). length s))" by simp
next
  fix sep acc s :: string
  assume "sep \<noteq> [] \<and> startswith s sep"
  then have "s \<noteq> []" by (cases sep; cases s) auto
  with \<open>sep \<noteq> [] \<and> startswith s sep\<close>
  show "((sep, [], drop (length sep) s), (sep, acc, s)) \<in> measure (\<lambda>(sep, acc, s). length s)"
    by (cases sep) auto
next
  fix sep acc s :: string and c cs
  assume "s = c # cs"
  then show "((sep, c # acc, cs), (sep, acc, s)) \<in> measure (\<lambda>(sep, acc, s). length s)"
    by simp
qed

declare split_from.simps [simp del]

definition py_split :: "string \<Rightarrow> string \<Rightarrow> error + string list" where
  "py_split s sep = (if sep = [] then Inl ValueError else Inr (split_from sep [] s))"

text \<open>\<^verbatim>\<open>sep.join(items)\<close>.\<close>

fun py_join :: "string \<Rightarrow> string list \<Rightarrow> string" where
  "py_join sep [] = []"
| "py_join sep [x] = x"
| "py_join sep (x # y # ys) = x @ sep @ py_join sep (y # ys)"

text \<open>\<^verbatim>\<open>s.upper()\<close> on ASCII letters.\<close>

definition upper_char :: "char \<Rightarrow> char" where
  "upper_char c =
     (case map_of (zip ''abcdefghijklmnopqrstuvwxyz'' ''ABCDEFGHIJKLMNOPQRSTUVWXYZ'') c of
        Some u \<Rightarrow> u | None \<Rightarrow> c)"

definition upper :: "string \<Rightarrow> string" where
  "upper s = map upper_char s"

text \<open>\<^verbatim>\<open>str(n)\<close> for a natural number.\<close>

definition digit_char :: "nat \<Rightarrow> char" where
  "digit_char d = ''0123456789'' ! d"

function str_nat :: "nat \<Rightarrow> string" where
  "str_nat n = (if n < 10 then [digit_char n] else str_nat (n div 10) @ [digit_char (n mod 10)])"
  by pat_completeness auto
termination
  by (relation "measure id") auto

declare str_nat.simps [simp del]

text \<open>
  \<^verbatim>\<open>os.path.join(a, b)\<close> and \<^verbatim>\<open>os.path.basename(p)\<close> of
  \<^verbatim>\<open>posixpath\<close>: an absolute second component replaces the first, an empty
  first component or one that ends with the separator takes no extra separator.
\<close>

definition os_path_join :: "path \<Rightarrow> path \<Rightarrow> path" where
  "os_path_join a b =
     (if startswith b ''/'' then b
      else if a = [] \<or> endswith a ''/'' then a @ b
      else a @ ''/'' @ b)"

definition os_path_basename :: "path \<Rightarrow> path" where
  "os_path_basename p = rev (takeWhile (\<lambda>c. c \<noteq> CHR ''/'') (rev p))"

section \<open>The operating system as seen by the code\<close>

text \<open>
  The code reaches the file system only through library calls. They are the fields of an
  environment record over an arbitrary state type \<open>'s\<close>: queries read the state, the
  mutating calls return the new state or the exception they raise. Theorems about
  \<^verbatim>\<open>CopyMethod.exec\<close> and \<^verbatim>\<open>WalkObject._walk\<close> hold for every such
  environment; a concrete one (\<open>fs_env\<close>, further down) is used to run them.
\<close>

datatype copy_fn =
    OsLink | OsSymlink | ShutilCopyfile | ShutilCopy | ShutilCopy2 | ShutilMove
  | UserFn string

record 's os_env =
  os_path_isfile :: "'s \<Rightarrow> path \<Rightarrow> bool"
  os_path_isdir :: "'s \<Rightarrow> path \<Rightarrow> bool"
  filecmp_cmp :: "'s \<Rightarrow> path \<Rightarrow> path \<Rightarrow> error + bool"
  os_remove :: "path \<Rightarrow> 's \<Rightarrow> error + 's"
  os_makedirs :: "path \<Rightarrow> 's \<Rightarrow> error + 's"
  call_copy_fn :: "copy_fn \<Rightarrow> path \<Rightarrow> path \<Rightarrow> 's \<Rightarrow> error + 's"
  execute_command :: "string \<Rightarrow> 's \<Rightarrow> error + 's"
  str_format :: "string \<Rightarrow> string \<Rightarrow> string \<Rightarrow> error + string"

text \<open>
  What a run does, in order: log lines (\<^verbatim>\<open>print\<close> is \<^verbatim>\<open>LOGGER.info\<close>),
  the mutating library calls, every call of \<^verbatim>\<open>CopyMethod.exec\<close>, and the tuples
  the generator yields. A generator is modelled as run to exhaustion.
\<close>

datatype event =
    LogInfo string
  | OsRemove path
  | OsMakedirs path
  | CallCopyFn copy_fn path path
  | ExecuteCommand string
  | ExecCall path path
  | Yield path "string list" "string list"

type_synonym 's run = "error + (event list \<times> 's)"

definition prim :: "event \<Rightarrow> error + 's \<Rightarrow> 's run" where
  "prim ev r = (case r of Inl e \<Rightarrow> Inl e | Inr s \<Rightarrow> Inr ([ev], s))"

definition seq :: "'s run \<Rightarrow> ('s \<Rightarrow> 's run) \<Rightarrow> 's run" where
  "seq r f =
     (case r of
        Inl e \<Rightarrow> Inl e
      | Inr (evs, s) \<Rightarrow>
          (case f s of Inl e \<Rightarrow> Inl e | Inr (evs', s') \<Rightarrow> Inr (evs @ evs', s')))"

definition skip :: "event list \<Rightarrow> 's \<Rightarrow> 's run" where
  "skip evs s = Inr (evs, s)"

definition is_mutation :: "event \<Rightarrow> bool" where
  "is_mutation ev =
     (case ev of
        OsRemove p \<Rightarrow> True
      | OsMakedirs p \<Rightarrow> True
      | CallCopyFn f a b \<Rightarrow> True
      | ExecuteCommand c \<Rightarrow> True
      | _ \<Rightarrow> False)"

section \<open>CopyMethod\<close>

record CopyMethod =
  copy_fn :: "copy_fn option"
  copy_fn_name :: "string option"
  action_verb :: string
  reverse_args :: bool
  copy_shcmd :: "string option"
  copy_shprog :: "string option"
  copy_shcmd_is_fmtstr :: bool
  copy_overwrite :: bool
  dryrun :: bool
  verbose :: bool
  debug :: bool

text \<open>
  The first argument of \<^verbatim>\<open>CopyMethod.__init__\<close> is a callable, a shell command
  string, or (in \<^verbatim>\<open>__copy__\<close> of a shell-command method) \<^verbatim>\<open>None\<close>.
\<close>

datatype copy_fn_arg = FnArg copy_fn | StrArg string | NoneArg

definition COPY_METHOD_VERB_TO_GERUND_DICT :: "(string \<times> string) list" where
  "COPY_METHOD_VERB_TO_GERUND_DICT =
     [(''link'', ''linking''), (''move'', ''moving''), (''copy'', ''copying'')]"

definition COPY_METHOD_SHPROGS_LINUX_TO_WINDOWS_DICT :: "(string \<times> string) list" where
  "COPY_METHOD_SHPROGS_LINUX_TO_WINDOWS_DICT =
     [(''ln'', ''mklink''), (''cp'', ''copy''), (''mv'', ''move'')]"

definition COPY_METHOD_SHPROGS_ACTION_VERB_DICT :: "(string \<times> string) list" where
  "COPY_METHOD_SHPROGS_ACTION_VERB_DICT =
     [(''ln'', ''linking''), (''mklink'', ''linking''), (''cp'', ''copying''),
      (''copy'', ''copying''), (''mv'', ''moving''), (''move'', ''moving'')]"

text \<open>
  \<^verbatim>\<open>copy_fn_type.__name__\<close>: the name of the callable's type, not of the callable.
\<close>

definition fn_type_name :: "copy_fn \<Rightarrow> string" where
  "fn_type_name f =
     (case f of
        OsLink \<Rightarrow> ''builtin_function_or_method''
      | OsSymlink \<Rightarrow> ''builtin_function_or_method''
      | _ \<Rightarrow> ''function'')"

fun first_verb :: "(string \<times> string) list \<Rightarrow> string option \<Rightarrow> string option \<Rightarrow> string option" where
  "first_verb [] shprog_verbose fn_name = None"
| "first_verb ((verb, gerund) # rest) shprog_verbose fn_name =
     (if (case shprog_verbose of None \<Rightarrow> False | Some sp \<Rightarrow> str_contains sp verb)
         \<or> (case fn_name of None \<Rightarrow> False | Some fnm \<Rightarrow> str_contains fnm verb)
      then Some gerund
      else first_verb rest shprog_verbose fn_name)"

text \<open>
  \<^verbatim>\<open>CopyMethod.__init__\<close> on a POSIX system (\<^verbatim>\<open>SYSTYPE\<close> is not Windows, so
  the translation of the shell program to its Windows name is skipped).
\<close>

definition CopyMethod_init ::
  "copy_fn_arg \<Rightarrow> string option \<Rightarrow> string option \<Rightarrow> bool option \<Rightarrow> bool \<Rightarrow> CopyMethod" where
  "CopyMethod_init fn_arg fn_name_arg action_verb_arg reverse_args_arg shcmd_is_fmtstr =
     (let fn_name1 =
            (case fn_name_arg of
               Some n \<Rightarrow> Some n
             | None \<Rightarrow>
                 (case fn_arg of
                    StrArg c \<Rightarrow> None
                  | FnArg f \<Rightarrow> Some (fn_type_name f)
                  | NoneArg \<Rightarrow> Some ''None''));
          shcmd = (case fn_arg of StrArg c \<Rightarrow> Some (strip c) | _ \<Rightarrow> None);
          fn1 = (case fn_arg of FnArg f \<Rightarrow> Some f | _ \<Rightarrow> None);
          shprog = (case shcmd of None \<Rightarrow> None | Some c \<Rightarrow> Some (hd (split_from '' '' [] c)));
          reverse1 =
            (if shprog = Some ''mklink'' \<and> reverse_args_arg = None then Some True
             else reverse_args_arg);
          verb1 =
            (case action_verb_arg of
               Some v \<Rightarrow> Some v
             | None \<Rightarrow>
                 (case shprog of
                    None \<Rightarrow> None
                  | Some sp \<Rightarrow> map_of COPY_METHOD_SHPROGS_ACTION_VERB_DICT sp));
          verb2 =
            (case verb1 of
               Some v \<Rightarrow> v
             | None \<Rightarrow>
                 (let shprog_verbose =
                        (case shprog of
                           None \<Rightarrow> None
                         | Some sp \<Rightarrow>
                             (case map_of COPY_METHOD_SHPROGS_LINUX_TO_WINDOWS_DICT sp of
                                Some w \<Rightarrow> Some w
                              | None \<Rightarrow> Some sp))
                  in (case first_verb COPY_METHOD_VERB_TO_GERUND_DICT shprog_verbose fn_name1 of
                        Some g \<Rightarrow> g
                      | None \<Rightarrow> ''transferring'')))
      in \<lparr> copy_fn = fn1,
           copy_fn_name = fn_name1,
           action_verb = upper verb2,
           reverse_args = (case reverse1 of None \<Rightarrow> False | Some b \<Rightarrow> b),
           copy_shcmd = shcmd,
           copy_shprog = shprog,
           copy_shcmd_is_fmtstr = shcmd_is_fmtstr,
           copy_overwrite = False,
           dryrun = False,
           verbose = True,
           debug = False \<rparr>)"

definition set_options ::
  "bool option \<Rightarrow> bool option \<Rightarrow> bool option \<Rightarrow> bool option \<Rightarrow> CopyMethod \<Rightarrow> CopyMethod" where
  "set_options ow dr vb db cm =
     cm\<lparr> copy_overwrite := (case ow of None \<Rightarrow> copy_overwrite cm | Some b \<Rightarrow> b),
         dryrun := (case dr of None \<Rightarrow> dryrun cm | Some b \<Rightarrow> b),
         verbose := (case vb of None \<Rightarrow> verbose cm | Some b \<Rightarrow> b),
         debug := (case db of None \<Rightarrow> debug cm | Some b \<Rightarrow> b) \<rparr>"

text \<open>\<^verbatim>\<open>CopyMethod.__copy__\<close>: a fresh instance from the stored fields, then the options.\<close>

definition CopyMethod_copy :: "CopyMethod \<Rightarrow> CopyMethod" where
  "CopyMethod_copy cm =
     set_options (Some (copy_overwrite cm)) (Some (dryrun cm)) (Some (verbose cm)) (Some (debug cm))
       (CopyMethod_init (case copy_fn cm of None \<Rightarrow> NoneArg | Some f \<Rightarrow> FnArg f)
          (copy_fn_name cm) (Some (action_verb cm)) (Some (reverse_args cm))
          (copy_shcmd_is_fmtstr cm))"

definition COPY_METHOD_HARDLINK :: CopyMethod where
  "COPY_METHOD_HARDLINK = CopyMethod_init (FnArg OsLink) (Some ''os.link'') (Some ''hardlinking'') None False"

definition COPY_METHOD_SYMLINK :: CopyMethod where
  "COPY_METHOD_SYMLINK = CopyMethod_init (FnArg OsSymlink) (Some ''os.symlink'') (Some ''symlinking'') None False"

definition COPY_METHOD_COPY_BASIC :: CopyMethod where
  "COPY_METHOD_COPY_BASIC = CopyMethod_init (FnArg ShutilCopyfile) (Some ''shutil.copyfile'') (Some ''copying'') None False"

definition COPY_METHOD_COPY_PERMS :: CopyMethod where
  "COPY_METHOD_COPY_PERMS = CopyMethod_init (FnArg ShutilCopy) (Some ''shutil.copy'') (Some ''copying'') None False"

definition COPY_METHOD_COPY_META :: CopyMethod where
  "COPY_METHOD_COPY_META = CopyMethod_init (FnArg ShutilCopy2) (Some ''shutil.copy2'') (Some ''copying'') None False"

definition COPY_METHOD_COPY_DEFAULT :: CopyMethod where
  "COPY_METHOD_COPY_DEFAULT = COPY_METHOD_COPY_META"

definition COPY_METHOD_MOVE :: CopyMethod where
  "COPY_METHOD_MOVE = CopyMethod_init (FnArg ShutilMove) (Some ''shutil.move'') (Some ''moving'') None False"

definition COPY_METHOD_DICT :: "(string \<times> CopyMethod) list" where
  "COPY_METHOD_DICT =
     [(''link'', COPY_METHOD_HARDLINK), (''hardlink'', COPY_METHOD_HARDLINK),
      (''symlink'', COPY_METHOD_SYMLINK), (''copy'', COPY_METHOD_COPY_DEFAULT),
      (''copy-basic'', COPY_METHOD_COPY_BASIC), (''copy-perms'', COPY_METHOD_COPY_PERMS),
      (''copy-meta'', COPY_METHOD_COPY_META), (''move'', COPY_METHOD_MOVE)]"

definition COPY_METHOD_SHPROGS :: "string list" where
  "COPY_METHOD_SHPROGS = [''ln'', ''ln'', ''cp'', ''mv'']"

subsection \<open>CopyMethod.exec\<close>

definition SKIP_LINK :: string where
  "SKIP_LINK = ''SKIPPING; correct link already exists''"

definition SKIP_EXISTS :: string where
  "SKIP_EXISTS = ''SKIPPING; destination file already exists''"

text \<open>The line \<^verbatim>\<open>exec\<close> prints when \<^verbatim>\<open>verbose\<close> is set.\<close>

definition exec_log_line :: "CopyMethod \<Rightarrow> path \<Rightarrow> path \<Rightarrow> bool \<Rightarrow> string \<Rightarrow> string" where
  "exec_log_line cm srcfile dstfile dstfile_exists overwrite_action =
     (if dryrun cm then ''(dryrun) '' else []) @ action_verb cm @ '': '' @ srcfile @ '' -> ''
       @ dstfile @ (if dstfile_exists then '' ('' @ overwrite_action @ '')'' else [])"

text \<open>
  The first half of \<^verbatim>\<open>exec\<close>: whether to go on with the transfer, and what to
  say about an existing destination. \<^verbatim>\<open>filecmp.cmp\<close> is called only when the
  action verb is \<^verbatim>\<open>HARDLINKING\<close> or \<^verbatim>\<open>LINKING\<close>.
\<close>

definition exec_decide ::
  "'s os_env \<Rightarrow> CopyMethod \<Rightarrow> path \<Rightarrow> path \<Rightarrow> 's \<Rightarrow> error + (bool \<times> string)" where
  "exec_decide env cm srcfile dstfile s =
     (if os_path_isfile env s dstfile then
        (if copy_overwrite cm then Inr (True, ''OVERWRITING'')
         else
           (case (if action_verb cm \<in> set [''HARDLINKING'', ''LINKING'']
                  then filecmp_cmp env s srcfile dstfile else Inr False) of
              Inl e \<Rightarrow> Inl e
            | Inr dstfile_is_srcfile \<Rightarrow>
                Inr (False, if dstfile_is_srcfile then SKIP_LINK else SKIP_EXISTS)))
      else Inr (True, []))"

text \<open>The transfer itself: the shell command if there is one, else the callable.\<close>

definition exec_transfer ::
  "'s os_env \<Rightarrow> CopyMethod \<Rightarrow> string option \<Rightarrow> path \<Rightarrow> path \<Rightarrow> 's \<Rightarrow> 's run" where
  "exec_transfer env cm copy_shcmd_full srcfile dstfile s =
     (case copy_shcmd_full of
        Some c \<Rightarrow> prim (ExecuteCommand c) (execute_command env c s)
      | None \<Rightarrow>
          (case copy_fn cm of
             None \<Rightarrow> Inl TypeError
           | Some f \<Rightarrow>
               (if reverse_args cm
                then prim (CallCopyFn f dstfile srcfile) (call_copy_fn env f dstfile srcfile s)
                else prim (CallCopyFn f srcfile dstfile) (call_copy_fn env f srcfile dstfile s))))"

text \<open>The full shell command, when the method is a shell command.\<close>

definition exec_shcmd_full ::
  "'s os_env \<Rightarrow> CopyMethod \<Rightarrow> path \<Rightarrow> path \<Rightarrow> error + string option" where
  "exec_shcmd_full env cm srcfile dstfile =
     (case copy_shcmd cm of
        None \<Rightarrow> Inr None
      | Some c \<Rightarrow>
          (if copy_shcmd_is_fmtstr cm then
             (case str_format env c srcfile dstfile of
                Inl e \<Rightarrow> Inl e | Inr full \<Rightarrow> Inr (Some full))
           else if reverse_args cm then Inr (Some (c @ '' '' @ dstfile @ '' '' @ srcfile))
           else Inr (Some (c @ '' '' @ srcfile @ '' '' @ dstfile))))"

text \<open>The line \<^verbatim>\<open>exec\<close> prints when \<^verbatim>\<open>debug\<close> is set and the transfer goes on.\<close>

definition exec_debug_line :: "CopyMethod \<Rightarrow> string option \<Rightarrow> path \<Rightarrow> path \<Rightarrow> string" where
  "exec_debug_line cm copy_shcmd_full srcfile dstfile =
     (case copy_shcmd_full of
        Some c \<Rightarrow> c
      | None \<Rightarrow>
          (case copy_fn_name cm of None \<Rightarrow> ''None'' | Some n \<Rightarrow> n)
            @ ''('' @ srcfile @ '', '' @ dstfile @ '')'')"

definition exec :: "'s os_env \<Rightarrow> CopyMethod \<Rightarrow> path \<Rightarrow> path \<Rightarrow> 's \<Rightarrow> 's run" where
  "exec env cm srcfile dstfile s =
     (case exec_shcmd_full env cm srcfile dstfile of
        Inl e \<Rightarrow> Inl e
      | Inr copy_shcmd_full \<Rightarrow>
          (case exec_decide env cm srcfile dstfile s of
             Inl e \<Rightarrow> Inl e
           | Inr (proceed_with_copy, overwrite_action) \<Rightarrow>
               (let dstfile_exists = os_path_isfile env s dstfile;
                    log1 = (if verbose cm
                            then [LogInfo (exec_log_line cm srcfile dstfile dstfile_exists overwrite_action)]
                            else []);
                    log2 = (if debug cm
                            then [LogInfo (exec_debug_line cm copy_shcmd_full srcfile dstfile)]
                            else [])
                in if \<not> proceed_with_copy then skip log1 s
                   else if dryrun cm then skip (log1 @ log2) s
                   else
                     seq (skip (log1 @ log2) s) (\<lambda>s.
                     seq (if dstfile_exists \<and> copy_overwrite cm
                          then prim (OsRemove dstfile) (os_remove env dstfile s)
                          else skip [] s)
                         (exec_transfer env cm copy_shcmd_full srcfile dstfile)))))"

section \<open>WalkObject\<close>

text \<open>
  A depth argument is a number or \<^verbatim>\<open>float('inf')\<close>.
\<close>

datatype bound = Finite int | Infinity

fun bound_neg :: "bound \<Rightarrow> bool" where
  "bound_neg (Finite n) = (n < 0)"
| "bound_neg Infinity = False"

fun gt_bound :: "int \<Rightarrow> bound \<Rightarrow> bool" where
  "gt_bound d (Finite n) = (d > n)"
| "gt_bound d Infinity = False"

fun lt_bound :: "int \<Rightarrow> bound \<Rightarrow> bool" where
  "lt_bound d (Finite n) = (d < n)"
| "lt_bound d Infinity = True"

fun le_bound :: "int \<Rightarrow> bound \<Rightarrow> bool" where
  "le_bound d (Finite n) = (d \<le> n)"
| "le_bound d Infinity = True"

datatype list_fn = OsListdir | OsScandir

datatype list_fn_arg = ListFn list_fn | OtherListFn

text \<open>
  Patterns are kept in compiled form, of an arbitrary type \<open>'p\<close>; matching and
  substitution are the functions the object stores (\<^verbatim>\<open>rematch_function\<close>,
  \<^verbatim>\<open>resub_function\<close>), a match object being read for its truth value.
\<close>

record 'p WalkObject =
  mindepth :: int
  maxdepth :: bound
  dmatch_maxdepth :: bound
  dmatch_nomaxdepth :: bool
  fname_rematch :: "'p list"
  fname_reexcl :: "'p list"
  dname_rematch :: "'p list"
  dname_reexcl :: "'p list"
  fname_resub :: "('p \<times> string) list option"
  dname_resub :: "('p \<times> string) list option"
  copy_method :: "CopyMethod option"
  copy_method_inst :: "CopyMethod option"
  transplant_tree :: bool
  collapse_tree :: bool
  collapse_tree_inst :: bool
  mkdir_upon_file_copy :: bool
  list_function :: list_fn
  rematch_function :: "'p \<Rightarrow> string \<Rightarrow> bool"
  resub_function :: "'p \<Rightarrow> string \<Rightarrow> string \<Rightarrow> string"

datatype copy_method_arg = CMInstance CopyMethod | CMStr string | CMCallable copy_fn

record 'p re_lib =
  re_fullmatch :: "'p \<Rightarrow> string \<Rightarrow> bool"
  re_search :: "'p \<Rightarrow> string \<Rightarrow> bool"
  re_sub :: "'p \<Rightarrow> string \<Rightarrow> string \<Rightarrow> string"

record 'p walk_args =
  arg_mindepth :: int
  arg_maxdepth :: bound
  arg_dmatch_maxdepth :: "bound option"
  arg_fmatch :: "'p list option"
  arg_fmatch_re :: "'p list option"
  arg_fexcl :: "'p list option"
  arg_fexcl_re :: "'p list option"
  arg_dmatch :: "'p list option"
  arg_dmatch_re :: "'p list option"
  arg_dexcl :: "'p list option"
  arg_dexcl_re :: "'p list option"
  arg_fsub :: "('p \<times> string) list option"
  arg_dsub :: "('p \<times> string) list option"
  arg_copy_method :: "copy_method_arg option"
  arg_copy_overwrite :: bool
  arg_transplant_tree :: bool
  arg_collapse_tree :: bool
  arg_copy_dryrun :: bool
  arg_copy_silent :: bool
  arg_copy_debug :: bool
  arg_mkdir_upon_file_copy :: bool
  arg_allow_nonstd_shprogs :: bool
  arg_copy_shcmd_fmtstr :: "string option"
  arg_list_function :: "list_fn_arg option"
  arg_rematch_function :: "('p \<Rightarrow> string \<Rightarrow> bool) option"
  arg_resub_function :: "('p \<Rightarrow> string \<Rightarrow> string \<Rightarrow> string) option"
  arg_rematch_partial :: bool

definition opt_list :: "'a list option \<Rightarrow> 'a list" where
  "opt_list xs = (case xs of None \<Rightarrow> [] | Some ys \<Rightarrow> ys)"

text \<open>Python truth of the \<^verbatim>\<open>copy_method\<close> and \<^verbatim>\<open>copy_shcmd_fmtstr\<close> arguments.\<close>

definition truthy_copy_method :: "copy_method_arg option \<Rightarrow> bool" where
  "truthy_copy_method cm =
     (case cm of None \<Rightarrow> False | Some (CMStr c) \<Rightarrow> c \<noteq> [] | Some _ \<Rightarrow> True)"

definition truthy_str :: "string option \<Rightarrow> bool" where
  "truthy_str x = (case x of None \<Rightarrow> False | Some c \<Rightarrow> c \<noteq> [])"

text \<open>
  The part of \<^verbatim>\<open>WalkObject.__init__\<close> that turns the \<^verbatim>\<open>copy_method\<close>
  argument into a configured \<^verbatim>\<open>CopyMethod\<close>.
\<close>

definition init_copy_method ::
  "copy_method_arg \<Rightarrow> bool \<Rightarrow> bool \<Rightarrow> error + CopyMethod" where
  "init_copy_method cma copy_method_is_fmtstr allow_nonstd =
     (case cma of
        CMInstance cm \<Rightarrow> Inr (CopyMethod_copy cm)
      | CMStr c \<Rightarrow>
          (case map_of COPY_METHOD_DICT c of
             Some cm \<Rightarrow> Inr cm
           | None \<Rightarrow>
               (let cm = CopyMethod_init (StrArg c) None None None copy_method_is_fmtstr
                in if (case copy_shprog cm of None \<Rightarrow> True | Some sp \<Rightarrow> sp \<notin> set COPY_METHOD_SHPROGS)
                      \<and> \<not> allow_nonstd
                   then Inl (InvalidArgumentError ''copy_method shell program is nonstandard and not allowed'')
                   else Inr cm))
      | CMCallable f \<Rightarrow> Inr (CopyMethod_init (FnArg f) None None None False))"

definition WalkObject_init :: "'p re_lib \<Rightarrow> 'p walk_args \<Rightarrow> error + 'p WalkObject" where
  "WalkObject_init re a =
     (if arg_mindepth a < 0 \<or> bound_neg (arg_maxdepth a)
         \<or> (case arg_dmatch_maxdepth a of None \<Rightarrow> False | Some b \<Rightarrow> bound_neg b)
      then Inl (InvalidArgumentError ''depth arguments must be >= 0'')
      else if truthy_copy_method (arg_copy_method a) \<and> truthy_str (arg_copy_shcmd_fmtstr a)
      then Inl (InvalidArgumentError ''copy_method and copy_shcmd_fmtstr arguments are mutually exclusive'')
      else if arg_copy_silent a \<and> arg_copy_dryrun a
      then Inl (InvalidArgumentError ''copy_silent and copy_dryrun arguments are mutually exclusive'')
      else if arg_list_function a = Some OtherListFn
      then Inl (InvalidArgumentError ''list_function must be either os.listdir or os.scandir'')
      else if arg_fsub a = Some [] \<or> arg_dsub a = Some []
      then Inl IndexError
      else
        (let copy_method1 =
               (case arg_copy_shcmd_fmtstr a of
                  Some c \<Rightarrow> Some (CMStr c) | None \<Rightarrow> arg_copy_method a);
             copy_method_is_fmtstr = (arg_copy_shcmd_fmtstr a \<noteq> None);
             nomaxdepth =
               (if arg_dmatch a = None \<and> arg_dmatch_re a = None then True
                else if copy_method1 = None then arg_dmatch_maxdepth a = None
                else False);
             dmm = (case arg_dmatch_maxdepth a of None \<Rightarrow> Infinity | Some b \<Rightarrow> b);
             lf = (case arg_list_function a of Some (ListFn f) \<Rightarrow> f | _ \<Rightarrow> OsScandir);
             rematch =
               (case arg_rematch_function a of
                  Some f \<Rightarrow> f
                | None \<Rightarrow> if arg_rematch_partial a then re_search re else re_fullmatch re);
             resub = (case arg_resub_function a of Some f \<Rightarrow> f | None \<Rightarrow> re_sub re)
         in case (case copy_method1 of
                    None \<Rightarrow> Inr None
                  | Some cma \<Rightarrow>
                      (case init_copy_method cma copy_method_is_fmtstr (arg_allow_nonstd_shprogs a) of
                         Inl e \<Rightarrow> Inl e
                       | Inr cm \<Rightarrow>
                           Inr (Some (set_options (Some (arg_copy_overwrite a))
                                        (Some (arg_copy_dryrun a)) (Some (\<not> arg_copy_silent a))
                                        (Some (arg_copy_debug a)) cm)))) of
              Inl e \<Rightarrow> Inl e
            | Inr cmo \<Rightarrow>
                Inr \<lparr> mindepth = arg_mindepth a,
                      maxdepth = arg_maxdepth a,
                      dmatch_maxdepth = dmm,
                      dmatch_nomaxdepth = nomaxdepth,
                      fname_rematch = opt_list (arg_fmatch a) @ opt_list (arg_fmatch_re a),
                      fname_reexcl = opt_list (arg_fexcl a) @ opt_list (arg_fexcl_re a),
                      dname_rematch = opt_list (arg_dmatch a) @ opt_list (arg_dmatch_re a),
                      dname_reexcl = opt_list (arg_dexcl a) @ opt_list (arg_dexcl_re a),
                      fname_resub = arg_fsub a,
                      dname_resub = arg_dsub a,
                      copy_method = cmo,
                      copy_method_inst = cmo,
                      transplant_tree = arg_transplant_tree a,
                      collapse_tree = arg_collapse_tree a,
                      collapse_tree_inst = arg_collapse_tree a,
                      mkdir_upon_file_copy = arg_mkdir_upon_file_copy a,
                      list_function = lf,
                      rematch_function = rematch,
                      resub_function = resub \<rparr>))"

definition is_InvalidArgumentError :: "error \<Rightarrow> bool" where
  "is_InvalidArgumentError e = (case e of InvalidArgumentError m \<Rightarrow> True | _ \<Rightarrow> False)"

subsection \<open>The source tree and name matching\<close>

text \<open>
  The source tree is read as a snapshot: a directory is the list of its entries in the
  order \<^verbatim>\<open>list_function\<close> returns them, an entry being a file name or a
  subdirectory with its own listing. The destination side lives in the state \<open>'s\<close> of
  the environment.
\<close>

datatype node = File string | Direc string "node list"

text \<open>
  The include loop and the exclude loop that \<^verbatim>\<open>_walk\<close> runs on the name of the
  source directory, of every subdirectory and of every file: each assigns the result of
  the match to the flag and breaks on the first hit.
\<close>

fun rematch_loop :: "('p \<Rightarrow> string \<Rightarrow> bool) \<Rightarrow> 'p list \<Rightarrow> string \<Rightarrow> bool \<Rightarrow> bool" where
  "rematch_loop f [] name m = m"
| "rematch_loop f (p # ps) name m =
     (let m' = f p name in if m' then m' else rematch_loop f ps name m')"

fun reexcl_loop :: "('p \<Rightarrow> string \<Rightarrow> bool) \<Rightarrow> 'p list \<Rightarrow> string \<Rightarrow> bool \<Rightarrow> bool" where
  "reexcl_loop f [] name m = m"
| "reexcl_loop f (p # ps) name m =
     (let m' = (\<not> f p name) in if \<not> m' then m' else reexcl_loop f ps name m')"

definition name_match ::
  "('p \<Rightarrow> string \<Rightarrow> bool) \<Rightarrow> 'p list \<Rightarrow> 'p list \<Rightarrow> string \<Rightarrow> bool" where
  "name_match f rematch reexcl name =
     (let m1 = (if rematch \<noteq> [] then rematch_loop f rematch name False else True)
      in if reexcl \<noteq> [] \<and> m1 then reexcl_loop f reexcl name m1 else m1)"

definition dname_match :: "'p WalkObject \<Rightarrow> string \<Rightarrow> bool" where
  "dname_match w name = name_match (rematch_function w) (dname_rematch w) (dname_reexcl w) name"

definition fname_match :: "'p WalkObject \<Rightarrow> string \<Rightarrow> bool" where
  "fname_match w name = name_match (rematch_function w) (fname_rematch w) (fname_reexcl w) name"

text \<open>The substitution loop: every (pattern, replacement) pair in order; skipped when the list is None or empty.\<close>

fun resub_loop :: "('p \<Rightarrow> string \<Rightarrow> string \<Rightarrow> string) \<Rightarrow> ('p \<times> string) list \<Rightarrow> string \<Rightarrow> string" where
  "resub_loop f [] name = name"
| "resub_loop f ((p, repl) # rest) name = resub_loop f rest (f p repl name)"

definition resub_name ::
  "('p \<Rightarrow> string \<Rightarrow> string \<Rightarrow> string) \<Rightarrow> ('p \<times> string) list option \<Rightarrow> string \<Rightarrow> string" where
  "resub_name f subs name = (case subs of None \<Rightarrow> name | Some ps \<Rightarrow> resub_loop f ps name)"

text \<open>
  The listing loop of \<^verbatim>\<open>_walk\<close>: directory names go to \<open>dnames\<close> (and their match
  flags to \<open>dnames_pass\<close> when directory patterns are configured, \<open>track\<close>); a file
  name goes to \<open>fnames_filtered\<close> when the directory passes and the name matches.
\<close>

fun scan_entries ::
  "'p WalkObject \<Rightarrow> bool \<Rightarrow> bool \<Rightarrow> node list \<Rightarrow> string list \<times> bool list \<times> string list" where
  "scan_entries w track srcdname_passes [] = ([], [], [])"
| "scan_entries w track srcdname_passes (Direc pname sub # es) =
     (case scan_entries w track srcdname_passes es of
        (dnames, dnames_pass, fnames_filtered) \<Rightarrow>
          (pname # dnames,
           (if track then dname_match w pname # dnames_pass else dnames_pass),
           fnames_filtered))"
| "scan_entries w track srcdname_passes (File pname # es) =
     (case scan_entries w track srcdname_passes es of
        (dnames, dnames_pass, fnames_filtered) \<Rightarrow>
          (dnames, dnames_pass,
           (if srcdname_passes \<and> fname_match w pname then pname # fnames_filtered
            else fnames_filtered)))"

text \<open>\<^verbatim>\<open>[dn for i, dn in enumerate(dnames) if dnames_pass[i]]\<close>; an index out of range raises.\<close>

fun select_passing :: "string list \<Rightarrow> bool list \<Rightarrow> error + string list" where
  "select_passing [] bs = Inr []"
| "select_passing (dn # dns) [] = Inl IndexError"
| "select_passing (dn # dns) (b # bs) =
     (case select_passing dns bs of
        Inl e \<Rightarrow> Inl e
      | Inr r \<Rightarrow> Inr (if b then dn # r else r))"

subsection \<open>WalkObject._walk and WalkObject.walk\<close>

text \<open>The copy loop over \<open>fnames_filtered\<close>: one call of \<^verbatim>\<open>exec\<close> per name.\<close>

fun copy_files ::
  "'s os_env \<Rightarrow> 'p WalkObject \<Rightarrow> CopyMethod \<Rightarrow> path \<Rightarrow> path \<Rightarrow> string list \<Rightarrow> 's \<Rightarrow> 's run" where
  "copy_files env w cm srcdir dstdir [] s = Inr ([], s)"
| "copy_files env w cm srcdir dstdir (fname # rest) s =
     (let srcfile = os_path_join srcdir fname;
          dstfile = os_path_join dstdir (resub_name (resub_function w) (fname_resub w) fname)
      in seq (seq (skip [ExecCall srcfile dstfile] s) (exec env cm srcfile dstfile))
             (copy_files env w cm srcdir dstdir rest))"

text \<open>
  The test at the head of \<^verbatim>\<open>_walk\<close> that may move \<open>dmatch_depth\<close> from 0 to 1 for
  the root, and the flag \<open>srcdname_passes\<close> computed from it.
\<close>

definition root_dmatch_depth :: "'p WalkObject \<Rightarrow> path \<Rightarrow> int \<Rightarrow> int \<Rightarrow> int" where
  "root_dmatch_depth w srcdir depth dmatch_depth =
     (if depth = 1 \<and> dmatch_depth = 0 then
        (if dname_match w (os_path_basename srcdir) then 1 else dmatch_depth)
      else dmatch_depth)"

definition srcdname_passes :: "'p WalkObject \<Rightarrow> int \<Rightarrow> bool" where
  "srcdname_passes w dmatch_depth = (le_bound dmatch_depth (dmatch_maxdepth w) \<and> dmatch_depth \<noteq> 0)"

text \<open>
  The block that sets \<open>dstdir_exists\<close>; it creates the destination directory when it is
  missing, \<open>mkdir_upon_file_copy\<close> is off and the source directory passes.
\<close>

definition check_dstdir ::
  "'s os_env \<Rightarrow> 'p WalkObject \<Rightarrow> path option \<Rightarrow> bool \<Rightarrow> 's \<Rightarrow> error + (bool \<times> event list \<times> 's)" where
  "check_dstdir env w dstdir passes s =
     (case dstdir of
        None \<Rightarrow> Inr (False, [], s)
      | Some d \<Rightarrow>
          (if copy_method_inst w = None then Inr (False, [], s)
           else if os_path_isdir env s d then Inr (True, [], s)
           else if mkdir_upon_file_copy w then Inr (False, [], s)
           else if passes then
             (case os_makedirs env d s of
                Inl e \<Rightarrow> Inl e
              | Inr s' \<Rightarrow> Inr (True, [OsMakedirs d], s'))
           else Inr (False, [], s)))"

text \<open>
  The block under \<^verbatim>\<open>if depth >= self.mindepth\<close>: the lazy creation of the
  destination directory, the copy loop, and the yield.
\<close>

definition visit_dir ::
  "'s os_env \<Rightarrow> 'p WalkObject \<Rightarrow> path \<Rightarrow> path option \<Rightarrow> bool \<Rightarrow> bool
     \<Rightarrow> string list \<Rightarrow> bool list option \<Rightarrow> string list \<Rightarrow> 's \<Rightarrow> 's run" where
  "visit_dir env w srcdir dstdir passes dstdir_exists dnames dnames_pass fnames_filtered s =
     seq (case (copy_method_inst w, dstdir) of
            (Some cm, Some d) \<Rightarrow>
              (if passes then
                 seq (if \<not> dryrun cm \<and> \<not> dstdir_exists
                         \<and> (\<not> mkdir_upon_file_copy w \<or> fnames_filtered \<noteq> [])
                      then prim (OsMakedirs d) (os_makedirs env d s)
                      else skip [] s)
                     (copy_files env w cm srcdir d fnames_filtered)
               else skip [] s)
          | _ \<Rightarrow> skip [] s)
         (\<lambda>s. case (if passes \<and> \<not> dmatch_nomaxdepth w then Inr dnames
                     else (case dnames_pass of
                             None \<Rightarrow> Inr dnames
                           | Some bs \<Rightarrow> select_passing dnames bs)) of
                 Inl e \<Rightarrow> Inl e
               | Inr dnames_filtered \<Rightarrow> skip [Yield srcdir dnames_filtered fnames_filtered] s)"

text \<open>
  \<^verbatim>\<open>_walk\<close> and its loop over the subdirectories. The loop walks the listing again,
  skips the files, and reads \<open>dnames_pass\<close> in step with the directories (an
  exhausted list is the IndexError of \<^verbatim>\<open>dnames_pass[i]\<close>).
\<close>

fun walk_rec ::
  "'s os_env \<Rightarrow> 'p WalkObject \<Rightarrow> node list \<Rightarrow> path \<Rightarrow> path option \<Rightarrow> int \<Rightarrow> int \<Rightarrow> 's \<Rightarrow> 's run"
and walk_children ::
  "'s os_env \<Rightarrow> 'p WalkObject \<Rightarrow> node list \<Rightarrow> bool list option \<Rightarrow> path \<Rightarrow> path option
     \<Rightarrow> int \<Rightarrow> int \<Rightarrow> int \<Rightarrow> 's \<Rightarrow> 's run"
where
  "walk_rec env w es srcdir dstdir depth dmatch_depth s =
     (if gt_bound depth (maxdepth w) then Inr ([], s)
      else
        (let dmatch_depth1 = root_dmatch_depth w srcdir depth dmatch_depth;
             passes = srcdname_passes w dmatch_depth1
         in case check_dstdir env w dstdir passes s of
              Inl e \<Rightarrow> Inl e
            | Inr (dstdir_exists, evs0, s0) \<Rightarrow>
                (let track = (dname_rematch w \<noteq> [] \<or> dname_reexcl w \<noteq> []);
                     scanned = scan_entries w track passes es;
                     dnames = fst scanned;
                     dnames_pass = (if track then Some (fst (snd scanned)) else None);
                     fnames_filtered = snd (snd scanned)
                 in seq (seq (skip evs0 s0)
                           (\<lambda>s. if depth \<ge> mindepth w
                                 then visit_dir env w srcdir dstdir passes dstdir_exists
                                        dnames dnames_pass fnames_filtered s
                                 else skip [] s))
                        (\<lambda>s. if dnames \<noteq> [] \<and> lt_bound depth (maxdepth w)
                              then walk_children env w es dnames_pass srcdir dstdir (depth + 1)
                                     (if dmatch_depth1 < 0 then dmatch_depth1 else 1)
                                     (if dmatch_depth1 \<le> 0 then dmatch_depth1 else dmatch_depth1 + 1) s
                              else skip [] s))))"
| "walk_children env w [] dnames_pass srcdir dstdir depth_next dmd_pass dmd_fail s = Inr ([], s)"
| "walk_children env w (File pname # es) dnames_pass srcdir dstdir depth_next dmd_pass dmd_fail s =
     walk_children env w es dnames_pass srcdir dstdir depth_next dmd_pass dmd_fail s"
| "walk_children env w (Direc dn sub # es) dnames_pass srcdir dstdir depth_next dmd_pass dmd_fail s =
     (case (case dnames_pass of
              None \<Rightarrow> Inr (True, None)
            | Some [] \<Rightarrow> Inl IndexError
            | Some (b # bs) \<Rightarrow> Inr (b, Some bs)) of
        Inl e \<Rightarrow> Inl e
      | Inr (pass_i, dnames_pass_rest) \<Rightarrow>
          (let srcdir_next = os_path_join srcdir dn;
               dmatch_depth_next = (if pass_i then dmd_pass else dmd_fail);
               dstdir_next =
                 (case dstdir of
                    None \<Rightarrow> None
                  | Some d \<Rightarrow>
                      (if collapse_tree_inst w then Some d
                       else Some (os_path_join d
                              (resub_name (resub_function w) (dname_resub w) dn))))
           in seq (walk_rec env w sub srcdir_next dstdir_next depth_next dmatch_depth_next s)
                  (walk_children env w es dnames_pass_rest srcdir dstdir depth_next dmd_pass dmd_fail)))"

text \<open>
  \<^verbatim>\<open>WalkObject.walk\<close>, run to exhaustion. \<open>src\<close> is the listing of the source
  directory, or None when \<^verbatim>\<open>os.path.isdir(srcdir)\<close> is false; the paths are taken as
  \<^verbatim>\<open>os.path.normpath(os.path.expanduser(.))\<close> returns them. The attribute
  \<^verbatim>\<open>self.copy_method.copy_overwrite\<close> is read whether or not a copy method is set.
\<close>

definition walk ::
  "'s os_env \<Rightarrow> 'p WalkObject \<Rightarrow> node list option \<Rightarrow> path \<Rightarrow> path option
     \<Rightarrow> bool option \<Rightarrow> bool option \<Rightarrow> bool option \<Rightarrow> 's \<Rightarrow> 's run" where
  "walk env w src srcdir dstdir copy_overwrite_arg transplant_tree_arg collapse_tree_arg s =
     (case (case copy_overwrite_arg of
              Some b \<Rightarrow> Inr b
            | None \<Rightarrow>
                (case copy_method w of
                   None \<Rightarrow> Inl AttributeError
                 | Some cm \<Rightarrow> Inr (copy_overwrite cm))) of
        Inl e \<Rightarrow> Inl e
      | Inr ow \<Rightarrow>
          (let transplant = (case transplant_tree_arg of None \<Rightarrow> transplant_tree w | Some b \<Rightarrow> b);
               collapse = (case collapse_tree_arg of None \<Rightarrow> collapse_tree w | Some b \<Rightarrow> b)
           in case src of
                None \<Rightarrow> Inl (InvalidArgumentError ''srcdir directory does not exist'')
              | Some es \<Rightarrow>
                  (case (if transplant then
                           (case dstdir of
                              None \<Rightarrow> Inl TypeError
                            | Some d \<Rightarrow> Inr (Some (os_path_join d (os_path_basename srcdir))))
                         else Inr dstdir) of
                     Inl e \<Rightarrow> Inl e
                   | Inr dstdir1 \<Rightarrow>
                       (case copy_method w of
                          None \<Rightarrow> Inl AttributeError
                        | Some cm \<Rightarrow>
                            (let inst = (if ow \<noteq> copy_overwrite cm
                                         then set_options (Some ow) None None None (CopyMethod_copy cm)
                                         else cm);
                                 w1 = w\<lparr> copy_method_inst := Some inst, collapse_tree_inst := collapse \<rparr>
                             in seq (case dstdir1 of
                                       None \<Rightarrow> skip [] s
                                     | Some d \<Rightarrow>
                                         (if os_path_isdir env s d
                                          then prim (OsMakedirs d) (os_makedirs env d s)
                                          else skip [] s))
                                    (walk_rec env w1 es srcdir dstdir1 1
                                       (if dmatch_nomaxdepth w then - 1 else 0)))))))"

section \<open>A concrete file system\<close>

text \<open>
  A small file system to run the code on: the set of directories and the contents of
  the regular files, by path. \<^verbatim>\<open>os.makedirs\<close> raises FileExistsError on an
  existing path and creates the missing ancestors otherwise; \<^verbatim>\<open>filecmp.cmp\<close>
  compares contents; the copy functions need the source file and the parent directory of
  the destination. Shell commands and format strings are not interpreted: they raise.
\<close>

record fs =
  fs_dirs :: "path set"
  fs_files :: "path \<rightharpoonup> string"

fun ancestors_from :: "string \<Rightarrow> string \<Rightarrow> string list" where
  "ancestors_from acc [] = []"
| "ancestors_from acc (c # cs) =
     (if c = CHR ''/'' \<and> acc \<noteq> [] then [rev acc] else []) @ ancestors_from (c # acc) cs"

definition ancestors :: "path \<Rightarrow> path list" where
  "ancestors p = ancestors_from [] p"

definition os_path_dirname :: "path \<Rightarrow> path" where
  "os_path_dirname p =
     (let head = rev (dropWhile (\<lambda>c. c \<noteq> CHR ''/'') (rev p))
      in if head \<noteq> [] \<and> filter (\<lambda>c. c \<noteq> CHR ''/'') head \<noteq> []
         then rev (dropWhile (\<lambda>c. c = CHR ''/'') (rev head))
         else head)"

definition fs_exists :: "fs \<Rightarrow> path \<Rightarrow> bool" where
  "fs_exists s p = (p \<in> fs_dirs s \<or> fs_files s p \<noteq> None)"

definition fs_makedirs :: "path \<Rightarrow> fs \<Rightarrow> error + fs" where
  "fs_makedirs p s =
     (if fs_exists s p then Inl (FileExistsError p)
      else if list_ex (\<lambda>a. fs_files s a \<noteq> None) (ancestors p) then Inl (NotADirectoryError p)
      else Inr (s\<lparr> fs_dirs := fs_dirs s \<union> set (ancestors p) \<union> {p} \<rparr>))"

definition fs_remove :: "path \<Rightarrow> fs \<Rightarrow> error + fs" where
  "fs_remove p s =
     (if fs_files s p = None then Inl (FileNotFoundError p)
      else Inr (s\<lparr> fs_files := (fs_files s)(p := None) \<rparr>))"

definition fs_filecmp :: "fs \<Rightarrow> path \<Rightarrow> path \<Rightarrow> error + bool" where
  "fs_filecmp s a b =
     (if \<not> fs_exists s a then Inl (FileNotFoundError a)
      else if \<not> fs_exists s b then Inl (FileNotFoundError b)
      else (case (fs_files s a, fs_files s b) of
              (Some x, Some y) \<Rightarrow> Inr (x = y)
            | _ \<Rightarrow> Inr False))"

definition fs_put :: "path \<Rightarrow> path \<Rightarrow> bool \<Rightarrow> bool \<Rightarrow> fs \<Rightarrow> error + fs" where
  "fs_put src dst fresh move s =
     (case fs_files s src of
        None \<Rightarrow> Inl (FileNotFoundError src)
      | Some content \<Rightarrow>
          (if fresh \<and> fs_exists s dst then Inl (FileExistsError dst)
           else if os_path_dirname dst \<noteq> [] \<and> os_path_dirname dst \<notin> fs_dirs s
           then Inl (FileNotFoundError dst)
           else Inr (s\<lparr> fs_files :=
                         (if move then ((fs_files s)(dst \<mapsto> content))(src := None)
                          else (fs_files s)(dst \<mapsto> content)) \<rparr>)))"

definition fs_call_copy_fn :: "copy_fn \<Rightarrow> path \<Rightarrow> path \<Rightarrow> fs \<Rightarrow> error + fs" where
  "fs_call_copy_fn f a b s =
     (case f of
        OsLink \<Rightarrow> fs_put a b True False s
      | OsSymlink \<Rightarrow> fs_put a b True False s
      | ShutilMove \<Rightarrow> fs_put a b False True s
      | UserFn n \<Rightarrow> Inr s
      | _ \<Rightarrow> fs_put a b False False s)"

definition fs_env :: "fs os_env" where
  "fs_env =
     \<lparr> os_path_isfile = (\<lambda>s p. fs_files s p \<noteq> None),
       os_path_isdir = (\<lambda>s p. p \<in> fs_dirs s),
       filecmp_cmp = fs_filecmp,
       os_remove = fs_remove,
       os_makedirs = fs_makedirs,
       call_copy_fn = fs_call_copy_fn,
       execute_command = (\<lambda>c s. Inl (ExternalError c)),
       str_format = (\<lambda>f a b. Inl ValueError) \<rparr>"

section \<open>Concrete inputs\<close>

text \<open>
  Patterns that are literal names: a pattern matches the name equal to it (a full
  match), is found in the names that contain it, and substitution replaces a name equal
  to the pattern.
\<close>

definition literal_re :: "string re_lib" where
  "literal_re =
     \<lparr> re_fullmatch = (\<lambda>p name. name = p),
       re_search = (\<lambda>p name. str_contains name p),
       re_sub = (\<lambda>p repl name. if name = p then repl else name) \<rparr>"

text \<open>The default arguments of \<^verbatim>\<open>WalkObject.__init__\<close>.\<close>

definition default_walk_args :: "string walk_args" where
  "default_walk_args =
     \<lparr> arg_mindepth = 0, arg_maxdepth = Infinity, arg_dmatch_maxdepth = None,
       arg_fmatch = None, arg_fmatch_re = None, arg_fexcl = None, arg_fexcl_re = None,
       arg_dmatch = None, arg_dmatch_re = None, arg_dexcl = None, arg_dexcl_re = None,
       arg_fsub = None, arg_dsub = None,
       arg_copy_method = None, arg_copy_overwrite = False,
       arg_transplant_tree = False, arg_collapse_tree = False,
       arg_copy_dryrun = False, arg_copy_silent = False, arg_copy_debug = False,
       arg_mkdir_upon_file_copy = False, arg_allow_nonstd_shprogs = False,
       arg_copy_shcmd_fmtstr = None, arg_list_function = None,
       arg_rematch_function = None, arg_resub_function = None,
       arg_rematch_partial = False \<rparr>"

text \<open>
  Two states with a source file and an existing destination file: in \<open>fs_same\<close> the
  two have the same contents, in \<open>fs_diff\<close> they differ.
\<close>

definition fs_same :: fs where
  "fs_same = \<lparr> fs_dirs = {''/'', ''/src'', ''/dst''},
               fs_files = [''/src/a'' \<mapsto> ''data'', ''/dst/a'' \<mapsto> ''data''] \<rparr>"

definition fs_diff :: fs where
  "fs_diff = \<lparr> fs_dirs = {''/'', ''/src'', ''/dst''},
               fs_files = [''/src/a'' \<mapsto> ''data'', ''/dst/a'' \<mapsto> ''old''] \<rparr>"

text \<open>
  The walkers that \<^verbatim>\<open>WalkObject(copy_method='copy')\<close> and
  \<^verbatim>\<open>WalkObject(copy_method='copy', copy_dryrun=True)\<close> construct, a source tree
  \<^verbatim>\<open>/src\<close> with a file and a subdirectory holding a file, and the file system that
  has this tree and no \<^verbatim>\<open>/dst\<close>.
\<close>

definition walker_args :: "string walk_args" where
  "walker_args = default_walk_args\<lparr> arg_copy_method := Some (CMStr ''copy'') \<rparr>"

definition walker_copy :: "string WalkObject" where
  "walker_copy =
     \<lparr> mindepth = 0, maxdepth = Infinity, dmatch_maxdepth = Infinity, dmatch_nomaxdepth = True,
       fname_rematch = [], fname_reexcl = [], dname_rematch = [], dname_reexcl = [],
       fname_resub = None, dname_resub = None,
       copy_method = Some COPY_METHOD_COPY_DEFAULT,
       copy_method_inst = Some COPY_METHOD_COPY_DEFAULT,
       transplant_tree = False, collapse_tree = False, collapse_tree_inst = False,
       mkdir_upon_file_copy = False, list_function = OsScandir,
       rematch_function = re_fullmatch literal_re, resub_function = re_sub literal_re \<rparr>"

definition walker_dryrun :: "string WalkObject" where
  "walker_dryrun =
     walker_copy\<lparr> copy_method := Some (COPY_METHOD_COPY_DEFAULT\<lparr> dryrun := True \<rparr>),
                  copy_method_inst := Some (COPY_METHOD_COPY_DEFAULT\<lparr> dryrun := True \<rparr>) \<rparr>"

definition src_tree :: "node list" where
  "src_tree = [File ''a.txt'', Direc ''sub'' [File ''b.txt'']]"

definition fs_src :: fs where
  "fs_src = \<lparr> fs_dirs = {''/'', ''/src'', ''/src/sub''},
              fs_files = [''/src/a.txt'' \<mapsto> ''A'', ''/src/sub/b.txt'' \<mapsto> ''B''] \<rparr>"

definition fs_copied :: fs where
  "fs_copied = \<lparr> fs_dirs = {''/dst/sub'', ''/dst'', ''/'', ''/src'', ''/src/sub''},
                 fs_files = [''/src/a.txt'' \<mapsto> ''A'', ''/src/sub/b.txt'' \<mapsto> ''B'',
                             ''/dst/a.txt'' \<mapsto> ''A'', ''/dst/sub/b.txt'' \<mapsto> ''B''] \<rparr>"

section \<open>The calls of the recursive walk, unfolded\<close>

text \<open>
  A proof device, taken from the code and not from the specification: the list of the
  calls of \<^verbatim>\<open>_walk\<close> that a traversal makes, in order, each with the arguments of the
  call (source and destination directory, depth counter) and the flag
  \<open>srcdname_passes\<close> that the code computes there from \<open>dmatch_depth\<close>; and the
  transfer calls and the yield that one such call contributes. The traversal is first
  shown to follow this list, and the list is then compared with the reference of the
  next section.
\<close>

fun file_names :: "node list \<Rightarrow> string list" where
  "file_names [] = []"
| "file_names (File n # es) = n # file_names es"
| "file_names (Direc n sub # es) = file_names es"

fun dir_names :: "node list \<Rightarrow> string list" where
  "dir_names [] = []"
| "dir_names (File n # es) = dir_names es"
| "dir_names (Direc n sub # es) = n # dir_names es"

datatype visit = Visit path "path option" int bool "node list"

fun visits ::
  "'p WalkObject \<Rightarrow> node list \<Rightarrow> path \<Rightarrow> path option \<Rightarrow> int \<Rightarrow> int \<Rightarrow> visit list"
and visits_children ::
  "'p WalkObject \<Rightarrow> node list \<Rightarrow> path \<Rightarrow> path option \<Rightarrow> int \<Rightarrow> int \<Rightarrow> int \<Rightarrow> visit list"
where
  "visits w es srcdir dstdir depth dmatch_depth =
     (if gt_bound depth (maxdepth w) then []
      else
        (let dmatch_depth1 = root_dmatch_depth w srcdir depth dmatch_depth
         in Visit srcdir dstdir depth (srcdname_passes w dmatch_depth1) es
            # (if lt_bound depth (maxdepth w)
               then visits_children w es srcdir dstdir (depth + 1)
                      (if dmatch_depth1 < 0 then dmatch_depth1 else 1)
                      (if dmatch_depth1 \<le> 0 then dmatch_depth1 else dmatch_depth1 + 1)
               else [])))"
| "visits_children w [] srcdir dstdir depth_next dmd_pass dmd_fail = []"
| "visits_children w (File n # es) srcdir dstdir depth_next dmd_pass dmd_fail =
     visits_children w es srcdir dstdir depth_next dmd_pass dmd_fail"
| "visits_children w (Direc dn sub # es) srcdir dstdir depth_next dmd_pass dmd_fail =
     visits w sub (os_path_join srcdir dn)
       (case dstdir of
          None \<Rightarrow> None
        | Some d \<Rightarrow>
            (if collapse_tree_inst w then Some d
             else Some (os_path_join d (resub_name (resub_function w) (dname_resub w) dn))))
       depth_next (if dname_match w dn then dmd_pass else dmd_fail)
     @ visits_children w es srcdir dstdir depth_next dmd_pass dmd_fail"


definition is_walk_event :: "event \<Rightarrow> bool" where
  "is_walk_event ev = (case ev of ExecCall a b \<Rightarrow> True | Yield p dns fns \<Rightarrow> True | _ \<Rightarrow> False)"


text \<open>
  The object as \<^verbatim>\<open>walk\<close> leaves it for the run (\<open>copy_method_inst\<close> with the
  overwrite option of the call, \<open>collapse_tree_inst\<close>), and the destination root of the
  run (under \<open>transplant_tree\<close>, the basename of the source is appended).
\<close>

definition run_object :: "'p WalkObject \<Rightarrow> bool option \<Rightarrow> bool option \<Rightarrow> 'p WalkObject" where
  "run_object w copy_overwrite_arg collapse_tree_arg =
     w\<lparr> copy_method_inst :=
          (case copy_method w of
             None \<Rightarrow> None
           | Some cm \<Rightarrow>
               Some (if (case copy_overwrite_arg of None \<Rightarrow> copy_overwrite cm | Some b \<Rightarrow> b)
                        \<noteq> copy_overwrite cm
                     then set_options copy_overwrite_arg None None None (CopyMethod_copy cm)
                     else cm)),
        collapse_tree_inst :=
          (case collapse_tree_arg of None \<Rightarrow> collapse_tree w | Some b \<Rightarrow> b) \<rparr>"


text \<open>
  A deeper source tree, \<^verbatim>\<open>/src/sub/deep/c.txt\<close> below the files of \<open>src_tree\<close>,
  and the file system that holds it.
\<close>

definition deep_tree :: "node list" where
  "deep_tree = [File ''a.txt'', Direc ''sub'' [File ''b.txt'', Direc ''deep'' [File ''c.txt'']]]"

definition fs_deep :: fs where
  "fs_deep = \<lparr> fs_dirs = {''/'', ''/src'', ''/src/sub'', ''/src/sub/deep''},
               fs_files = [''/src/a.txt'' \<mapsto> ''A'', ''/src/sub/b.txt'' \<mapsto> ''B'',
                           ''/src/sub/deep/c.txt'' \<mapsto> ''C''] \<rparr>"

section \<open>What a traversal is expected to yield and transfer\<close>

text \<open>
  The reference, written from the specification. What is observed of a traversal is the
  sequence of its transfers (the source file of every call of \<^verbatim>\<open>CopyMethod.exec\<close>)
  and of its yields (the directory and its yielded file list).
\<close>

datatype observation = Transferred path | Yielded path "string list"

fun observe :: "event list \<Rightarrow> observation list" where
  "observe [] = []"
| "observe (ExecCall a b # evs) = Transferred a # observe evs"
| "observe (Yield p dns fns # evs) = Yielded p fns # observe evs"
| "observe (ev # evs) = observe evs"

text \<open>
  A name passes the include/exclude rules when it matches one of the include patterns
  (or there is none) and none of the exclude patterns.
\<close>

definition dir_name_ok :: "'p WalkObject \<Rightarrow> string \<Rightarrow> bool" where
  "dir_name_ok w n =
     ((dname_rematch w = [] \<or> list_ex (\<lambda>p. rematch_function w p n) (dname_rematch w))
      \<and> list_all (\<lambda>p. \<not> rematch_function w p n) (dname_reexcl w))"

definition file_name_ok :: "'p WalkObject \<Rightarrow> string \<Rightarrow> bool" where
  "file_name_ok w n =
     ((fname_rematch w = [] \<or> list_ex (\<lambda>p. rematch_function w p n) (fname_rematch w))
      \<and> list_all (\<lambda>p. \<not> rematch_function w p n) (fname_reexcl w))"

text \<open>
  Directory matching, by names. A directory is given by the names on its path, its own
  name first and the name of the source root last. \<open>match_age\<close> is 1 when the
  directory's own name passes the directory rules, and otherwise one more than the age
  of its parent; it is undefined when no directory on the path passes. A directory
  passes directory matching when its age is defined and at most \<open>dmatch_maxdepth\<close>.
  When \<open>dmatch_nomaxdepth\<close> is set (no include pattern for directories was given, or
  no copy method and no \<open>dmatch_maxdepth\<close>), the names are not looked at.
\<close>

fun match_age :: "(string \<Rightarrow> bool) \<Rightarrow> string list \<Rightarrow> nat option" where
  "match_age ok [] = None"
| "match_age ok (n # parents) = (if ok n then Some 1 else map_option Suc (match_age ok parents))"

definition passes_matching :: "'p WalkObject \<Rightarrow> string list \<Rightarrow> bool" where
  "passes_matching w names =
     (if dmatch_nomaxdepth w then le_bound (- 1) (dmatch_maxdepth w)
      else (case match_age (dir_name_ok w) names of
              None \<Rightarrow> False
            | Some a \<Rightarrow> le_bound (int a) (dmatch_maxdepth w)))"

text \<open>
  The expected observations of the traversal of a directory and of everything below it.
  The depth counter of a directory is the length of its path of names: 1 at the source
  root, \<open>k + 1\<close> for a directory \<open>k\<close> levels below it. The directories whose counter is
  at most \<open>maxdepth\<close> are taken in pre-order (parent before children, siblings in listing
  order). Such a directory contributes when its counter is at least \<open>mindepth\<close>: one
  transfer for each of its files that passes the file rules, in listing order, when the
  directory passes directory matching and a destination is configured (\<open>to_dst\<close>), and
  then one yield whose file list is exactly those files (empty when the directory does
  not pass).
\<close>

fun expected ::
  "'p WalkObject \<Rightarrow> bool \<Rightarrow> string list \<Rightarrow> path \<Rightarrow> node list \<Rightarrow> observation list"
and expected_below ::
  "'p WalkObject \<Rightarrow> bool \<Rightarrow> string list \<Rightarrow> path \<Rightarrow> node list \<Rightarrow> observation list"
where
  "expected w to_dst names srcdir es =
     (if le_bound (int (length names)) (maxdepth w) then
        (if mindepth w \<le> int (length names) then
           (let files = (if passes_matching w names
                         then filter (file_name_ok w) (file_names es) else [])
            in (if to_dst then map (\<lambda>f. Transferred (os_path_join srcdir f)) files else [])
               @ [Yielded srcdir files])
         else [])
        @ expected_below w to_dst names srcdir es
      else [])"
| "expected_below w to_dst names srcdir [] = []"
| "expected_below w to_dst names srcdir (File n # es) = expected_below w to_dst names srcdir es"
| "expected_below w to_dst names srcdir (Direc dn sub # es) =
     expected w to_dst (dn # names) (os_path_join srcdir dn) sub
     @ expected_below w to_dst names srcdir es"

text \<open>
  What the directories one level below the source root contribute, in listing order:
  for each, the transfers of its files that pass (when it passes directory matching and
  a destination is configured), then its yield. Nothing stands here for the source root
  or for a directory two or more levels below it.
\<close>

fun level_one ::
  "'p WalkObject \<Rightarrow> bool \<Rightarrow> string \<Rightarrow> path \<Rightarrow> node list \<Rightarrow> observation list" where
  "level_one w to_dst root srcdir [] = []"
| "level_one w to_dst root srcdir (File n # es) = level_one w to_dst root srcdir es"
| "level_one w to_dst root srcdir (Direc dn sub # es) =
     (let files = (if passes_matching w [dn, root]
                   then filter (file_name_ok w) (file_names sub) else [])
      in (if to_dst then map (\<lambda>f. Transferred (os_path_join (os_path_join srcdir dn) f)) files
          else [])
         @ [Yielded (os_path_join srcdir dn) files])
     @ level_one w to_dst root srcdir es"


text \<open>
  A walker with a directory pattern: \<^verbatim>\<open>WalkObject(copy_method='copy', dmatch=['sub'],
  dmatch_maxdepth=1)\<close>.
\<close>

definition walker_match :: "string WalkObject" where
  "walker_match =
     walker_copy\<lparr> dname_rematch := [''sub''], dmatch_maxdepth := Finite 1,
                  dmatch_nomaxdepth := False \<rparr>"

section \<open>Task bundles\<close>

text \<open>
  Bundle files live in a store of text files, kept as the list of writes (the newest
  first; reading a path finds its newest write). A task is the tuple of its items. The
  time stamp of the file names is an input.

  Both functions try \<^verbatim>\<open>import numpy\<close> and, when that succeeds, write with
  \<^verbatim>\<open>np.savetxt\<close> and (under \<^verbatim>\<open>ncol_strict\<close>) read with \<^verbatim>\<open>np.loadtxt\<close>. numpy is
  not code of this repository: whether it can be imported and what its two functions do
  are parameters. \<open>np_savetxt\<close> gives the text written for a bundle, a format and a
  delimiter, or the exception raised; \<open>np_loadtxt\<close> is called with the text of the
  file, the delimiter, \<^verbatim>\<open>skiprows\<close> and \<^verbatim>\<open>max_rows\<close> (with \<^verbatim>\<open>dtype=str\<close> and
  \<^verbatim>\<open>ndmin=2\<close>) and gives the array, as its number of columns and its rows, or the
  \<^verbatim>\<open>ValueError\<close> whose message starts with \<^verbatim>\<open>Wrong number of columns\<close>, or another
  exception.
\<close>

type_synonym file_store = "(path \<times> string) list"

datatype loadtxt_result = Loaded nat "string list list" | WrongColumns | LoadError error

record numpy_env =
  imported_numpy :: bool
  np_savetxt :: "string list list \<Rightarrow> string \<Rightarrow> string \<Rightarrow> error + string"
  np_loadtxt :: "string \<Rightarrow> string option \<Rightarrow> nat \<Rightarrow> nat option \<Rightarrow> loadtxt_result"

definition zero_pad :: "nat \<Rightarrow> string \<Rightarrow> string" where
  "zero_pad width s = replicate (width - length s) (CHR ''0'') @ s"

text \<open>
  \<^verbatim>\<open>get_index_fmtstr(num_items, min_digits)\<close> returns the format string
  \<^verbatim>\<open>'{:0>W}'\<close> with \<open>W = max(min_digits, len(str(num_items)))\<close>; here it is the
  function that \<^verbatim>\<open>.format\<close> of that string computes on a number.
\<close>

definition get_index_width :: "nat \<Rightarrow> nat \<Rightarrow> nat" where
  "get_index_width num_items min_digits = max min_digits (length (str_nat num_items))"

definition get_index_fmtstr :: "nat \<Rightarrow> nat \<Rightarrow> nat \<Rightarrow> string" where
  "get_index_fmtstr num_items min_digits j = zero_pad (get_index_width num_items min_digits) (str_nat j)"

text \<open>
  What the loop body writes to one bundle file: nothing for an empty bundle, what
  \<^verbatim>\<open>np.savetxt\<close> writes when numpy was imported, and otherwise one line per task, the
  items joined by the delimiter (\<open>bundle_text\<close>).
\<close>

definition bundle_text :: "string \<Rightarrow> string list list \<Rightarrow> string" where
  "bundle_text task_delim task_bundle =
     concat (map (\<lambda>task. py_join task_delim task @ [CHR 0x0A]) task_bundle)"

definition bundle_content ::
  "numpy_env \<Rightarrow> string \<Rightarrow> string \<Rightarrow> string list list \<Rightarrow> error + string" where
  "bundle_content np task_delim task_fmt task_bundle =
     (if length task_bundle = 0 then Inr []
      else if imported_numpy np then np_savetxt np task_bundle task_fmt task_delim
      else Inr (bundle_text task_delim task_bundle))"

text \<open>
  The loop \<^verbatim>\<open>for jobnum, tasknum in enumerate(range(0, len(task_list), tasks_per_bundle), 1)\<close>,
  for a positive step.
\<close>

function write_bundles_from ::
  "numpy_env \<Rightarrow> string list list \<Rightarrow> nat \<Rightarrow> (nat \<Rightarrow> string) \<Rightarrow> string \<Rightarrow> string \<Rightarrow> string
     \<Rightarrow> nat \<Rightarrow> nat \<Rightarrow> file_store \<Rightarrow> error + (path list \<times> file_store)" where
  "write_bundles_from np task_list tasks_per_bundle jobnum_fmt bundle_prefix task_delim task_fmt
       jobnum tasknum files =
     (if 0 < tasks_per_bundle \<and> tasknum < length task_list then
        (let bundle_file = bundle_prefix @ ''_'' @ jobnum_fmt jobnum @ ''.txt'';
             task_bundle = take tasks_per_bundle (drop tasknum task_list)
         in case bundle_content np task_delim task_fmt task_bundle of
              Inl e \<Rightarrow> Inl e
            | Inr content \<Rightarrow>
                (case write_bundles_from np task_list tasks_per_bundle jobnum_fmt bundle_prefix
                        task_delim task_fmt (jobnum + 1) (tasknum + tasks_per_bundle)
                        ((bundle_file, content) # files) of
                   Inl e \<Rightarrow> Inl e
                 | Inr (bundle_file_list, files2) \<Rightarrow> Inr (bundle_file # bundle_file_list, files2)))
      else Inr ([], files))"
  by pat_completeness auto
termination
  by (relation "measure (\<lambda>(np, task_list, tasks_per_bundle, jobnum_fmt, bundle_prefix, task_delim,
                           task_fmt, jobnum, tasknum, files). length task_list - tasknum)") auto

declare write_bundles_from.simps [simp del]

text \<open>
  \<^verbatim>\<open>write_task_bundles\<close>. When numpy cannot be imported, any format but the default
  \<^verbatim>\<open>'%s'\<close> re-raises the \<^verbatim>\<open>ImportError\<close>.
  \<open>int(math.ceil(len(task_list) / float(tasks_per_bundle)))\<close> is the exact ceiling of
  the quotient; the division raises on a zero bundle size, and a negative one gives an
  empty range.
\<close>

definition write_task_bundles ::
  "numpy_env \<Rightarrow> string list list \<Rightarrow> int \<Rightarrow> path \<Rightarrow> string \<Rightarrow> string \<Rightarrow> string \<Rightarrow> string
     \<Rightarrow> file_store \<Rightarrow> error + (path list \<times> file_store)" where
  "write_task_bundles np task_list tasks_per_bundle dstdir bundle_prefix now task_delim task_fmt
       files =
     (if \<not> imported_numpy np \<and> task_fmt \<noteq> ''%s'' then Inl ImportError
      else if tasks_per_bundle = 0 then Inl ZeroDivisionError
      else if tasks_per_bundle < 0 then Inr ([], files)
      else
        (let bundle_prefix1 = os_path_join dstdir (bundle_prefix @ ''_'' @ now);
             jobnum_total = (length task_list + nat tasks_per_bundle - 1) div nat tasks_per_bundle;
             jobnum_fmt = get_index_fmtstr jobnum_total 3
         in write_bundles_from np task_list (nat tasks_per_bundle) jobnum_fmt bundle_prefix1
              task_delim task_fmt 1 0 files))"

text \<open>\<^verbatim>\<open>str.splitlines()\<close> on the code points below 256.\<close>

definition is_linebreak :: "char \<Rightarrow> bool" where
  "is_linebreak c = (c \<in> set [CHR 0x0A, CHR 0x0D, CHR 0x0B, CHR 0x0C, CHR 0x1C, CHR 0x1D,
                               CHR 0x1E, CHR 0x85])"

fun splitlines_from :: "string \<Rightarrow> string \<Rightarrow> string list" where
  "splitlines_from acc [] = (if acc = [] then [] else [rev acc])"
| "splitlines_from acc [c] = (if is_linebreak c then [rev acc] else [rev (c # acc)])"
| "splitlines_from acc (c # d # ds) =
     (if c = CHR 0x0D \<and> d = CHR 0x0A then rev acc # splitlines_from [] ds
      else if is_linebreak c then rev acc # splitlines_from [] (d # ds)
      else splitlines_from (c # acc) (d # ds))"

definition splitlines :: "string \<Rightarrow> string list" where
  "splitlines s = splitlines_from [] s"

text \<open>
  Reading in text mode turns \<^verbatim>\<open>\r\n\<close> and \<^verbatim>\<open>\r\<close> into \<^verbatim>\<open>\n\<close>;
  \<^verbatim>\<open>readline\<close> then reads up to the next \<^verbatim>\<open>\n\<close>, and past the end returns the
  empty string. \<open>text_line s i\<close> is the \<open>i\<close>-th such line without its terminator.
\<close>

fun universal_newlines :: "string \<Rightarrow> string" where
  "universal_newlines [] = []"
| "universal_newlines [c] = (if c = CHR 0x0D then [CHR 0x0A] else [c])"
| "universal_newlines (c # d # ds) =
     (if c = CHR 0x0D \<and> d = CHR 0x0A then CHR 0x0A # universal_newlines ds
      else if c = CHR 0x0D then CHR 0x0A # universal_newlines (d # ds)
      else c # universal_newlines (d # ds))"

definition text_line :: "string \<Rightarrow> nat \<Rightarrow> string" where
  "text_line s i =
     (let ls = split_from [CHR 0x0A] [] (universal_newlines s)
      in if i < length ls then ls ! i else [])"

datatype task_row = Bare string | Cols "string list"

fun sequence_sum :: "(error + 'a) list \<Rightarrow> error + 'a list" where
  "sequence_sum [] = Inr []"
| "sequence_sum (x # xs) =
     (case x of
        Inl e \<Rightarrow> Inl e
      | Inr v \<Rightarrow> (case sequence_sum xs of Inl e \<Rightarrow> Inl e | Inr vs \<Rightarrow> Inr (v # vs)))"

text \<open>
  \<^verbatim>\<open>read_task_bundle\<close> with \<^verbatim>\<open>args_dtype=str\<close>. Under \<^verbatim>\<open>ncol_strict\<close> and with
  numpy imported the file is read by \<^verbatim>\<open>np.loadtxt\<close>; otherwise its lines are split.
  There, when a column bound is given, \<open>task_list_ncols\<close> holds the list of the column
  counts (or their common value) and is never \<^verbatim>\<open>None\<close>, so differing counts do not
  raise. The comparisons of \<open>task_list_ncols_min\<close> and \<open>task_list_ncols_max\<close> with the
  bounds raise TypeError when the counts were never set.
\<close>

definition read_task_bundle ::
  "numpy_env \<Rightarrow> file_store \<Rightarrow> path \<Rightarrow> string option \<Rightarrow> nat \<Rightarrow> bool \<Rightarrow> nat option \<Rightarrow> nat option
     \<Rightarrow> bool \<Rightarrow> bool \<Rightarrow> error + task_row list" where
  "read_task_bundle np files bundle_file args_delim header_rows ncol_strict ncol_min ncol_max
     allow_1d_task_list read_header =
     (case map_of files bundle_file of
        None \<Rightarrow> Inl (FileNotFoundError bundle_file)
      | Some content \<Rightarrow>
          (case (if ncol_strict \<and> imported_numpy np then
                   (case np_loadtxt np content args_delim
                           (if read_header then 0 else header_rows)
                           (if read_header then Some header_rows else None) of
                      WrongColumns \<Rightarrow>
                        Inl (DimensionError ''Inconsistent number of columns in bundle_file'')
                    | LoadError e \<Rightarrow> Inl e
                    | Loaded task_list_ncols rows \<Rightarrow>
                        (if (case ncol_min of None \<Rightarrow> False | Some lo \<Rightarrow> task_list_ncols < lo)
                         then Inl (DimensionError ''bundle_file line has less columns than required minimum'')
                         else if (case ncol_max of None \<Rightarrow> False | Some hi \<Rightarrow> task_list_ncols > hi)
                         then Inl (DimensionError ''bundle_file line has more columns than required maximum'')
                         else Inr (if allow_1d_task_list \<and> task_list_ncols = 1
                                   then map (\<lambda>row. Bare (hd row)) rows
                                   else map Cols rows,
                                   Some task_list_ncols, Some task_list_ncols)))
                 else
                   (let task_lines =
                          (if read_header
                           then filter (\<lambda>l. l \<noteq> [])
                                  (map (\<lambda>i. strip (text_line content i)) [0..<header_rows])
                           else (let ls = filter (\<lambda>l. strip l \<noteq> []) (splitlines content)
                                 in if header_rows > 0 \<and> length ls > 0 then drop header_rows ls
                                    else ls))
                    in if length task_lines > 0 then
                         (case args_delim of
                            Some delim \<Rightarrow>
                              (case sequence_sum (map (\<lambda>task. py_split task delim) task_lines) of
                                 Inl e \<Rightarrow> Inl e
                               | Inr split_lines \<Rightarrow>
                                   (let rows = map (map strip) split_lines;
                                        ncols = map length rows;
                                        counted = (ncol_min \<noteq> None \<or> ncol_max \<noteq> None);
                                        ncols_min = (if counted then Some (Min (set ncols)) else None);
                                        ncols_max = (if counted then Some (Max (set ncols)) else None);
                                        task_list_ncols_is_None =
                                          (if counted then False
                                           else if ncol_strict
                                           then \<not> list_all (\<lambda>task. length task = length (hd rows)) rows
                                           else True)
                                    in if ncol_strict \<and> task_list_ncols_is_None
                                       then Inl (DimensionError ''Inconsistent number of columns in bundle_file'')
                                       else Inr (if allow_1d_task_list \<and> \<not> read_header
                                                 then map (\<lambda>task. if length task = 1 then Bare (hd task)
                                                                   else Cols task) rows
                                                 else map Cols rows,
                                                 ncols_min, ncols_max)))
                          | None \<Rightarrow>
                              Inr (if \<not> allow_1d_task_list \<or> read_header
                                   then map (\<lambda>arg. Cols [strip arg]) task_lines
                                   else map (\<lambda>arg. Bare (strip arg)) task_lines,
                                   None, None))
                       else Inr ([], None, None))) of
             Inl e \<Rightarrow> Inl e
           | Inr (task_list, ncols_min, ncols_max) \<Rightarrow>
               (case (case ncol_min of
                        None \<Rightarrow> Inr ()
                      | Some lo \<Rightarrow>
                          (case ncols_min of
                             None \<Rightarrow> Inl TypeError
                           | Some m \<Rightarrow>
                               if m < lo
                               then Inl (DimensionError ''bundle_file line has less columns than required minimum'')
                               else Inr ())) of
                  Inl e \<Rightarrow> Inl e
                | Inr u \<Rightarrow>
                    (case (case ncol_max of
                             None \<Rightarrow> Inr ()
                           | Some hi \<Rightarrow>
                               (case ncols_max of
                                  None \<Rightarrow> Inl TypeError
                                | Some m \<Rightarrow>
                                    if m > hi
                                    then Inl (DimensionError ''bundle_file line has more columns than required maximum'')
                                    else Inr ())) of
                       Inl e \<Rightarrow> Inl e
                     | Inr u \<Rightarrow>
                         Inr (if read_header
                              then (case task_list of
                                      [Cols items] \<Rightarrow> map Bare items
                                    | _ \<Rightarrow> task_list)
                              else task_list)))))"

text \<open>
  Reading every bundle file with the default arguments of \<^verbatim>\<open>read_task_bundle\<close> and
  the delimiter the bundles were written with, and concatenating in file order.
\<close>

definition read_bundles ::
  "numpy_env \<Rightarrow> file_store \<Rightarrow> string \<Rightarrow> path list \<Rightarrow> error + task_row list" where
  "read_bundles np files delim bundle_files =
     (case sequence_sum
             (map (\<lambda>bundle_file. read_task_bundle np files bundle_file (Some delim) 0 True None None
                                    True False) bundle_files) of
        Inl e \<Rightarrow> Inl e
      | Inr task_lists \<Rightarrow> Inr (concat task_lists))"

text \<open>
  The reference for the bundler, from the specification: the task list cut into
  contiguous chunks of the bundle size, the last one possibly smaller.
\<close>

function chunks :: "nat \<Rightarrow> 'a list \<Rightarrow> 'a list list" where
  "chunks n xs = (if n = 0 \<or> xs = [] then [] else take n xs # chunks n (drop n xs))"
  by pat_completeness auto
termination
  by (relation "measure (\<lambda>(n, xs). length xs)") auto

declare chunks.simps [simp del]

text \<open>Reading a decimal numeral back, to tell the sequence indices of file names apart.\<close>

definition digit_val :: "char \<Rightarrow> nat" where
  "digit_val c = length (takeWhile (\<lambda>d. d \<noteq> c) ''0123456789'')"

fun decimal_from :: "nat \<Rightarrow> string \<Rightarrow> nat" where
  "decimal_from a [] = a"
| "decimal_from a (c # cs) = decimal_from (10 * a + digit_val c) cs"

text \<open>
  Ten tasks \<^verbatim>\<open>(/s/i, /d/)\<close>, and a task whose source path contains the delimiter.
\<close>

definition ten_tasks :: "string list list" where
  "ten_tasks =
     [[''/s/0'', ''/d/''], [''/s/1'', ''/d/''], [''/s/2'', ''/d/''], [''/s/3'', ''/d/''],
      [''/s/4'', ''/d/''], [''/s/5'', ''/d/''], [''/s/6'', ''/d/''], [''/s/7'', ''/d/''],
      [''/s/8'', ''/d/''], [''/s/9'', ''/d/'']]"

definition comma_task :: "string list list" where
  "comma_task = [[''/data/a,b.txt'', ''/dst/'']]"

text \<open>
  The file names of the specification: the prefix and time stamp under the destination
  directory, then the 1-based sequence index padded with zeros to the width
  \<open>max(3, digits of the bundle count)\<close>.
\<close>

definition bundle_names :: "path \<Rightarrow> string \<Rightarrow> string \<Rightarrow> nat \<Rightarrow> path list" where
  "bundle_names dstdir bundle_prefix now n =
     map (\<lambda>j. os_path_join dstdir (bundle_prefix @ ''_'' @ now) @ ''_''
                 @ zero_pad (max 3 (length (str_nat n))) (str_nat (Suc j)) @ ''.txt'')
       [0..<n]"

text \<open>
  An environment in which numpy cannot be imported.
\<close>

definition no_numpy :: numpy_env where
  "no_numpy = \<lparr> imported_numpy = False,
                 np_savetxt = (\<lambda>task_bundle fmt delimiter. Inl ImportError),
                 np_loadtxt = (\<lambda>content delimiter skiprows max_rows. LoadError ImportError) \<rparr>"

text \<open>
  What the bundle format can carry. In the line of a task, the items joined by the
  delimiter, no occurrence of the delimiter may begin inside an item: every occurrence
  begins within one of the delimiters that join two items (\<open>join_positions\<close> are
  the places where these begin: after the first item, after the second, ...). The task
  has at least two items, none with a line break and none beginning or ending with
  white space; and its line is not blank.
\<close>

definition occurs_at :: "string \<Rightarrow> string \<Rightarrow> nat \<Rightarrow> bool" where
  "occurs_at d s p = (take (length d) (drop p s) = d)"

fun join_positions :: "nat \<Rightarrow> string list \<Rightarrow> nat list" where
  "join_positions n [] = []"
| "join_positions n [x] = []"
| "join_positions n (x # y # ys) =
     length x # map (\<lambda>q. length x + n + q) (join_positions n (y # ys))"

definition delimited :: "string \<Rightarrow> string list \<Rightarrow> bool" where
  "delimited d t =
     list_all (\<lambda>p. occurs_at d (py_join d t) p \<longrightarrow>
                    list_ex (\<lambda>j. j \<le> p \<and> p < j + length d) (join_positions (length d) t))
       [0..<length (py_join d t)]"

definition task_ok :: "string \<Rightarrow> string list \<Rightarrow> bool" where
  "task_ok d t =
     (2 \<le> length t
      \<and> list_all (\<lambda>x. list_all (\<lambda>ch. \<not> is_linebreak ch) x \<and> strip x = x) t
      \<and> list_ex (\<lambda>ch. \<not> is_space ch) (py_join d t)
      \<and> delimited d t)"

text \<open>
  Three tasks, the third with one item more, and the delimiter that
  \<^verbatim>\<open>file_transfer.py\<close> passes (\<^verbatim>\<open>task_delim=ARGSTR_SRCLIST_DELIM\<close>).
\<close>

definition three_tasks :: "string list list" where
  "three_tasks = [[''/s/a-1'', ''/d/''], [''/s/b'', ''/d/''], [''/s/c'', ''/d/'', ''x'']]"

definition ARGSTR_SRCLIST_DELIM :: string where
  "ARGSTR_SRCLIST_DELIM = ''--srclist-delim''"

section \<open>Job submission\<close>

subsection \<open>Python values and their text\<close>

text \<open>
  The values an argument of the command line can hold: \<^verbatim>\<open>None\<close>, a bool, an int, a
  str, or a list or tuple of values. \<open>py_format v\<close> is \<^verbatim>\<open>'{}'.format(v)\<close>, which is
  \<^verbatim>\<open>str(v)\<close>: the string itself for a str and \<^verbatim>\<open>repr\<close> otherwise (a list or tuple
  shows the \<^verbatim>\<open>repr\<close> of its items). \<open>truthy v\<close> is \<^verbatim>\<open>bool(v)\<close>.
\<close>

datatype pyval = PNone | PBool bool | PInt int | PStr string | PList "pyval list" | PTuple "pyval list"

definition str_int :: "int \<Rightarrow> string" where
  "str_int i = (if i < 0 then CHR ''-'' # str_nat (nat (- i)) else str_nat (nat i))"

definition hex_digit :: "nat \<Rightarrow> char" where
  "hex_digit d = ''0123456789abcdef'' ! d"

definition is_printable :: "char \<Rightarrow> bool" where
  "is_printable c =
     (let n = (of_char c :: nat) in (32 \<le> n \<and> n < 127) \<or> (161 \<le> n \<and> n \<noteq> 173))"

definition repr_char :: "char \<Rightarrow> char \<Rightarrow> string" where
  "repr_char quote c =
     (if c = quote \<or> c = CHR 0x5C then [CHR 0x5C, c]
      else if c = CHR 0x09 then [CHR 0x5C, CHR ''t'']
      else if c = CHR 0x0A then [CHR 0x5C, CHR ''n'']
      else if c = CHR 0x0D then [CHR 0x5C, CHR ''r'']
      else if is_printable c then [c]
      else [CHR 0x5C, CHR ''x'', hex_digit (of_char c div 16), hex_digit (of_char c mod 16)])"

definition repr_str :: "string \<Rightarrow> string" where
  "repr_str s =
     (let quote = (if CHR 0x27 \<in> set s \<and> CHR 0x22 \<notin> set s then CHR 0x22 else CHR 0x27)
      in quote # concat (map (repr_char quote) s) @ [quote])"

fun py_repr :: "pyval \<Rightarrow> string" where
  "py_repr PNone = ''None''"
| "py_repr (PBool b) = (if b then ''True'' else ''False'')"
| "py_repr (PInt i) = str_int i"
| "py_repr (PStr s) = repr_str s"
| "py_repr (PList xs) = ''['' @ py_join '', '' (map py_repr xs) @ '']''"
| "py_repr (PTuple xs) =
     ''('' @ py_join '', '' (map py_repr xs) @ (if length xs = 1 then '','' else []) @ '')''"

definition py_format :: "pyval \<Rightarrow> string" where
  "py_format v = (case v of PStr s \<Rightarrow> s | _ \<Rightarrow> py_repr v)"

definition truthy :: "pyval \<Rightarrow> bool" where
  "truthy v =
     (case v of PNone \<Rightarrow> False | PBool b \<Rightarrow> b | PInt i \<Rightarrow> i \<noteq> 0 | PStr s \<Rightarrow> s \<noteq> []
      | PList xs \<Rightarrow> xs \<noteq> [] | PTuple xs \<Rightarrow> xs \<noteq> [])"

text \<open>\<^verbatim>\<open>isinstance(v, list) or isinstance(v, tuple)\<close>, with the items.\<close>

definition seq_items :: "pyval \<Rightarrow> pyval list option" where
  "seq_items v = (case v of PList xs \<Rightarrow> Some xs | PTuple xs \<Rightarrow> Some xs | _ \<Rightarrow> None)"

text \<open>\<^verbatim>\<open>s.strip(chars)\<close> and \<^verbatim>\<open>s.lstrip(chars)\<close>.\<close>

definition lstrip_chars :: "string \<Rightarrow> string \<Rightarrow> string" where
  "lstrip_chars chars s = dropWhile (\<lambda>c. c \<in> set chars) s"

definition strip_chars :: "string \<Rightarrow> string \<Rightarrow> string" where
  "strip_chars chars s = rev (lstrip_chars chars (rev (lstrip_chars chars s)))"

text \<open>Sequencing of computations that may raise.\<close>

definition bind :: "error + 'a \<Rightarrow> ('a \<Rightarrow> error + 'b) \<Rightarrow> error + 'b" where
  "bind m f = (case m of Inl e \<Rightarrow> Inl e | Inr x \<Rightarrow> f x)"

text \<open>
  A \<^verbatim>\<open>dict\<close> as an association list in insertion order: \<^verbatim>\<open>d[k]\<close> raises
  \<^verbatim>\<open>KeyError\<close> on a missing key, \<^verbatim>\<open>d[k] = v\<close> keeps the position of a key that is
  present and appends a new one.
\<close>

definition dict_get :: "(string \<times> 'a) list \<Rightarrow> string \<Rightarrow> error + 'a" where
  "dict_get d k = (case map_of d k of None \<Rightarrow> Inl (KeyError k) | Some v \<Rightarrow> Inr v)"

fun dict_set :: "string \<Rightarrow> 'a \<Rightarrow> (string \<times> 'a) list \<Rightarrow> (string \<times> 'a) list" where
  "dict_set k v [] = [(k, v)]"
| "dict_set k v ((k1, v1) # d) = (if k1 = k then (k, v) # d else (k1, v1) # dict_set k v d)"

subsection \<open>ArgumentPasser\<close>

text \<open>
  The object holds the parsed arguments in \<^verbatim>\<open>vars_dict\<close>, keyed by the parser's
  destination names, the two name tables, the parser action of every destination, and the
  command line it has built from them (\<^verbatim>\<open>cmd_optarg_base\<close>, \<^verbatim>\<open>cmd\<close>). Of an action the
  code looks at its class, and for a \<^verbatim>\<open>_StoreAction\<close> at whether its \<^verbatim>\<open>type\<close> is an
  \<^verbatim>\<open>argtype_bool_plus\<close> partial.
\<close>

datatype acttype = StoreAction bool | StoreTrueAction | StoreFalseAction | OtherAction

record ArgumentPasser =
  exe :: string
  script_file :: string
  argstr2varstr :: "(string \<times> string) list"
  varstr2argstr :: "(string \<times> string) list"
  varstr2action :: "(string \<times> acttype) list"
  argstr_pos :: "string list"
  vars_dict :: "(string \<times> pyval) list"
  cmd_optarg_base :: string
  cmd :: string

definition no_argstr :: "string \<Rightarrow> error" where
  "no_argstr argstr =
     InvalidArgumentError (''This ArgumentPasser object has no '' @ [CHR 0x27] @ argstr
                           @ [CHR 0x27] @ '' argument string'')"

text \<open>\<^verbatim>\<open>get_as_list(*argstrs)\<close> and \<^verbatim>\<open>get(argstr)\<close> for one argument string.\<close>

fun get_values :: "ArgumentPasser \<Rightarrow> string list \<Rightarrow> error + pyval list" where
  "get_values self [] = Inr []"
| "get_values self (argstr # argstrs) =
     bind (dict_get (argstr2varstr self) argstr) (\<lambda>varstr.
     bind (dict_get (vars_dict self) varstr) (\<lambda>v.
     bind (get_values self argstrs) (\<lambda>vs. Inr (v # vs))))"

definition get_as_list :: "string list \<Rightarrow> ArgumentPasser \<Rightarrow> error + pyval list" where
  "get_as_list argstrs self =
     (if length argstrs < 1 then
        Inl (InvalidArgumentError ''One or more argument strings must be provided'')
      else if list_ex (\<lambda>argstr. map_of (argstr2varstr self) argstr = None) argstrs then
        Inl (InvalidArgumentError
               ''This ArgumentPasser object does not have the following argument strings'')
      else get_values self argstrs)"

definition ArgumentPasser_get :: "string \<Rightarrow> ArgumentPasser \<Rightarrow> error + pyval" where
  "ArgumentPasser_get argstr self = bind (get_as_list [argstr] self) (\<lambda>vs. Inr (hd vs))"

text \<open>\<^verbatim>\<open>_argval2str\<close>: a string is put between double quotes unless it is quoted already.\<close>

definition argval2str :: "pyval \<Rightarrow> string" where
  "argval2str item =
     (case item of
        PStr s \<Rightarrow>
          if startswith s [CHR 0x22] \<and> endswith s [CHR 0x22] then s
          else if startswith s [CHR 0x27] \<and> endswith s [CHR 0x27] then s
          else [CHR 0x22] @ s @ [CHR 0x22]
      | _ \<Rightarrow> py_format item)"

text \<open>
  \<^verbatim>\<open>_update_cmd\<close>: the loop over the positional arguments, then the command string.
\<close>

fun posarg_list :: "ArgumentPasser \<Rightarrow> string list \<Rightarrow> error + string list" where
  "posarg_list self [] = Inr []"
| "posarg_list self (argstr # argstrs) =
     bind (dict_get (argstr2varstr self) argstr) (\<lambda>varstr.
     bind (dict_get (vars_dict self) varstr) (\<lambda>val.
     bind (posarg_list self argstrs) (\<lambda>more.
       Inr ((if val = PNone then []
             else (case seq_items val of
                     Some items \<Rightarrow> [py_join '' '' (map argval2str items)]
                   | None \<Rightarrow> [argval2str val])) @ more))))"

definition update_cmd :: "ArgumentPasser \<Rightarrow> error + ArgumentPasser" where
  "update_cmd self =
     bind (posarg_list self (argstr_pos self)) (\<lambda>posargs.
       Inr (self\<lparr>cmd := exe self @ '' '' @ script_file self @ '' '' @ py_join '' '' posargs
                          @ '' '' @ cmd_optarg_base self\<rparr>))"

text \<open>
  \<^verbatim>\<open>_update_cmd_base\<close>: the loop over \<^verbatim>\<open>vars_dict.items()\<close>. A bool is shown as the
  bare option when it is the value that the option's action stores; \<^verbatim>\<open>None\<close> and the
  positional arguments are left out.
\<close>

fun optarg_list :: "ArgumentPasser \<Rightarrow> (string \<times> pyval) list \<Rightarrow> error + string list" where
  "optarg_list self [] = Inr []"
| "optarg_list self ((varstr, val) # rest) =
     bind (dict_get (varstr2argstr self) varstr) (\<lambda>argstr.
     bind (if argstr \<notin> set (argstr_pos self) \<and> val \<noteq> PNone then
             (case val of
                PBool b \<Rightarrow>
                  bind (dict_get (varstr2action self) varstr) (\<lambda>action.
                    Inr (case action of
                           StoreAction bool_plus \<Rightarrow> if bool_plus \<and> b then [argstr] else []
                         | StoreTrueAction \<Rightarrow> if b then [argstr] else []
                         | StoreFalseAction \<Rightarrow> if b then [] else [argstr]
                         | OtherAction \<Rightarrow> []))
              | PList items \<Rightarrow> Inr [argstr @ '' '' @ py_join '' '' (map argval2str items)]
              | PTuple items \<Rightarrow> Inr [argstr @ '' '' @ py_join '' '' (map argval2str items)]
              | _ \<Rightarrow> Inr [argstr @ '' '' @ argval2str val])
           else Inr []) (\<lambda>this.
     bind (optarg_list self rest) (\<lambda>more. Inr (this @ more))))"

definition update_cmd_base :: "ArgumentPasser \<Rightarrow> error + ArgumentPasser" where
  "update_cmd_base self =
     bind (optarg_list self (vars_dict self)) (\<lambda>arg_list.
       update_cmd (self\<lparr>cmd_optarg_base := py_join '' '' arg_list\<rparr>))"

text \<open>
  \<^verbatim>\<open>set(argstrs, newval)\<close>. \<open>argstrs\<close> is one argument string or a list of them. A
  list with a list or tuple of as many values is assigned item by item; otherwise every
  argument string gets \<open>newval\<close>, and a \<^verbatim>\<open>None\<close> stands for the value the option
  stores when it is given (the variable keeps that value for the argument strings that
  follow).
\<close>

datatype argstrs = Single string | Several "string list"

fun set_zip :: "ArgumentPasser \<Rightarrow> (string \<times> pyval) list \<Rightarrow> error + ArgumentPasser" where
  "set_zip self [] = Inr self"
| "set_zip self ((argstr_i, newval_i) # rest) =
     (case map_of (argstr2varstr self) argstr_i of
        None \<Rightarrow> Inl (no_argstr argstr_i)
      | Some varstr \<Rightarrow> set_zip (self\<lparr>vars_dict := dict_set varstr newval_i (vars_dict self)\<rparr>) rest)"

fun set_each :: "ArgumentPasser \<Rightarrow> pyval \<Rightarrow> string list \<Rightarrow> error + ArgumentPasser" where
  "set_each self newval [] = Inr self"
| "set_each self newval (argstr # rest) =
     (case map_of (argstr2varstr self) argstr of
        None \<Rightarrow> Inl (no_argstr argstr)
      | Some varstr \<Rightarrow>
          bind (if newval = PNone then
                  bind (dict_get (varstr2action self) varstr) (\<lambda>action.
                    case action of
                      StoreAction bool_plus \<Rightarrow>
                        if bool_plus then Inr (PBool True)
                        else Inl (InvalidArgumentError
                                    ''Setting non-boolean argument string requires a non-None `newval` value'')
                    | StoreTrueAction \<Rightarrow> Inr (PBool True)
                    | StoreFalseAction \<Rightarrow> Inr (PBool False)
                    | OtherAction \<Rightarrow>
                        Inl (InvalidArgumentError
                               ''Setting non-boolean argument string requires a non-None `newval` value''))
                else Inr newval) (\<lambda>newval1.
            set_each (self\<lparr>vars_dict := dict_set varstr newval1 (vars_dict self)\<rparr>) newval1 rest))"

definition ArgumentPasser_set :: "argstrs \<Rightarrow> pyval \<Rightarrow> ArgumentPasser \<Rightarrow> error + ArgumentPasser" where
  "ArgumentPasser_set argstrs newval self =
     (let argstr_list = (case argstrs of Several l \<Rightarrow> l | Single a \<Rightarrow> [a]);
          pairs = (case argstrs of
                     Several l \<Rightarrow>
                       (case seq_items newval of
                          Some vs \<Rightarrow> if length l = length vs then Some (zip l vs) else None
                        | None \<Rightarrow> None)
                   | Single a \<Rightarrow> None)
      in bind (case pairs of
                 Some ps \<Rightarrow> set_zip self ps
               | None \<Rightarrow> set_each self newval argstr_list) (\<lambda>self1.
           if list_all (\<lambda>a. a \<in> set (argstr_pos self1)) argstr_list then update_cmd self1
           else update_cmd_base self1))"

text \<open>
  \<^verbatim>\<open>unset(argstrs)\<close> called with one list of argument strings, as the submitter calls
  it. The table lookups are not guarded here: an unknown argument string is a
  \<^verbatim>\<open>KeyError\<close>.
\<close>

fun unset_each :: "ArgumentPasser \<Rightarrow> string list \<Rightarrow> error + ArgumentPasser" where
  "unset_each self [] = Inr self"
| "unset_each self (argstr # rest) =
     bind (dict_get (argstr2varstr self) argstr) (\<lambda>varstr.
     bind (dict_get (varstr2action self) varstr) (\<lambda>action.
       unset_each
         (self\<lparr>vars_dict :=
                  dict_set varstr
                    (case action of
                       StoreAction bool_plus \<Rightarrow> if bool_plus then PBool False else PNone
                     | StoreTrueAction \<Rightarrow> PBool False
                     | StoreFalseAction \<Rightarrow> PBool True
                     | OtherAction \<Rightarrow> PNone)
                    (vars_dict self)\<rparr>)
         rest))"

definition ArgumentPasser_unset :: "string list \<Rightarrow> ArgumentPasser \<Rightarrow> error + ArgumentPasser" where
  "ArgumentPasser_unset argstrs self =
     bind (unset_each self argstrs) (\<lambda>self1.
       if list_all (\<lambda>a. a \<in> set (argstr_pos self1)) argstrs then update_cmd self1
       else update_cmd_base self1)"

subsection \<open>The submission command\<close>

definition SCHED_PBS :: string where "SCHED_PBS = ''pbs''"
definition SCHED_SLURM :: string where "SCHED_SLURM = ''slurm''"

text \<open>
  \<^verbatim>\<open>total_sec += t * k\<close> for an argument that is \<^verbatim>\<open>None\<close> (skipped) or a number;
  adding a string or a list to the int raises.
\<close>

definition time_add :: "pyval \<Rightarrow> int \<Rightarrow> int \<Rightarrow> error + int" where
  "time_add t k total_sec =
     (case t of
        PNone \<Rightarrow> Inr total_sec
      | PInt i \<Rightarrow> Inr (total_sec + i * k)
      | PBool b \<Rightarrow> Inr (total_sec + (if b then k else 0))
      | _ \<Rightarrow> Inl TypeError)"

text \<open>
  \<^verbatim>\<open>'{:d}:{:02d}:{:02d}'.format(h, m, s)\<close> after the two \<^verbatim>\<open>divmod\<close> by 60, which
  leave \<open>m\<close> and \<open>s\<close> between 0 and 59.
\<close>

definition time_hms_of :: "int \<Rightarrow> string" where
  "time_hms_of total_sec =
     (let m = total_sec div 60; s = total_sec mod 60;
          h = m div 60; m1 = m mod 60
      in str_int h @ '':'' @ zero_pad 2 (str_int m1) @ '':'' @ zero_pad 2 (str_int s))"

text \<open>The environment variables of a list or tuple: \<^verbatim>\<open>p0="..."\<close>, \<^verbatim>\<open>p1="..."\<close>, ...\<close>

definition envvars_str :: "pyval \<Rightarrow> string option" where
  "envvars_str envvars =
     (case seq_items envvars of
        Some items \<Rightarrow>
          Some (py_join '',''
                  (map (\<lambda>(i, a). ''p'' @ str_nat i @ ''='' @ [CHR 0x22] @ py_format a @ [CHR 0x22])
                     (enumerate 0 items)))
      | None \<Rightarrow> None)"

text \<open>
  \<^verbatim>\<open>get_jobsubmit_cmd\<close>. In both option lists the element

  \<^verbatim>\<open>"-v {}".format(cmd_envvars) if cmd_envvars is not None else ''\<close>

  is not followed by a comma, so it is one conditional expression with the next line: the
  mail option (\<^verbatim>\<open>"-m ae"\<close>, \<^verbatim>\<open>"--mail-type FAIL,END"\<close>) is its \<^verbatim>\<open>else\<close> branch and is
  produced only when there are no environment variables (\<open>env_or_mail\<close>). The last element
  of the SLURM list is \<^verbatim>\<open>None\<close> unless \<open>email\<close> is a str, and \<^verbatim>\<open>' '.join\<close> raises on
  it. Reading the jobscript for its conditional options evaluates Python expressions of
  that file over \<^verbatim>\<open>vars_dict\<close>; it is the parameter \<open>condopts\<close>, called with the option
  key, the jobscript and \<^verbatim>\<open>vars_dict\<close>.
\<close>

type_synonym condopts_fn = "string \<Rightarrow> pyval \<Rightarrow> (string \<times> pyval) list \<Rightarrow> error + string list"

definition get_jobsubmit_cmd ::
  "condopts_fn \<Rightarrow> ArgumentPasser \<Rightarrow> pyval \<Rightarrow> pyval \<Rightarrow> pyval \<Rightarrow> pyval \<Rightarrow> pyval \<Rightarrow> pyval
     \<Rightarrow> pyval \<Rightarrow> pyval \<Rightarrow> pyval \<Rightarrow> pyval \<Rightarrow> error + string" where
  "get_jobsubmit_cmd condopts self scheduler jobscript jobname time_hr time_min time_sec
       memory_gb node email envvars =
     bind (time_add time_hr 3600 0) (\<lambda>t1.
     bind (time_add time_min 60 t1) (\<lambda>t2.
     bind (time_add time_sec 1 t2) (\<lambda>total_sec.
       let time_hms = (if total_sec = 0 then None else Some (time_hms_of total_sec));
           cmd_envvars = envvars_str envvars;
           env_or_mail = (\<lambda>mail. case cmd_envvars of
                                     Some ev \<Rightarrow> ''-v '' @ ev
                                   | None \<Rightarrow> if truthy email then mail else [])
       in
       bind (if scheduler = PStr SCHED_PBS then
               Inr (PStr (py_join '' ''
                      [''qsub'',
                       if jobname \<noteq> PNone then ''-N '' @ py_format jobname else [],
                       if time_hms \<noteq> None \<and> memory_gb \<noteq> PNone then
                         ''-l '' @ strip_chars '',''
                           (py_join '',''
                              [if node \<noteq> PNone then ''nodes='' @ py_format node else [],
                               case time_hms of Some t \<Rightarrow> ''walltime='' @ t | None \<Rightarrow> [],
                               if memory_gb \<noteq> PNone then ''mem='' @ py_format memory_gb @ ''gb''
                               else []])
                       else [],
                       env_or_mail ''-m ae'']),
                    Some ''#CONDOPT_PBS'')
             else if scheduler = PStr SCHED_SLURM then
               (case email of
                  PStr addr \<Rightarrow>
                    Inr (PStr (py_join '' ''
                           [''sbatch'',
                            if jobname \<noteq> PNone then ''--job-name '' @ py_format jobname else [],
                            case time_hms of Some t \<Rightarrow> ''--time '' @ t | None \<Rightarrow> [],
                            if memory_gb \<noteq> PNone then ''--mem '' @ py_format memory_gb @ ''G''
                            else [],
                            env_or_mail ''--mail-type FAIL,END'',
                            ''--mail-user '' @ addr]),
                         Some ''#CONDOPT_SBATCH'')
                | _ \<Rightarrow> Inl TypeError)
             else Inr (PNone, None)) (\<lambda>(cmd0, jobscript_condoptkey).
       bind (case jobscript_condoptkey of
               None \<Rightarrow> Inr cmd0
             | Some key \<Rightarrow>
                 bind (condopts key jobscript (vars_dict self)) (\<lambda>jobscript_condopts.
                   Inr (if jobscript_condopts \<noteq> [] then
                          PStr (py_format cmd0 @ '' '' @ py_join '' '' jobscript_condopts)
                        else cmd0))) (\<lambda>cmd1.
         Inr (py_format cmd1 @ '' '' @ [CHR 0x22] @ py_format jobscript @ [CHR 0x22]))))))"

subsection \<open>Submitting the tasks\<close>

definition ARGSTR_SCHEDULER :: string where "ARGSTR_SCHEDULER = ''--scheduler''"
definition ARGSTR_JOBSCRIPT :: string where "ARGSTR_JOBSCRIPT = ''--jobscript''"
definition ARGSTR_JOB_ABBREV :: string where "ARGSTR_JOB_ABBREV = ''--job-abbrev''"
definition ARGSTR_JOB_WALLTIME :: string where "ARGSTR_JOB_WALLTIME = ''--job-walltime''"
definition ARGSTR_JOB_MEMORY :: string where "ARGSTR_JOB_MEMORY = ''--job-memory''"
definition ARGSTR_TASKS_PER_JOB :: string where "ARGSTR_TASKS_PER_JOB = ''--tasks-per-job''"
definition ARGSTR_BUNDLEDIR :: string where "ARGSTR_BUNDLEDIR = ''--bundledir''"
definition ARGSTR_LOGDIR :: string where "ARGSTR_LOGDIR = ''--logdir''"
definition ARGSTR_EMAIL :: string where "ARGSTR_EMAIL = ''--email''"

definition ARGGRP_SCHEDULER :: "string list" where
  "ARGGRP_SCHEDULER =
     [ARGSTR_SCHEDULER, ARGSTR_JOBSCRIPT, ARGSTR_JOB_ABBREV, ARGSTR_JOB_WALLTIME,
      ARGSTR_JOB_MEMORY, ARGSTR_TASKS_PER_JOB, ARGSTR_BUNDLEDIR, ARGSTR_LOGDIR, ARGSTR_EMAIL]"

text \<open>
  What a run prints and which commands it hands to the shell
  (\<^verbatim>\<open>subprocess.call(cmd, shell=True, cwd=...)\<close>).
\<close>

datatype submit_event = Print string | SubprocessCall string pyval

text \<open>
  The child tasks: the parent's tasks themselves (tuples of strings) when
  \<^verbatim>\<open>--tasks-per-job\<close> is \<^verbatim>\<open>None\<close>, else the bundle files that
  \<^verbatim>\<open>write_task_bundles\<close> has written (with its default format).
  \<^verbatim>\<open>--tasks-per-job\<close> is a number (the parser's type is int) and \<^verbatim>\<open>--bundledir\<close> a
  str; with a value of another type Python raises in \<^verbatim>\<open>os.path.join\<close>, \<^verbatim>\<open>float\<close>
  or \<^verbatim>\<open>range\<close> before any file is written, which the model gives as
  \<^verbatim>\<open>TypeError\<close>.
\<close>

definition child_tasks_of ::
  "numpy_env \<Rightarrow> string \<Rightarrow> file_store \<Rightarrow> ArgumentPasser \<Rightarrow> string list list \<Rightarrow> string list \<Rightarrow> string
     \<Rightarrow> string option \<Rightarrow> string
     \<Rightarrow> error + (submit_event list \<times> pyval list \<times> argstrs \<times> file_store)" where
  "child_tasks_of np now files parent_args parent_tasks parent_task_argstrs child_bundle_argstr
       task_items_descr task_delim =
     bind (ArgumentPasser_get ARGSTR_TASKS_PER_JOB parent_args) (\<lambda>tasks_per_job0.
       if tasks_per_job0 = PNone then
         Inr ([], map (\<lambda>task. PTuple (map PStr task)) parent_tasks,
              Several parent_task_argstrs, files)
       else
         bind (ArgumentPasser_get ARGSTR_TASKS_PER_JOB parent_args) (\<lambda>tasks_per_job.
         bind (ArgumentPasser_get ARGSTR_BUNDLEDIR parent_args) (\<lambda>bundledir.
         bind (ArgumentPasser_get ARGSTR_JOB_ABBREV parent_args) (\<lambda>job_abbrev.
           case (bundledir, (case tasks_per_job of
                               PInt n \<Rightarrow> Some n
                             | PBool b \<Rightarrow> Some (if b then 1 else 0)
                             | _ \<Rightarrow> None)) of
             (PStr dstdir, Some n) \<Rightarrow>
               bind (write_task_bundles np parent_tasks n dstdir
                       (py_format job_abbrev @ ''_''
                          @ (case task_items_descr of
                               Some descr \<Rightarrow> descr
                             | None \<Rightarrow> lstrip_chars ''-'' child_bundle_argstr))
                       now task_delim ''%s'' files) (\<lambda>(bundle_file_list, files1).
                 Inr ([Print (''Writing task bundle text files in directory: '' @ dstdir)],
                      map PStr bundle_file_list, Single child_bundle_argstr, files1))
           | _ \<Rightarrow> Inl TypeError))))"

text \<open>
  One turn of the loop over the child tasks. The child's own command line gets
  \<^verbatim>\<open>--email\<close> on the last job only; the call of \<^verbatim>\<open>get_jobsubmit_cmd\<close> passes
  \<^verbatim>\<open>email=parent_args.get(ARGSTR_EMAIL)\<close> on every turn. The job name is
  \<^verbatim>\<open>(job_abbrev + get_index_fmtstr(num_jobs)).format(job_num)\<close>, for a prefix without
  braces.
\<close>

definition submit_job ::
  "condopts_fn \<Rightarrow> ArgumentPasser \<Rightarrow> argstrs \<Rightarrow> nat \<Rightarrow> string \<Rightarrow> pyval \<Rightarrow> pyval \<Rightarrow> pyval
     \<Rightarrow> string \<Rightarrow> bool \<Rightarrow> nat \<Rightarrow> pyval \<Rightarrow> ArgumentPasser
     \<Rightarrow> submit_event list \<times> (error + ArgumentPasser)" where
  "submit_job condopts parent_args child_task_argstrs num_jobs job_abbrev job_walltime_hr
       job_memory_gb last_job_email python_version_accepted_min dry_run job_num task_items
       child_args =
     (case
        bind (ArgumentPasser_set child_task_argstrs task_items child_args) (\<lambda>child1.
        bind (if job_num = num_jobs \<and> truthy last_job_email then
                ArgumentPasser_set (Single ARGSTR_EMAIL) last_job_email child1
              else Inr child1) (\<lambda>child2.
        bind (ArgumentPasser_get ARGSTR_SCHEDULER parent_args) (\<lambda>scheduler.
        bind (ArgumentPasser_get ARGSTR_JOBSCRIPT parent_args) (\<lambda>jobscript.
        bind (ArgumentPasser_get ARGSTR_EMAIL parent_args) (\<lambda>email.
        bind (ArgumentPasser_get ARGSTR_JOBSCRIPT parent_args) (\<lambda>jobscript1.
        bind (get_jobsubmit_cmd condopts child2 scheduler jobscript
                (PStr (job_abbrev @ get_index_fmtstr num_jobs 3 job_num))
                job_walltime_hr PNone PNone job_memory_gb PNone email
                (PList [jobscript1, PStr job_abbrev, PStr (cmd child2),
                        PStr python_version_accepted_min])) (\<lambda>cmd1.
          Inr (child2, cmd1)))))))) of
        Inl e \<Rightarrow> ([], Inl e)
      | Inr (child2, cmd1) \<Rightarrow>
          if dry_run then ([Print cmd1], Inr child2)
          else (case ArgumentPasser_get ARGSTR_LOGDIR parent_args of
                  Inl e \<Rightarrow> ([Print cmd1], Inl e)
                | Inr logdir \<Rightarrow> ([Print cmd1, SubprocessCall cmd1 logdir], Inr child2)))"

fun submit_jobs ::
  "(nat \<Rightarrow> pyval \<Rightarrow> ArgumentPasser \<Rightarrow> submit_event list \<times> (error + ArgumentPasser))
     \<Rightarrow> nat \<Rightarrow> ArgumentPasser \<Rightarrow> pyval list \<Rightarrow> submit_event list \<times> error option" where
  "submit_jobs body job_num child_args [] = ([], None)"
| "submit_jobs body job_num child_args (task_items # rest) =
     (case body (job_num + 1) task_items child_args of
        (events, Inl e) \<Rightarrow> (events, Some e)
      | (events, Inr child1) \<Rightarrow>
          (case submit_jobs body (job_num + 1) child1 rest of
             (events1, r) \<Rightarrow> (events @ events1, r)))"

text \<open>
  \<^verbatim>\<open>submit_tasks_to_scheduler\<close>, called with a \<^verbatim>\<open>child_args\<close> object as
  \<^verbatim>\<open>file_transfer.py\<close> calls it. The result is what was printed and submitted, the
  files, and the exception that ended the run, if any.
\<close>

definition submit_tasks_to_scheduler ::
  "condopts_fn \<Rightarrow> numpy_env \<Rightarrow> string \<Rightarrow> file_store \<Rightarrow> ArgumentPasser \<Rightarrow> string list list \<Rightarrow> string list
     \<Rightarrow> string \<Rightarrow> ArgumentPasser \<Rightarrow> string option \<Rightarrow> string \<Rightarrow> string \<Rightarrow> bool
     \<Rightarrow> submit_event list \<times> file_store \<times> error option" where
  "submit_tasks_to_scheduler condopts np now files parent_args parent_tasks parent_task_argstrs
       child_bundle_argstr child_args task_items_descr task_delim python_version_accepted_min
       dry_run =
     (case bind (ArgumentPasser_unset ARGGRP_SCHEDULER child_args) (\<lambda>child0.
           bind (child_tasks_of np now files parent_args parent_tasks parent_task_argstrs
                   child_bundle_argstr task_items_descr task_delim) (\<lambda>r. Inr (child0, r))) of
        Inl e \<Rightarrow> ([], files, Some e)
      | Inr (child0, events0, child_tasks, child_task_argstrs, files1) \<Rightarrow>
          (case bind (get_as_list [ARGSTR_JOB_ABBREV, ARGSTR_JOB_WALLTIME, ARGSTR_JOB_MEMORY]
                        parent_args) (\<lambda>vs.
                bind (case hd vs of PStr job_abbrev \<Rightarrow> Inr job_abbrev | _ \<Rightarrow> Inl TypeError)
                  (\<lambda>job_abbrev.
                bind (ArgumentPasser_get ARGSTR_EMAIL parent_args) (\<lambda>last_job_email.
                  Inr (job_abbrev, vs ! 1, vs ! 2, last_job_email)))) of
             Inl e \<Rightarrow> (events0, files1, Some e)
           | Inr (job_abbrev, job_walltime_hr, job_memory_gb, last_job_email) \<Rightarrow>
               (case submit_jobs
                       (submit_job condopts parent_args child_task_argstrs (length child_tasks)
                          job_abbrev job_walltime_hr job_memory_gb last_job_email
                          python_version_accepted_min dry_run)
                       0 child0 child_tasks of
                  (events, r) \<Rightarrow> (events0 @ events, files1, r))))"

subsection \<open>A run with two tasks\<close>

text \<open>
  A parser with the options \<^verbatim>\<open>--src\<close> (\<^verbatim>\<open>-s\<close>), \<^verbatim>\<open>--dst\<close> and \<^verbatim>\<open>--dryrun\<close> of
  \<^verbatim>\<open>file_transfer.py\<close> and the scheduler options of \<^verbatim>\<open>add_scheduler_arguments\<close>; the
  parent was started with a scheduler and \<^verbatim>\<open>--email user@example.com\<close>.
\<close>

definition example_vars :: "pyval \<Rightarrow> pyval \<Rightarrow> (string \<times> pyval) list" where
  "example_vars scheduler email =
     [(''src'', PNone), (''dst'', PNone), (''dryrun'', PBool False),
      (''scheduler'', scheduler), (''job_abbrev'', PStr ''Copy''),
      (''job_walltime'', PInt 1), (''job_memory'', PInt 5),
      (''jobscript'', PStr ''/js/head.sh''), (''tasks_per_job'', PNone),
      (''bundledir'', PStr ''/b''), (''logdir'', PNone), (''email'', email)]"

definition example_args :: "pyval \<Rightarrow> pyval \<Rightarrow> ArgumentPasser" where
  "example_args scheduler email =
     \<lparr> exe = ''python'', script_file = ''file_transfer.py'',
       argstr2varstr =
         [(''--src'', ''src''), (''-s'', ''src''), (''--dst'', ''dst''), (''--dryrun'', ''dryrun''),
          (''--scheduler'', ''scheduler''), (''--job-abbrev'', ''job_abbrev''),
          (''--job-walltime'', ''job_walltime''), (''--job-memory'', ''job_memory''),
          (''--jobscript'', ''jobscript''), (''--tasks-per-job'', ''tasks_per_job''),
          (''--bundledir'', ''bundledir''), (''--logdir'', ''logdir''), (''--email'', ''email'')],
       varstr2argstr =
         [(''src'', ''--src''), (''dst'', ''--dst''), (''dryrun'', ''--dryrun''),
          (''scheduler'', ''--scheduler''), (''job_abbrev'', ''--job-abbrev''),
          (''job_walltime'', ''--job-walltime''), (''job_memory'', ''--job-memory''),
          (''jobscript'', ''--jobscript''), (''tasks_per_job'', ''--tasks-per-job''),
          (''bundledir'', ''--bundledir''), (''logdir'', ''--logdir''), (''email'', ''--email'')],
       varstr2action =
         [(''src'', StoreAction False), (''dst'', StoreAction False), (''dryrun'', StoreTrueAction),
          (''scheduler'', StoreAction False), (''job_abbrev'', StoreAction False),
          (''job_walltime'', StoreAction False), (''job_memory'', StoreAction False),
          (''jobscript'', StoreAction False), (''tasks_per_job'', StoreAction False),
          (''bundledir'', StoreAction False), (''logdir'', StoreAction False),
          (''email'', StoreAction True)],
       argstr_pos = [],
       vars_dict = example_vars scheduler email,
       cmd_optarg_base = [], cmd = [] \<rparr>"

definition two_tasks :: "string list list" where
  "two_tasks = [[''/s/a'', ''/d/a''], [''/s/b'', ''/d/b'']]"

definition no_condopts :: condopts_fn where
  "no_condopts key jobscript vars = Inr []"

definition example_run :: "pyval \<Rightarrow> pyval \<Rightarrow> submit_event list \<times> file_store \<times> error option" where
  "example_run scheduler email =
     submit_tasks_to_scheduler no_condopts no_numpy ''20200101000000'' []
       (example_args scheduler email) two_tasks [''--src'', ''--dst''] ''--srclist''
       (example_args scheduler email) (Some ''srclist'') '','' ''2.7'' False"

section \<open>WalkObject construction\<close>

lemma set_options_flags [simp]:
  "dryrun (set_options ow (Some d) (Some v) db cm) = d"
  "verbose (set_options ow (Some d) (Some v) db cm) = v"
  by (simp_all add: set_options_def)

lemma WalkObject_init_copy_method:
  assumes "WalkObject_init re a = Inr w" "copy_method w = Some cm"
  shows "dryrun cm = arg_copy_dryrun a \<and> verbose cm = (\<not> arg_copy_silent a)"
proof -
  define c1 where
    "c1 = (case arg_copy_shcmd_fmtstr a of Some c \<Rightarrow> Some (CMStr c) | None \<Rightarrow> arg_copy_method a)"
  from assms obtain cma cm0 where
    "init_copy_method cma (arg_copy_shcmd_fmtstr a \<noteq> None) (arg_allow_nonstd_shprogs a) = Inr cm0"
    "cm = set_options (Some (arg_copy_overwrite a)) (Some (arg_copy_dryrun a))
            (Some (\<not> arg_copy_silent a)) (Some (arg_copy_debug a)) cm0"
    unfolding WalkObject_init_def Let_def c1_def[symmetric]
    by (cases c1) (auto split: if_splits sum.splits)
  then show ?thesis by simp
qed

lemma WalkObject_init_not_both:
  assumes "WalkObject_init re a = Inr w"
  shows "\<not> (arg_copy_silent a \<and> arg_copy_dryrun a)"
  using assms by (auto simp: WalkObject_init_def split: if_splits)

text \<open>
  C10. Constructing a WalkObject with both \<^verbatim>\<open>copy_silent\<close> and
  \<^verbatim>\<open>copy_dryrun\<close> set always raises InvalidArgumentError (one of the three
  argument checks that precede any other work raises it), and every WalkObject that
  the constructor does return was built with at most one of the two options; its
  copy method, if any, is never both dry-run and silent.
\<close>

theorem WalkObject_init_silent_dryrun:
  "(arg_copy_silent a \<and> arg_copy_dryrun a \<longrightarrow>
      (\<exists>msg. WalkObject_init re a = Inl (InvalidArgumentError msg)))
   \<and> (\<forall>w. WalkObject_init re a = Inr w \<longrightarrow>
          \<not> (arg_copy_silent a \<and> arg_copy_dryrun a)
          \<and> (\<forall>cm. copy_method w = Some cm \<longrightarrow> \<not> (dryrun cm \<and> \<not> verbose cm)))"
proof (intro conjI allI impI)
  assume "arg_copy_silent a \<and> arg_copy_dryrun a"
  then show "\<exists>msg. WalkObject_init re a = Inl (InvalidArgumentError msg)"
    by (simp add: WalkObject_init_def)
next
  fix w assume "WalkObject_init re a = Inr w"
  then show "\<not> (arg_copy_silent a \<and> arg_copy_dryrun a)"
    by (rule WalkObject_init_not_both)
next
  fix w cm assume h: "WalkObject_init re a = Inr w" "copy_method w = Some cm"
  from WalkObject_init_copy_method[OF h] WalkObject_init_not_both[OF h(1)]
  show "\<not> (dryrun cm \<and> \<not> verbose cm)" by blast
qed

lemma init_copy_method_copy:
  "init_copy_method (CMStr ''copy'') False False = Inr COPY_METHOD_COPY_DEFAULT"
  by (simp add: init_copy_method_def COPY_METHOD_DICT_def)

lemma default_args_dryrun_init:
  "\<exists>w cm. WalkObject_init literal_re
            (default_walk_args\<lparr> arg_copy_method := Some (CMStr ''copy''), arg_copy_dryrun := True \<rparr>) = Inr w
          \<and> copy_method w = Some cm"
  by (simp add: WalkObject_init_def default_walk_args_def truthy_copy_method_def truthy_str_def
      init_copy_method_copy)

theorem WalkObject_init_silent_dryrun_witness:
  "(\<exists>msg. WalkObject_init literal_re
            (default_walk_args\<lparr> arg_copy_silent := True, arg_copy_dryrun := True \<rparr>)
          = Inl (InvalidArgumentError msg))
   \<and> (\<exists>w cm. WalkObject_init literal_re
            (default_walk_args\<lparr> arg_copy_method := Some (CMStr ''copy''), arg_copy_dryrun := True \<rparr>) = Inr w
          \<and> copy_method w = Some cm \<and> \<not> (dryrun cm \<and> \<not> verbose cm))"
proof -
  have a: "arg_copy_silent (default_walk_args\<lparr> arg_copy_silent := True, arg_copy_dryrun := True \<rparr>)
           \<and> arg_copy_dryrun (default_walk_args\<lparr> arg_copy_silent := True, arg_copy_dryrun := True \<rparr>)"
    by simp
  from WalkObject_init_silent_dryrun
         [of "default_walk_args\<lparr> arg_copy_silent := True, arg_copy_dryrun := True \<rparr>" literal_re] a
  have 1: "\<exists>msg. WalkObject_init literal_re
            (default_walk_args\<lparr> arg_copy_silent := True, arg_copy_dryrun := True \<rparr>)
          = Inl (InvalidArgumentError msg)"
    by blast
  from default_args_dryrun_init obtain w cm where
    h: "WalkObject_init literal_re
          (default_walk_args\<lparr> arg_copy_method := Some (CMStr ''copy''), arg_copy_dryrun := True \<rparr>) = Inr w"
       "copy_method w = Some cm"
    by blast
  from WalkObject_init_silent_dryrun
         [of "default_walk_args\<lparr> arg_copy_method := Some (CMStr ''copy''), arg_copy_dryrun := True \<rparr>"
             literal_re] h
  have "\<not> (dryrun cm \<and> \<not> verbose cm)" by blast
  with h 1 show ?thesis by blast
qed

section \<open>CopyMethod.exec on an existing destination\<close>

lemmas run_defs = seq_def skip_def prim_def

lemmas exec_defs = exec_def exec_shcmd_full_def exec_decide_def exec_transfer_def
  exec_log_line_def exec_debug_line_def SKIP_LINK_def SKIP_EXISTS_def

lemmas copy_method_defs = COPY_METHOD_HARDLINK_def COPY_METHOD_SYMLINK_def
  COPY_METHOD_COPY_DEFAULT_def COPY_METHOD_COPY_META_def COPY_METHOD_COPY_BASIC_def
  COPY_METHOD_MOVE_def CopyMethod_init_def upper_def upper_char_def set_options_def

lemmas fs_defs = fs_env_def fs_filecmp_def fs_exists_def fs_remove_def fs_makedirs_def
  fs_put_def fs_call_copy_fn_def os_path_dirname_def ancestors_def

text \<open>
  C4, as the code has it. The symlink strategy (action verb \<^verbatim>\<open>SYMLINKING\<close>) is not
  among the verbs for which \<^verbatim>\<open>exec\<close> compares the files: with a destination
  whose contents equal the source and with one whose contents differ, the log line is
  the same, "destination file already exists".
\<close>

theorem exec_symlink_not_compared:
  "fs_filecmp fs_same ''/src/a'' ''/dst/a'' = Inr True
   \<and> fs_filecmp fs_diff ''/src/a'' ''/dst/a'' = Inr False
   \<and> exec fs_env COPY_METHOD_SYMLINK ''/src/a'' ''/dst/a'' fs_same =
       Inr ([LogInfo ''SYMLINKING: /src/a -> /dst/a (SKIPPING; destination file already exists)''],
            fs_same)
   \<and> exec fs_env COPY_METHOD_SYMLINK ''/src/a'' ''/dst/a'' fs_diff =
       Inr ([LogInfo ''SYMLINKING: /src/a -> /dst/a (SKIPPING; destination file already exists)''],
            fs_diff)"
  by (simp add: exec_defs copy_method_defs fs_defs run_defs fs_same_def fs_diff_def)

text \<open>
  C4, amended. When the destination is an existing regular file: with overwrite off the
  transfer is skipped, the state is unchanged, and the log line (printed when verbose)
  says "correct link already exists" exactly when the action verb is HARDLINKING or
  LINKING and \<^verbatim>\<open>filecmp.cmp\<close> finds the two files equal, and "destination file
  already exists" otherwise (for every other verb, SYMLINKING included, without any
  comparison); with overwrite on and dry-run off the destination is removed first and
  the transfer runs on the state after the removal.
\<close>

theorem exec_existing_destination:
  assumes "os_path_isfile env s dstfile"
      and "exec_shcmd_full env cm srcfile dstfile = Inr full"
  shows
    "(\<not> copy_overwrite cm \<and> action_verb cm \<in> set [''HARDLINKING'', ''LINKING'']
        \<and> filecmp_cmp env s srcfile dstfile = Inr same \<longrightarrow>
        exec env cm srcfile dstfile s =
          Inr (if verbose cm
               then [LogInfo (exec_log_line cm srcfile dstfile True
                                (if same then SKIP_LINK else SKIP_EXISTS))]
               else [], s))
     \<and> (\<not> copy_overwrite cm \<and> action_verb cm \<notin> set [''HARDLINKING'', ''LINKING''] \<longrightarrow>
        exec env cm srcfile dstfile s =
          Inr (if verbose cm
               then [LogInfo (exec_log_line cm srcfile dstfile True SKIP_EXISTS)]
               else [], s))
     \<and> (copy_overwrite cm \<and> \<not> dryrun cm \<longrightarrow>
        exec env cm srcfile dstfile s =
          (case os_remove env dstfile s of
             Inl e \<Rightarrow> Inl e
           | Inr s1 \<Rightarrow>
               (case exec_transfer env cm full srcfile dstfile s1 of
                  Inl e \<Rightarrow> Inl e
                | Inr (evs, s2) \<Rightarrow>
                    Inr ((if verbose cm
                          then [LogInfo (exec_log_line cm srcfile dstfile True ''OVERWRITING'')]
                          else [])
                         @ (if debug cm
                            then [LogInfo (exec_debug_line cm full srcfile dstfile)] else [])
                         @ [OsRemove dstfile] @ evs, s2))))"
proof (intro conjI impI)
  assume "\<not> copy_overwrite cm \<and> action_verb cm \<in> set [''HARDLINKING'', ''LINKING'']
            \<and> filecmp_cmp env s srcfile dstfile = Inr same"
  with assms show "exec env cm srcfile dstfile s =
          Inr (if verbose cm
               then [LogInfo (exec_log_line cm srcfile dstfile True
                                (if same then SKIP_LINK else SKIP_EXISTS))]
               else [], s)"
    by (simp add: exec_def exec_decide_def skip_def)
next
  assume "\<not> copy_overwrite cm \<and> action_verb cm \<notin> set [''HARDLINKING'', ''LINKING'']"
  with assms show "exec env cm srcfile dstfile s =
          Inr (if verbose cm
               then [LogInfo (exec_log_line cm srcfile dstfile True SKIP_EXISTS)]
               else [], s)"
    by (simp add: exec_def exec_decide_def skip_def)
next
  assume "copy_overwrite cm \<and> \<not> dryrun cm"
  with assms show "exec env cm srcfile dstfile s =
          (case os_remove env dstfile s of
             Inl e \<Rightarrow> Inl e
           | Inr s1 \<Rightarrow>
               (case exec_transfer env cm full srcfile dstfile s1 of
                  Inl e \<Rightarrow> Inl e
                | Inr (evs, s2) \<Rightarrow>
                    Inr ((if verbose cm
                          then [LogInfo (exec_log_line cm srcfile dstfile True ''OVERWRITING'')]
                          else [])
                         @ (if debug cm
                            then [LogInfo (exec_debug_line cm full srcfile dstfile)] else [])
                         @ [OsRemove dstfile] @ evs, s2)))"
    by (simp add: exec_def exec_decide_def run_defs split: sum.splits)
qed

theorem exec_existing_destination_witness:
  "exec fs_env COPY_METHOD_HARDLINK ''/src/a'' ''/dst/a'' fs_same =
     Inr ([LogInfo ''HARDLINKING: /src/a -> /dst/a (SKIPPING; correct link already exists)''],
          fs_same)
   \<and> exec fs_env COPY_METHOD_HARDLINK ''/src/a'' ''/dst/a'' fs_diff =
     Inr ([LogInfo ''HARDLINKING: /src/a -> /dst/a (SKIPPING; destination file already exists)''],
          fs_diff)
   \<and> exec fs_env COPY_METHOD_COPY_DEFAULT ''/src/a'' ''/dst/a'' fs_diff =
     Inr ([LogInfo ''COPYING: /src/a -> /dst/a (SKIPPING; destination file already exists)''],
          fs_diff)
   \<and> exec fs_env (set_options (Some True) None None None COPY_METHOD_COPY_DEFAULT)
        ''/src/a'' ''/dst/a'' fs_diff =
     Inr ([LogInfo ''COPYING: /src/a -> /dst/a (OVERWRITING)'', OsRemove ''/dst/a'',
           CallCopyFn ShutilCopy2 ''/src/a'' ''/dst/a''], fs_same)"
proof -
  have f: "os_path_isfile fs_env fs_same ''/dst/a''" "os_path_isfile fs_env fs_diff ''/dst/a''"
    by (simp_all add: fs_env_def fs_same_def fs_diff_def)
  have n: "exec_shcmd_full fs_env COPY_METHOD_HARDLINK ''/src/a'' ''/dst/a'' = Inr None"
    "exec_shcmd_full fs_env COPY_METHOD_COPY_DEFAULT ''/src/a'' ''/dst/a'' = Inr None"
    "exec_shcmd_full fs_env (set_options (Some True) None None None COPY_METHOD_COPY_DEFAULT)
       ''/src/a'' ''/dst/a'' = Inr None"
    by (simp_all add: exec_shcmd_full_def copy_method_defs)
  have c: "filecmp_cmp fs_env fs_same ''/src/a'' ''/dst/a'' = Inr True"
    "filecmp_cmp fs_env fs_diff ''/src/a'' ''/dst/a'' = Inr False"
    by (simp_all add: fs_defs fs_same_def fs_diff_def)
  have r: "os_remove fs_env ''/dst/a'' fs_diff
             = Inr \<lparr> fs_dirs = {''/'', ''/src'', ''/dst''}, fs_files = [''/src/a'' \<mapsto> ''data''] \<rparr>"
    by (simp add: fs_defs fs_diff_def fun_upd_twist)
  have t: "exec_transfer fs_env (set_options (Some True) None None None COPY_METHOD_COPY_DEFAULT) None
             ''/src/a'' ''/dst/a''
             \<lparr> fs_dirs = {''/'', ''/src'', ''/dst''}, fs_files = [''/src/a'' \<mapsto> ''data''] \<rparr>
           = Inr ([CallCopyFn ShutilCopy2 ''/src/a'' ''/dst/a''], fs_same)"
    by (simp add: exec_transfer_def copy_method_defs fs_defs fs_same_def run_defs)
  have 1: "exec fs_env COPY_METHOD_HARDLINK ''/src/a'' ''/dst/a'' fs_same =
     Inr ([LogInfo ''HARDLINKING: /src/a -> /dst/a (SKIPPING; correct link already exists)''],
          fs_same)"
    using exec_existing_destination[OF f(1) n(1), of True] c(1)
    by (simp add: copy_method_defs exec_log_line_def SKIP_LINK_def)
  have 2: "exec fs_env COPY_METHOD_HARDLINK ''/src/a'' ''/dst/a'' fs_diff =
     Inr ([LogInfo ''HARDLINKING: /src/a -> /dst/a (SKIPPING; destination file already exists)''],
          fs_diff)"
    using exec_existing_destination[OF f(2) n(1), of False] c(2)
    by (simp add: copy_method_defs exec_log_line_def SKIP_EXISTS_def)
  have 3: "exec fs_env COPY_METHOD_COPY_DEFAULT ''/src/a'' ''/dst/a'' fs_diff =
     Inr ([LogInfo ''COPYING: /src/a -> /dst/a (SKIPPING; destination file already exists)''],
          fs_diff)"
    using exec_existing_destination[OF f(2) n(2), of True]
    by (simp add: copy_method_defs exec_log_line_def SKIP_EXISTS_def)
  have 4: "exec fs_env (set_options (Some True) None None None COPY_METHOD_COPY_DEFAULT)
        ''/src/a'' ''/dst/a'' fs_diff =
     Inr ([LogInfo ''COPYING: /src/a -> /dst/a (OVERWRITING)'', OsRemove ''/dst/a'',
           CallCopyFn ShutilCopy2 ''/src/a'' ''/dst/a''], fs_same)"
    using exec_existing_destination[OF f(2) n(3), of True] r t
    by (simp add: copy_method_defs exec_log_line_def)
  from 1 2 3 4 show ?thesis by blast
qed

section \<open>The traversal against its reference\<close>


lemma skip_Inr [simp]: "skip evs s = Inr (evs', s') \<longleftrightarrow> evs' = evs \<and> s' = s"
  by (auto simp: skip_def)


lemma is_walk_event_simps [simp]:
  "is_walk_event (LogInfo m) = False"
  "is_walk_event (OsRemove p) = False"
  "is_walk_event (OsMakedirs p) = False"
  "is_walk_event (CallCopyFn f a b) = False"
  "is_walk_event (ExecuteCommand c) = False"
  "is_walk_event (ExecCall a b) = True"
  "is_walk_event (Yield p dns fns) = True"
  by (simp_all add: is_walk_event_def)




lemma name_match_empty [simp]: "name_match f [] [] n = True"
  by (simp add: name_match_def)






lemma dname_match_untracked:
  "\<not> (dname_rematch w \<noteq> [] \<or> dname_reexcl w \<noteq> []) \<Longrightarrow> dname_match w n"
  by (simp add: dname_match_def)




declare walk_rec.simps [simp del] visits.simps [simp del]










lemma observe_append [simp]: "observe (xs @ ys) = observe xs @ observe ys"
  by (induction xs rule: observe.induct) auto


lemma observe_ExecCall [simp]:
  "observe (map (\<lambda>x. ExecCall (f x) (g x)) xs) = map (\<lambda>x. Transferred (f x)) xs"
  by (induction xs) auto









declare expected.simps [simp del]




lemma run_object_fields [simp]:
  "mindepth (run_object w ow ct) = mindepth w"
  "maxdepth (run_object w ow ct) = maxdepth w"
  "dmatch_nomaxdepth (run_object w ow ct) = dmatch_nomaxdepth w"
  "dmatch_maxdepth (run_object w ow ct) = dmatch_maxdepth w"
  "dname_rematch (run_object w ow ct) = dname_rematch w"
  "dname_reexcl (run_object w ow ct) = dname_reexcl w"
  "fname_rematch (run_object w ow ct) = fname_rematch w"
  "fname_reexcl (run_object w ow ct) = fname_reexcl w"
  "rematch_function (run_object w ow ct) = rematch_function w"
  "(copy_method_inst (run_object w ow ct) = None) = (copy_method w = None)"
  by (simp_all add: run_object_def split: option.splits)

lemma name_ok_run_object [simp]:
  "dir_name_ok (run_object w ow ct) = dir_name_ok w"
  "file_name_ok (run_object w ow ct) = file_name_ok w"
  by (simp_all add: fun_eq_iff dir_name_ok_def file_name_ok_def)






lemma yield_dirs_level_one:
  "map (\<lambda>ob. case ob of Yielded p fns \<Rightarrow> p | Transferred p \<Rightarrow> p)
     (filter (\<lambda>ob. case ob of Yielded p fns \<Rightarrow> True | _ \<Rightarrow> False) (level_one w t root srcdir es))
   = map (os_path_join srcdir) (dir_names es)"
  by (induction es rule: dir_names.induct) (simp_all add: Let_def)

lemmas walk_defs = walk_def walk_rec.simps root_dmatch_depth_def srcdname_passes_def
  check_dstdir_def visit_dir_def dname_match_def fname_match_def name_match_def resub_name_def
  os_path_join_def endswith_def os_path_basename_def Let_def

lemma walk_first_run:
  "walk fs_env walker_copy (Some src_tree) ''/src'' (Some ''/dst'') None None None fs_src =
     Inr ([OsMakedirs ''/dst'', ExecCall ''/src/a.txt'' ''/dst/a.txt'',
           LogInfo ''COPYING: /src/a.txt -> /dst/a.txt'',
           CallCopyFn ShutilCopy2 ''/src/a.txt'' ''/dst/a.txt'',
           Yield ''/src'' [''sub''] [''a.txt''], OsMakedirs ''/dst/sub'',
           ExecCall ''/src/sub/b.txt'' ''/dst/sub/b.txt'',
           LogInfo ''COPYING: /src/sub/b.txt -> /dst/sub/b.txt'',
           CallCopyFn ShutilCopy2 ''/src/sub/b.txt'' ''/dst/sub/b.txt'',
           Yield ''/src/sub'' [] [''b.txt'']], fs_copied)"
  by (simp add: walk_defs walker_copy_def src_tree_def fs_src_def fs_copied_def run_defs exec_defs
        copy_method_defs fs_defs)

lemma walker_copy_constructed: "WalkObject_init literal_re walker_args = Inr walker_copy"
  by (simp add: WalkObject_init_def walker_args_def default_walk_args_def truthy_copy_method_def
      truthy_str_def init_copy_method_copy walker_copy_def opt_list_def copy_method_defs)

lemmas expected_defs = expected.simps passes_matching_def dir_name_ok_def file_name_ok_def
  os_path_join_def endswith_def os_path_basename_def Let_def







text \<open>
  The same walker with \<^verbatim>\<open>dmatch=['src'], dmatch_maxdepth=0\<close>: the name of the source
  root passes the directory rules, but no directory is fewer than 0 levels below a
  passing one, so no directory passes directory matching; every directory yields an
  empty file list, nothing is transferred and no directory is created.
\<close>

lemma walk_dmatch_maxdepth_zero:
  "walk fs_env (walker_match\<lparr> dname_rematch := [''src''], dmatch_maxdepth := Finite 0 \<rparr>)
     (Some deep_tree) ''/src'' (Some ''/dst'') None None None fs_deep =
     Inr ([Yield ''/src'' [] [], Yield ''/src/sub'' [] [], Yield ''/src/sub/deep'' [] []], fs_deep)"
  "expected (walker_match\<lparr> dname_rematch := [''src''], dmatch_maxdepth := Finite 0 \<rparr>) True
     [''src''] ''/src'' deep_tree =
     [Yielded ''/src'' [], Yielded ''/src/sub'' [], Yielded ''/src/sub/deep'' []]"
  by (simp_all add: walk_defs expected_defs walker_match_def walker_copy_def deep_tree_def
        fs_deep_def run_defs exec_defs copy_method_defs fs_defs literal_re_def)


section \<open>Depth bounds\<close>







section \<open>Dry run and second run\<close>

text \<open>
  C2 at a failing input: a dry-run traversal of \<^verbatim>\<open>/src\<close> into a destination that does
  not exist calls \<^verbatim>\<open>os.makedirs\<close> on \<^verbatim>\<open>/dst\<close> and on \<^verbatim>\<open>/dst/sub\<close> (the block
  that sets \<open>dstdir_exists\<close> does not look at the dry-run flag), and both directories
  exist afterwards. No file is created.
\<close>

theorem walk_dryrun_creates_directories:
  "walk fs_env walker_dryrun (Some src_tree) ''/src'' (Some ''/dst'') None None None fs_src =
     Inr ([OsMakedirs ''/dst'', ExecCall ''/src/a.txt'' ''/dst/a.txt'',
           LogInfo ''(dryrun) COPYING: /src/a.txt -> /dst/a.txt'',
           Yield ''/src'' [''sub''] [''a.txt''], OsMakedirs ''/dst/sub'',
           ExecCall ''/src/sub/b.txt'' ''/dst/sub/b.txt'',
           LogInfo ''(dryrun) COPYING: /src/sub/b.txt -> /dst/sub/b.txt'',
           Yield ''/src/sub'' [] [''b.txt'']],
          \<lparr> fs_dirs = {''/dst/sub'', ''/dst'', ''/'', ''/src'', ''/src/sub''},
            fs_files = [''/src/a.txt'' \<mapsto> ''A'', ''/src/sub/b.txt'' \<mapsto> ''B''] \<rparr>)
   \<and> \<not> os_path_isdir fs_env fs_src ''/dst''"
  by (simp add: walk_defs walker_copy_def walker_dryrun_def src_tree_def fs_src_def run_defs
        exec_defs copy_method_defs fs_defs)

text \<open>
  C3 at a failing input: the first sync-mode run with overwrite disabled copies the
  tree; the second run, on the file system the first one left, raises FileExistsError
  before anything is traversed, because \<^verbatim>\<open>walk\<close> calls \<^verbatim>\<open>os.makedirs\<close> on the
  destination exactly when the destination is an existing directory.
\<close>

theorem walk_second_run_raises:
  "(\<exists>evs. walk fs_env walker_copy (Some src_tree) ''/src'' (Some ''/dst'') None None None fs_src
            = Inr (evs, fs_copied))
   \<and> walk fs_env walker_copy (Some src_tree) ''/src'' (Some ''/dst'') None None None fs_copied
       = Inl (FileExistsError ''/dst'')"
proof -
  have "walk fs_env walker_copy (Some src_tree) ''/src'' (Some ''/dst'') None None None fs_copied
       = Inl (FileExistsError ''/dst'')"
    by (simp add: walk_def walker_copy_def fs_copied_def run_defs fs_defs copy_method_defs)
  with walk_first_run show ?thesis by blast
qed

section \<open>Task bundles\<close>

lemma chunks_Nil [simp]: "chunks n [] = []"
  by (simp add: chunks.simps)

lemma chunks_step: "0 < n \<Longrightarrow> xs \<noteq> [] \<Longrightarrow> chunks n xs = take n xs # chunks n (drop n xs)"
  by (subst chunks.simps) simp

lemma concat_chunks: "0 < n \<Longrightarrow> concat (chunks n xs) = xs"
proof (induction n xs rule: chunks.induct)
  case (1 n xs)
  then show ?case by (cases "xs = []") (simp_all add: chunks_step)
qed

lemma chunks_sizes:
  "0 < n \<Longrightarrow> c \<in> set (chunks n xs) \<Longrightarrow> 0 < length c \<and> length c \<le> n"
proof (induction n xs rule: chunks.induct)
  case (1 n xs)
  show ?case
  proof (cases "xs = []")
    case True
    with 1 show ?thesis by simp
  next
    case False
    with 1(2,3) have "c = take n xs \<or> c \<in> set (chunks n (drop n xs))"
      by (simp add: chunks_step)
    then show ?thesis
    proof
      assume "c = take n xs"
      with False 1(2) show ?thesis by simp
    next
      assume "c \<in> set (chunks n (drop n xs))"
      with 1(1)[OF _ 1(2)] False 1(2) show ?thesis by simp
    qed
  qed
qed

lemma div_step: "0 < (n::nat) \<Longrightarrow> 0 < m \<Longrightarrow> (m + n - 1) div n = Suc ((m - n + n - 1) div n)"
proof (cases "n \<le> m")
  case True
  assume n: "0 < n" "0 < m"
  from True n have e: "m + n - 1 = (m - 1) + n" "m - n + n - 1 = m - 1" by simp_all
  have "(m - 1 + n) div n = Suc ((m - 1) div n)" using n by (simp only: div_add_self2)
  with e show ?thesis by simp
next
  case False
  assume n: "0 < n" "0 < m"
  from False n have a: "(m + n - 1) div n = 1"
    by (intro div_nat_eqI) simp_all
  from False have "m - n + n - 1 = n - 1" by simp
  with n have "(m - n + n - 1) div n = 0" by simp
  with a show ?thesis by simp
qed

lemma length_chunks: "0 < n \<Longrightarrow> length (chunks n xs) = (length xs + n - 1) div n"
proof (induction n xs rule: chunks.induct)
  case (1 n xs)
  show ?case
  proof (cases "xs = []")
    case True
    with 1 show ?thesis by simp
  next
    case False
    with 1 have "length (chunks n xs) = Suc ((length xs - n + n - 1) div n)"
      by (simp add: chunks_step)
    also have "\<dots> = (length xs + n - 1) div n"
      using div_step[of n "length xs"] False 1(2) by simp
    finally show ?thesis .
  qed
qed

lemma chunks_butlast_full:
  "0 < n \<Longrightarrow> c \<in> set (butlast (chunks n xs)) \<Longrightarrow> length c = n"
proof (induction n xs rule: chunks.induct)
  case (1 n xs)
  show ?case
  proof (cases "xs = []")
    case True
    with 1 show ?thesis by simp
  next
    case False
    show ?thesis
    proof (cases "chunks n (drop n xs) = []")
      case True
      with 1(2,3) False show ?thesis by (simp add: chunks_step)
    next
      case ne: False
      then have "drop n xs \<noteq> []" by auto
      then have lt: "n < length xs" by simp
      from 1(2,3) False ne have "c = take n xs \<or> c \<in> set (butlast (chunks n (drop n xs)))"
        by (simp add: chunks_step)
      then show ?thesis
      proof
        assume "c = take n xs"
        with lt show ?thesis by simp
      next
        assume "c \<in> set (butlast (chunks n (drop n xs)))"
        with 1(1)[OF _ 1(2)] False 1(2) show ?thesis by simp
      qed
    qed
  qed
qed

lemma write_bundles_from_eq:
  assumes "0 < B"
      and "\<And>c. c \<in> set (chunks B (drop tasknum tasks)) \<Longrightarrow> bundle_content np delim fmt c = Inr (body c)"
  shows "write_bundles_from np tasks B idx prefix delim fmt jobnum tasknum files =
     Inr (map (\<lambda>i. prefix @ ''_'' @ idx (jobnum + i) @ ''.txt'') [0..<length (chunks B (drop tasknum tasks))],
          rev (zip (map (\<lambda>i. prefix @ ''_'' @ idx (jobnum + i) @ ''.txt'')
                      [0..<length (chunks B (drop tasknum tasks))])
                   (map body (chunks B (drop tasknum tasks)))) @ files)"
  using assms
proof (induction np tasks B idx prefix delim fmt jobnum tasknum files
       rule: write_bundles_from.induct)
  case (1 np task_list B idx prefix delim fmt jobnum tasknum files)
  show ?case
  proof (cases "tasknum < length task_list")
    case False
    then show ?thesis by (simp add: write_bundles_from.simps)
  next
    case True
    define rest where "rest = chunks B (drop (tasknum + B) task_list)"
    define chunk where "chunk = take B (drop tasknum task_list)"
    have ch: "chunks B (drop tasknum task_list) = chunk # rest"
      using True 1(2) by (simp add: chunks_step rest_def chunk_def add.commute)
    have bc: "bundle_content np delim fmt chunk = Inr (body chunk)"
      using "1.prems"(2)[of chunk] ch by simp
    have shift: "map (\<lambda>i. prefix @ ''_'' @ idx (jobnum + i) @ ''.txt'') [0..<Suc (length rest)]
         = (prefix @ ''_'' @ idx jobnum @ ''.txt'')
           # map (\<lambda>i. prefix @ ''_'' @ idx (jobnum + 1 + i) @ ''.txt'') [0..<length rest]"
      by (simp add: upt_conv_Cons map_Suc_upt[symmetric] del: upt_Suc)
    define bname where "bname = prefix @ ''_'' @ idx jobnum @ ''.txt''"
    have c: "0 < B \<and> tasknum < length task_list" using True 1(2) by simp
    have ih: "write_bundles_from np task_list B idx prefix delim fmt (jobnum + 1) (tasknum + B)
                ((bname, body chunk) # files)
              = Inr (map (\<lambda>i. prefix @ ''_'' @ idx (jobnum + 1 + i) @ ''.txt'') [0..<length rest],
                 rev (zip (map (\<lambda>i. prefix @ ''_'' @ idx (jobnum + 1 + i) @ ''.txt'') [0..<length rest])
                          (map body rest)) @ (bname, body chunk) # files)"
    proof -
      have r: "\<And>c. c \<in> set (chunks B (drop (tasknum + B) task_list)) \<Longrightarrow>
                 bundle_content np delim fmt c = Inr (body c)"
        using "1.prems"(2) ch by (simp add: rest_def)
      from "1.IH"[OF c refl refl bc[unfolded chunk_def] "1.prems"(1) r]
      show ?thesis by (simp add: rest_def bname_def chunk_def)
    qed
    have "write_bundles_from np task_list B idx prefix delim fmt jobnum tasknum files
          = Inr (bname # map (\<lambda>i. prefix @ ''_'' @ idx (jobnum + 1 + i) @ ''.txt'') [0..<length rest],
             rev (zip (map (\<lambda>i. prefix @ ''_'' @ idx (jobnum + 1 + i) @ ''.txt'') [0..<length rest])
                          (map body rest)) @ (bname, body chunk) # files)"
      apply (subst write_bundles_from.simps)
      using c ih bc by (simp add: Let_def bname_def chunk_def)
    then show ?thesis
      unfolding ch by (simp add: map_upt_Suc bname_def del: upt_Suc)
  qed
qed

lemma str_nat_length_pos: "0 < length (str_nat n)"
  by (subst str_nat.simps) simp

lemma str_nat_length_mono: "j \<le> n \<Longrightarrow> length (str_nat j) \<le> length (str_nat n)"
proof (induction n arbitrary: j rule: str_nat.induct)
  case (1 n)
  show ?case
  proof (cases "n < 10")
    case True
    with 1(2) have "j < 10" by simp
    with True show ?thesis by (simp add: str_nat.simps[of j] str_nat.simps[of n])
  next
    case False
    show ?thesis
    proof (cases "j < 10")
      case True
      with False show ?thesis by (simp add: str_nat.simps[of j] str_nat.simps[of n])
    next
      case jf: False
      from 1(2) have "j div 10 \<le> n div 10" by (rule div_le_mono)
      from 1(1)[OF False this] False jf show ?thesis
        by (simp add: str_nat.simps[of j] str_nat.simps[of n])
    qed
  qed
qed

lemma zero_pad_length: "length s \<le> w \<Longrightarrow> length (zero_pad w s) = w"
  by (simp add: zero_pad_def)

lemma ceil_div_bounds:
  assumes "0 < (B::nat)" "0 < N"
  shows "N \<le> ((N + B - 1) div B) * B \<and> ((N + B - 1) div B - 1) * B < N"
proof -
  define n where "n = (N + B - 1) div B"
  define r where "r = (N + B - 1) mod B"
  have e: "n * B + r = N + B - 1" by (simp add: n_def r_def)
  have r: "r < B" using assms(1) by (simp add: r_def)
  have n1: "1 \<le> n" using assms by (simp add: n_def Suc_le_eq div_greater_zero_iff)
  then obtain k where k: "n = Suc k" by (cases n) auto
  from e r assms have "N \<le> n * B" by linarith
  moreover from e r assms k have "k * B < N" by simp
  ultimately have "N \<le> n * B \<and> (n - 1) * B < N" by (simp add: k)
  then show ?thesis unfolding n_def .
qed

lemma write_task_bundles_eq:
  assumes "0 < B" and "imported_numpy np \<or> fmt = ''%s''"
      and "\<And>c. c \<in> set (chunks B task_list) \<Longrightarrow> bundle_content np delim fmt c = Inr (body c)"
  shows "write_task_bundles np task_list (int B) dstdir prefix now delim fmt files =
           Inr (bundle_names dstdir prefix now (length (chunks B task_list)),
                rev (zip (bundle_names dstdir prefix now (length (chunks B task_list)))
                         (map body (chunks B task_list))) @ files)"
proof -
  have w: "write_bundles_from np task_list B idx pre delim fmt jobnum 0 files =
     Inr (map (\<lambda>i. pre @ ''_'' @ idx (jobnum + i) @ ''.txt'') [0..<length (chunks B task_list)],
          rev (zip (map (\<lambda>i. pre @ ''_'' @ idx (jobnum + i) @ ''.txt'')
                      [0..<length (chunks B task_list)])
                   (map body (chunks B task_list))) @ files)" for idx pre jobnum
    using write_bundles_from_eq[where tasknum=0 and tasks=task_list and np=np and delim=delim
            and fmt=fmt and body=body, OF assms(1)] assms(3)
    by simp
  from assms(1,2) show ?thesis
    by (simp add: write_task_bundles_def Let_def w length_chunks
        bundle_names_def get_index_fmtstr_def get_index_width_def)
qed

lemma bundle_content_text:
  "\<not> imported_numpy np \<Longrightarrow> c \<noteq> [] \<Longrightarrow>
     bundle_content np delim fmt c = Inr (concat (map (\<lambda>task. py_join delim task @ [CHR 0x0A]) c))"
  by (simp add: bundle_content_def bundle_text_def)

lemma bundle_content_numpy:
  "imported_numpy np \<Longrightarrow> c \<noteq> [] \<Longrightarrow> bundle_content np delim fmt c = np_savetxt np c fmt delim"
  by (simp add: bundle_content_def)

lemma chunks_nonempty: "0 < B \<Longrightarrow> c \<in> set (chunks B xs) \<Longrightarrow> c \<noteq> []"
  using chunks_sizes[of B c xs] by auto

text \<open>
  C6. For every non-empty task list of length \<open>N\<close> and bundle size \<open>B > 0\<close>,
  \<^verbatim>\<open>write_task_bundles\<close> writes one file per chunk of the list cut into contiguous
  chunks of size \<open>B\<close>: there are \<open>ceil(N/B)\<close> of them (the least \<open>n\<close> with
  \<open>N \<le> n * B\<close>), every chunk but the last has \<open>B\<close> tasks and the last has between 1
  and \<open>B\<close>, and together they are the task list. The file of chunk \<open>j\<close> (from 1) is
  named with the index \<open>j\<close> padded with zeros to exactly
  \<open>max(3, digits of the bundle count)\<close> characters, and it holds the tasks of
  chunk \<open>j\<close> and no others: without numpy (and with the default format) one line per
  task of the chunk, in order, the items joined by the delimiter; with numpy, what
  \<^verbatim>\<open>np.savetxt\<close> writes for that chunk (taken to succeed on every chunk).
\<close>

theorem write_task_bundles_chunks:
  assumes "task_list \<noteq> []" and "0 < B"
      and "imported_numpy np \<Longrightarrow>
             \<forall>c \<in> set (chunks B task_list). np_savetxt np c task_fmt delim = Inr (saved c)"
      and "\<not> imported_numpy np \<Longrightarrow> task_fmt = ''%s''"
  shows "write_task_bundles np task_list (int B) dstdir prefix now delim task_fmt files =
           Inr (bundle_names dstdir prefix now (length (chunks B task_list)),
                rev (zip (bundle_names dstdir prefix now (length (chunks B task_list)))
                         (map (\<lambda>c. if imported_numpy np then saved c
                                    else concat (map (\<lambda>task. py_join delim task @ [CHR 0x0A]) c))
                            (chunks B task_list))) @ files)
         \<and> length (chunks B task_list) = (length task_list + B - 1) div B
         \<and> length task_list \<le> length (chunks B task_list) * B
         \<and> (length (chunks B task_list) - 1) * B < length task_list
         \<and> concat (chunks B task_list) = task_list
         \<and> (\<forall>c \<in> set (butlast (chunks B task_list)). length c = B)
         \<and> 0 < length (last (chunks B task_list))
         \<and> length (last (chunks B task_list)) \<le> B
         \<and> (\<forall>j < length (chunks B task_list).
               length (zero_pad (max 3 (length (str_nat (length (chunks B task_list))))) (str_nat (Suc j)))
                 = max 3 (length (str_nat (length (chunks B task_list)))))"
proof -
  have ne: "chunks B task_list \<noteq> []" using assms by (simp add: chunks_step)
  then have l: "last (chunks B task_list) \<in> set (chunks B task_list)" by simp
  have len: "length (chunks B task_list) = (length task_list + B - 1) div B"
    using assms(2) by (rule length_chunks)
  have pad: "length (zero_pad (max 3 (length (str_nat (length (chunks B task_list))))) (str_nat (Suc j)))
                 = max 3 (length (str_nat (length (chunks B task_list))))"
    if "j < length (chunks B task_list)" for j
  proof (rule zero_pad_length)
    from that have "Suc j \<le> length (chunks B task_list)" by simp
    from str_nat_length_mono[OF this]
    show "length (str_nat (Suc j)) \<le> max 3 (length (str_nat (length (chunks B task_list))))"
      by simp
  qed
  from assms have N: "0 < length task_list" by simp
  have f: "imported_numpy np \<or> task_fmt = ''%s''" using assms(4) by blast
  have c: "bundle_content np delim task_fmt c =
             Inr (if imported_numpy np then saved c
                  else concat (map (\<lambda>task. py_join delim task @ [CHR 0x0A]) c))"
    if "c \<in> set (chunks B task_list)" for c
    using that chunks_nonempty[OF assms(2) that] assms(3)
    by (cases "imported_numpy np") (simp_all add: bundle_content_text bundle_content_numpy)
  show ?thesis
    using write_task_bundles_eq[OF assms(2) f c, where task_list=task_list and dstdir=dstdir
            and prefix=prefix and now=now and files=files]
      len ceil_div_bounds[OF assms(2) N] concat_chunks[OF assms(2), of task_list]
      chunks_butlast_full[OF assms(2), of _ task_list] chunks_sizes[OF assms(2) l] pad
    by simp
qed

lemma chunks_ten_tasks: "map length (chunks 4 ten_tasks) = [4, 4, 2]"
  by (simp add: ten_tasks_def chunks_step)

lemma zero_pad_three:
  "zero_pad 3 ''1'' = ''001''" "zero_pad 3 ''2'' = ''002''" "zero_pad 3 ''3'' = ''003''"
  by (simp_all add: zero_pad_def eval_nat_numeral)

lemma str_nat_small:
  "str_nat 1 = ''1''" "str_nat 2 = ''2''" "str_nat 3 = ''3''"
  by (simp_all add: str_nat.simps digit_char_def)

lemma bundle_names_three:
  "bundle_names ''/b'' ''Copy_src'' ''20200101000000'' 3 =
     [''/b/Copy_src_20200101000000_001.txt'', ''/b/Copy_src_20200101000000_002.txt'',
      ''/b/Copy_src_20200101000000_003.txt'']"
proof -
  have u: "[0..<3] = [0, 1, 2]" by (simp add: upt_rec)
  have s: "str_nat (Suc 0) = ''1''" "str_nat (Suc (Suc 0)) = ''2''"
    "str_nat (Suc (Suc (Suc 0))) = ''3''"
    using str_nat_small by (simp_all add: eval_nat_numeral)
  show ?thesis
    unfolding bundle_names_def u
    by (simp add: s str_nat_small zero_pad_three os_path_join_def endswith_def)
qed


lemma chunks_ten_tasks_eq:
  "chunks 4 ten_tasks =
     [[[''/s/0'', ''/d/''], [''/s/1'', ''/d/''], [''/s/2'', ''/d/''], [''/s/3'', ''/d/'']],
      [[''/s/4'', ''/d/''], [''/s/5'', ''/d/''], [''/s/6'', ''/d/''], [''/s/7'', ''/d/'']],
      [[''/s/8'', ''/d/''], [''/s/9'', ''/d/'']]]"
  by (simp add: ten_tasks_def chunks_step)

theorem write_task_bundles_chunks_witness:
  "write_task_bundles no_numpy ten_tasks 4 ''/b'' ''Copy_src'' ''20200101000000'' '','' ''%s'' [] =
      Inr ([''/b/Copy_src_20200101000000_001.txt'', ''/b/Copy_src_20200101000000_002.txt'',
            ''/b/Copy_src_20200101000000_003.txt''],
           [(''/b/Copy_src_20200101000000_003.txt'',
             ''/s/8,/d/\<newline>/s/9,/d/\<newline>''),
            (''/b/Copy_src_20200101000000_002.txt'',
             ''/s/4,/d/\<newline>/s/5,/d/\<newline>/s/6,/d/\<newline>/s/7,/d/\<newline>''),
            (''/b/Copy_src_20200101000000_001.txt'',
             ''/s/0,/d/\<newline>/s/1,/d/\<newline>/s/2,/d/\<newline>/s/3,/d/\<newline>'')])
   \<and> map length (chunks 4 ten_tasks) = [4, 4, 2]
   \<and> concat (chunks 4 ten_tasks) = ten_tasks"
proof -
  have ne: "ten_tasks \<noteq> []" by (simp add: ten_tasks_def)
  have p: "0 < (4::nat)" by simp
  have n: "length (chunks 4 ten_tasks) = 3" by (simp add: chunks_ten_tasks_eq)
  have i: "\<not> imported_numpy no_numpy" by (simp add: no_numpy_def)
  note t = write_task_bundles_chunks[OF ne p, where np=no_numpy and task_fmt="''%s''"
             and delim="'',''" and saved="\<lambda>c. []" and dstdir="''/b''" and prefix="''Copy_src''"
             and now="''20200101000000''" and files="[]", unfolded n]
  have w: "write_task_bundles no_numpy ten_tasks (int 4) ''/b'' ''Copy_src'' ''20200101000000''
             '','' ''%s'' [] =
           Inr (bundle_names ''/b'' ''Copy_src'' ''20200101000000'' 3,
                rev (zip (bundle_names ''/b'' ''Copy_src'' ''20200101000000'' 3)
                         (map (\<lambda>c. if imported_numpy no_numpy then []
                                    else concat (map (\<lambda>task. py_join '','' task @ [CHR 0x0A]) c))
                            (chunks 4 ten_tasks))) @ [])"
    using t i by simp
  have c: "concat (chunks 4 ten_tasks) = ten_tasks"
    using t i by simp
  from w have "write_task_bundles no_numpy ten_tasks 4 ''/b'' ''Copy_src'' ''20200101000000'' '','' ''%s'' [] =
      Inr ([''/b/Copy_src_20200101000000_001.txt'', ''/b/Copy_src_20200101000000_002.txt'',
            ''/b/Copy_src_20200101000000_003.txt''],
           [(''/b/Copy_src_20200101000000_003.txt'',
             ''/s/8,/d/\<newline>/s/9,/d/\<newline>''),
            (''/b/Copy_src_20200101000000_002.txt'',
             ''/s/4,/d/\<newline>/s/5,/d/\<newline>/s/6,/d/\<newline>/s/7,/d/\<newline>''),
            (''/b/Copy_src_20200101000000_001.txt'',
             ''/s/0,/d/\<newline>/s/1,/d/\<newline>/s/2,/d/\<newline>/s/3,/d/\<newline>'')])"
    unfolding bundle_names_three chunks_ten_tasks_eq by (simp add: i)
  with c chunks_ten_tasks show ?thesis by (intro conjI)
qed

text \<open>
  C7 at the failing input: for the empty task list the range of the loop is empty, so no
  bundle file is written and the returned list is empty, with or without numpy; the
  branch of the loop body that would write an empty file is never reached.
\<close>

theorem write_task_bundles_empty:
  "write_task_bundles np [] 4 ''/b'' ''Copy_src'' ''20200101000000'' '','' ''%s'' [] = Inr ([], [])"
  by (simp add: write_task_bundles_def write_bundles_from.simps)

section \<open>Round trip through bundle files\<close>

lemma startswith_take: "startswith s p = (take (length p) s = p)"
  by (induction s p rule: startswith.induct) auto

lemma split_from_skip:
  "\<forall>p < length x. \<not> occurs_at sep (x @ rest) p \<Longrightarrow>
     split_from sep acc (x @ rest) = split_from sep (rev x @ acc) rest"
proof (induction x arbitrary: acc)
  case Nil
  then show ?case by simp
next
  case (Cons a x)
  from Cons.prems have "\<not> occurs_at sep ((a # x) @ rest) 0" by blast
  then have n: "\<not> startswith (a # x @ rest) sep" by (simp add: occurs_at_def startswith_take)
  have "\<forall>p < length x. \<not> occurs_at sep (x @ rest) p"
  proof (intro allI impI)
    fix p assume "p < length x"
    with Cons.prems have "\<not> occurs_at sep ((a # x) @ rest) (Suc p)" by auto
    then show "\<not> occurs_at sep (x @ rest) p" by (simp add: occurs_at_def)
  qed
  from Cons.IH[OF this, of "a # acc"] n show ?case
    by (subst split_from.simps) simp
qed

lemma split_from_sep:
  "sep \<noteq> [] \<Longrightarrow> split_from sep acc (sep @ s) = rev acc # split_from sep [] s"
  by (subst split_from.simps) (simp add: startswith_take)

lemma split_from_last:
  assumes "sep \<noteq> []" "\<forall>p < length x. \<not> occurs_at sep x p"
  shows "split_from sep acc x = [rev acc @ x]"
proof -
  have "split_from sep acc (x @ []) = split_from sep (rev x @ acc) []"
    using assms(2) by (intro split_from_skip) simp
  moreover have "split_from sep (rev x @ acc) [] = [rev acc @ x]"
    using assms(1) by (subst split_from.simps) (simp add: startswith_take)
  ultimately show ?thesis by simp
qed

lemma split_join:
  "sep \<noteq> [] \<Longrightarrow> t \<noteq> [] \<Longrightarrow> delimited sep t \<Longrightarrow> split_from sep [] (py_join sep t) = t"
proof (induction sep t rule: py_join.induct)
  case (1 sep)
  then show ?case by simp
next
  case (2 sep x)
  then have "\<forall>p < length x. \<not> occurs_at sep x p"
    by (simp add: delimited_def list_all_iff)
  from split_from_last[OF "2.prems"(1) this] show ?case by simp
next
  case (3 sep x y ys)
  define rest where "rest = py_join sep (y # ys)"
  define n where "n = length sep"
  have dl: "\<And>p. p < length (x @ sep @ rest) \<Longrightarrow> occurs_at sep (x @ sep @ rest) p \<Longrightarrow>
              (length x \<le> p \<and> p < length x + n)
              \<or> (\<exists>j \<in> set (join_positions n (y # ys)).
                    length x + n + j \<le> p \<and> p < length x + n + j + n)"
    using "3.prems"(3) by (auto simp: delimited_def list_all_iff list_ex_iff rest_def n_def)
  have first: "\<forall>p < length x. \<not> occurs_at sep (x @ sep @ rest) p"
  proof (intro allI impI notI)
    fix p assume p: "p < length x" and o: "occurs_at sep (x @ sep @ rest) p"
    from dl[OF _ o] p show False by auto
  qed
  have d': "delimited sep (y # ys)"
    unfolding delimited_def list_all_iff list_ex_iff
  proof (intro ballI impI)
    fix q assume q: "q \<in> set [0..<length (py_join sep (y # ys))]"
       and o: "occurs_at sep (py_join sep (y # ys)) q"
    from o have "occurs_at sep (x @ sep @ rest) (length x + n + q)"
      by (simp add: occurs_at_def rest_def n_def)
    moreover from q have "length x + n + q < length (x @ sep @ rest)"
      by (simp add: rest_def n_def)
    ultimately have "(length x \<le> length x + n + q \<and> length x + n + q < length x + n)
        \<or> (\<exists>j \<in> set (join_positions n (y # ys)).
              length x + n + j \<le> length x + n + q \<and> length x + n + q < length x + n + j + n)"
      by (rule dl[rotated])
    then show "\<exists>j \<in> set (join_positions (length sep) (y # ys)). j \<le> q \<and> q < j + length sep"
      by (auto simp: n_def)
  qed
  have "split_from sep [] (x @ sep @ rest) = split_from sep (rev x @ []) (sep @ rest)"
    by (rule split_from_skip[OF first])
  also have "\<dots> = x # split_from sep [] rest"
    using "3.prems"(1) by (simp add: split_from_sep)
  also have "split_from sep [] rest = y # ys"
    unfolding rest_def by (rule "3.IH"[OF "3.prems"(1) _ d']) simp
  finally show ?case by (simp add: rest_def)
qed

lemma set_py_join: "set (py_join sep t) \<subseteq> set sep \<union> \<Union> (set ` set t)"
  by (induction sep t rule: py_join.induct) auto

lemma is_linebreak_space: "is_linebreak c \<Longrightarrow> is_space c"
  by (auto simp: is_linebreak_def is_space_def)

lemma splitlines_from_line:
  "\<forall>ch\<in>set l. \<not> is_linebreak ch \<Longrightarrow>
     splitlines_from acc (l @ CHR 0x0A # s) = (rev acc @ l) # splitlines_from [] s"
proof (induction l arbitrary: acc)
  case Nil
  have lb: "is_linebreak (CHR 0x0A)" by (simp add: is_linebreak_def)
  show ?case by (cases s) (simp_all add: lb)
next
  case (Cons a l)
  have "a \<noteq> CHR 0x0D" using Cons.prems by (auto simp: is_linebreak_def)
  with Cons show ?case
    by (cases "l @ CHR 0x0A # s") auto
qed

lemma splitlines_bundle_text:
  "\<forall>l\<in>set ls. \<forall>ch\<in>set l. \<not> is_linebreak ch \<Longrightarrow>
     splitlines (concat (map (\<lambda>l. l @ [CHR 0x0A]) ls)) = ls"
proof (induction ls)
  case Nil
  then show ?case by (simp add: splitlines_def)
next
  case (Cons l ls)
  then show ?case by (simp add: splitlines_def splitlines_from_line)
qed

lemma in_set_dropWhile: "ch \<in> set s \<Longrightarrow> \<not> P ch \<Longrightarrow> ch \<in> set (dropWhile P s)"
  by (induction s) auto

lemma strip_nonempty:
  assumes "ch \<in> set s" "\<not> is_space ch"
  shows "strip s \<noteq> []"
proof -
  from assms have "ch \<in> set (dropWhile is_space s)"
    by (simp add: in_set_dropWhile)
  with assms(2) show ?thesis
    by (auto simp: strip_def)
qed

lemma sequence_sum_Inr: "sequence_sum (map (\<lambda>x. Inr (g x)) xs) = Inr (map g xs)"
  by (induction xs) auto

lemma sequence_sum_cong_Inr:
  "(\<And>x. x \<in> set xs \<Longrightarrow> f x = Inr (g x)) \<Longrightarrow> sequence_sum (map f xs) = Inr (map g xs)"
  by (induction xs) auto

lemma read_chunk:
  assumes ni: "\<not> imported_numpy np" and d: "d \<noteq> []"
      and dl: "list_all (\<lambda>ch. \<not> is_linebreak ch) d"
      and ok: "list_all (task_ok d) chunk" and ne: "chunk \<noteq> []"
      and un: "list_all (\<lambda>t. length t = length (hd chunk)) chunk"
      and f: "map_of files bundle_file = Some (bundle_text d chunk)"
  shows "read_task_bundle np files bundle_file (Some d) 0 True None None True False
           = Inr (map Cols chunk)"
proof -
  have lines: "\<forall>l\<in>set (map (py_join d) chunk). \<forall>ch\<in>set l. \<not> is_linebreak ch"
  proof (intro ballI)
    fix l ch assume "l \<in> set (map (py_join d) chunk)" "ch \<in> set l"
    then obtain t where t: "t \<in> set chunk" "ch \<in> set (py_join d t)" by auto
    from t(2) set_py_join[of d t] have "ch \<in> set d \<or> (\<exists>x\<in>set t. ch \<in> set x)" by auto
    moreover from ok t(1) have "\<forall>x\<in>set t. \<forall>ch\<in>set x. \<not> is_linebreak ch"
      by (auto simp: task_ok_def list_all_iff)
    ultimately show "\<not> is_linebreak ch" using dl by (auto simp: list_all_iff)
  qed
  have sl: "splitlines (bundle_text d chunk) = map (py_join d) chunk"
    using splitlines_bundle_text[OF lines] by (simp add: bundle_text_def comp_def)
  have nb: "filter (\<lambda>l. strip l \<noteq> []) (map (py_join d) chunk) = map (py_join d) chunk"
  proof (rule filter_True, clarsimp)
    fix t assume "t \<in> set chunk" "strip (py_join d t) = []"
    moreover from \<open>t \<in> set chunk\<close> ok obtain ch where "ch \<in> set (py_join d t)" "\<not> is_space ch"
      by (auto simp: task_ok_def list_all_iff list_ex_iff)
    ultimately show False using strip_nonempty by blast
  qed
  have sp: "sequence_sum (map ((\<lambda>task. py_split task d) \<circ> py_join d) chunk) = Inr chunk"
  proof -
    have "sequence_sum (map (\<lambda>t. py_split (py_join d t) d) chunk) = Inr (map (\<lambda>t. t) chunk)"
    proof (rule sequence_sum_cong_Inr)
      fix t assume "t \<in> set chunk"
      with ok have "t \<noteq> []" "delimited d t"
        by (auto simp: task_ok_def list_all_iff)
      then show "py_split (py_join d t) d = Inr t"
        using d by (simp add: py_split_def split_join)
    qed
    then show ?thesis by (simp add: comp_def)
  qed
  have st: "map (map strip) chunk = chunk"
  proof (rule map_idI, rule map_idI)
    fix t x assume "t \<in> set chunk" "x \<in> set t"
    with ok show "strip x = x" by (auto simp: task_ok_def list_all_iff)
  qed
  have co: "map (\<lambda>task. if length task = 1 then Bare (hd task) else Cols task) chunk = map Cols chunk"
    using ok by (auto simp: task_ok_def list_all_iff)
  have l1: "\<forall>x\<in>set chunk. length x \<noteq> Suc 0"
    using ok by (auto simp: task_ok_def list_all_iff)
  show ?thesis
    using ne l1 ni by (simp add: read_task_bundle_def f sl nb sp st un co Let_def)
qed

lemma digit_val_digit_char: "d < 10 \<Longrightarrow> digit_val (digit_char d) = d"
proof -
  assume "d < 10"
  then have "d \<in> {0, 1, 2, 3, 4, 5, 6, 7, 8, 9}" by auto
  then show ?thesis
    by (auto simp: digit_val_def digit_char_def)
qed

lemma decimal_from_append: "decimal_from a (xs @ ys) = decimal_from (decimal_from a xs) ys"
  by (induction xs arbitrary: a) auto

lemma decimal_from_str_nat: "decimal_from 0 (str_nat n) = n"
proof (induction n rule: str_nat.induct)
  case (1 n)
  show ?case
  proof (cases "n < 10")
    case True
    then show ?thesis by (simp add: str_nat.simps[of n] digit_val_digit_char)
  next
    case False
    with 1 show ?thesis
      by (simp add: str_nat.simps[of n] decimal_from_append digit_val_digit_char)
  qed
qed

lemma decimal_from_zeros: "decimal_from 0 (replicate k (CHR ''0'') @ s) = decimal_from 0 s"
  by (induction k) (simp_all add: digit_val_def)

lemma decimal_from_zero_pad: "decimal_from 0 (zero_pad w (str_nat n)) = n"
  by (simp add: zero_pad_def decimal_from_zeros decimal_from_str_nat)

lemma distinct_bundle_names: "distinct (bundle_names dstdir prefix now n)"
proof -
  have "inj_on (\<lambda>j. os_path_join dstdir (prefix @ ''_'' @ now) @ ''_''
                 @ zero_pad (max 3 (length (str_nat n))) (str_nat (Suc j)) @ ''.txt'') (set [0..<n])"
  proof (rule inj_onI)
    fix j k
    assume "os_path_join dstdir (prefix @ ''_'' @ now) @ ''_''
                 @ zero_pad (max 3 (length (str_nat n))) (str_nat (Suc j)) @ ''.txt''
          = os_path_join dstdir (prefix @ ''_'' @ now) @ ''_''
                 @ zero_pad (max 3 (length (str_nat n))) (str_nat (Suc k)) @ ''.txt''"
    then have "zero_pad (max 3 (length (str_nat n))) (str_nat (Suc j))
             = zero_pad (max 3 (length (str_nat n))) (str_nat (Suc k))"
      by simp
    then have "decimal_from 0 (zero_pad (max 3 (length (str_nat n))) (str_nat (Suc j)))
             = decimal_from 0 (zero_pad (max 3 (length (str_nat n))) (str_nat (Suc k)))"
      by simp
    then show "j = k" by (simp only: decimal_from_zero_pad)
  qed
  then show ?thesis by (simp add: bundle_names_def distinct_map)
qed

lemma length_bundle_names [simp]: "length (bundle_names dstdir prefix now n) = n"
  by (simp add: bundle_names_def)

lemma map_of_written:
  assumes "distinct names" "length names = length texts" "j < length names"
  shows "map_of (rev (zip names texts) @ files) (names ! j) = Some (texts ! j)"
proof -
  have d: "distinct (map fst (rev (zip names texts)))"
    using assms(1,2) by (simp add: rev_map[symmetric])
  have "(names ! j, texts ! j) \<in> set (rev (zip names texts))"
    using assms(2,3) by (auto simp: set_zip)
  with d have "map_of (rev (zip names texts)) (names ! j) = Some (texts ! j)"
    by (rule map_of_is_SomeI)
  then show ?thesis by (simp add: map_add_Some_iff)
qed

lemma sequence_sum_nth:
  assumes "\<And>j. j < length xs \<Longrightarrow> f (xs ! j) = Inr (g j)"
  shows "sequence_sum (map f xs) = Inr (map g [0..<length xs])"
proof -
  have "map (\<lambda>j. f (xs ! j)) [0..<length xs] = map f (map (\<lambda>j. xs ! j) [0..<length xs])"
    by (simp add: comp_def)
  then have "map f xs = map (\<lambda>j. f (xs ! j)) [0..<length xs]"
    by (simp only: map_nth)
  also have "\<dots> = map (\<lambda>j. Inr (g j)) [0..<length xs]"
    using assms by simp
  finally show ?thesis by (simp add: sequence_sum_Inr)
qed

lemma bundle_names_one:
  "bundle_names ''/b'' ''Copy_src'' ''20200101000000'' 1 = [''/b/Copy_src_20200101000000_001.txt'']"
proof -
  have s: "str_nat (Suc 0) = ''1''" "str_nat 1 = ''1''"
    by (simp_all add: str_nat.simps digit_char_def)
  have z: "zero_pad 3 ''1'' = ''001''" by (simp add: zero_pad_def eval_nat_numeral)
  show ?thesis
    by (simp add: bundle_names_def s z os_path_join_def endswith_def)
qed

lemma comma_write:
  "write_task_bundles no_numpy comma_task 1 ''/b'' ''Copy_src'' ''20200101000000'' '','' ''%s'' [] =
     Inr ([''/b/Copy_src_20200101000000_001.txt''],
          [(''/b/Copy_src_20200101000000_001.txt'', ''/data/a,b.txt,/dst/\<newline>'')])"
proof -
  have c: "chunks (Suc 0) comma_task = [[[''/data/a,b.txt'', ''/dst/'']]]"
    by (simp add: comma_task_def chunks_step)
  have p: "0 < (1::nat)" by simp
  have i: "imported_numpy no_numpy \<or> ''%s'' = ''%s''" by simp
  have b: "bundle_content no_numpy '','' ''%s'' c = Inr (bundle_text '','' c)"
    if "c \<in> set (chunks 1 comma_task)" for c
    using that by (simp add: c bundle_content_def no_numpy_def)
  from write_task_bundles_eq[OF p i b, where task_list=comma_task and dstdir="''/b''"
         and prefix="''Copy_src''" and now="''20200101000000''" and files="[]"]
  show ?thesis
    using bundle_names_one by (simp add: c bundle_text_def)
qed

lemma comma_read:
  "read_bundles no_numpy [(''/b/Copy_src_20200101000000_001.txt'', ''/data/a,b.txt,/dst/\<newline>'')]
         '','' [''/b/Copy_src_20200101000000_001.txt'']
       = Inr [Cols [''/data/a'', ''b.txt'', ''/dst/'']]"
  by (simp add: read_bundles_def read_task_bundle_def no_numpy_def splitlines_def is_linebreak_def
        strip_def is_space_def py_split_def split_from.simps Let_def)

text \<open>
  C5, as stated: without numpy, a task whose source path contains the delimiter is
  written as one line and read back as three columns.
\<close>

theorem bundle_round_trip_comma:
  "write_task_bundles no_numpy comma_task 1 ''/b'' ''Copy_src'' ''20200101000000'' '','' ''%s'' [] =
     Inr ([''/b/Copy_src_20200101000000_001.txt''],
          [(''/b/Copy_src_20200101000000_001.txt'', ''/data/a,b.txt,/dst/\<newline>'')])
   \<and> read_bundles no_numpy
         [(''/b/Copy_src_20200101000000_001.txt'', ''/data/a,b.txt,/dst/\<newline>'')]
         '','' [''/b/Copy_src_20200101000000_001.txt'']
       = Inr [Cols [''/data/a'', ''b.txt'', ''/dst/'']]
   \<and> map Cols comma_task = [Cols [''/data/a,b.txt'', ''/dst/'']]"
  using comma_write comma_read by (simp add: comma_task_def)

text \<open>
  C5, amended. When numpy cannot be imported: for every bundle size \<open>B > 0\<close>, every
  non-empty delimiter without a line break, and every list of tasks of at least two
  items each, where the tasks that fall into the same bundle have the same number of
  items, no item has a line break or begins or ends with white space, the line of a
  task (its items joined by the delimiter) is not blank, and no occurrence of the
  delimiter in that line begins inside an item: writing the tasks with
  \<^verbatim>\<open>write_task_bundles\<close> and reading every produced file with \<^verbatim>\<open>read_task_bundle\<close>
  (its default arguments and the same delimiter), concatenated in file order, gives
  back the tasks in their order, each as the list of its items.
\<close>

theorem bundle_round_trip:
  assumes "\<not> imported_numpy np" and "0 < B" and "d \<noteq> []"
      and "list_all (\<lambda>ch. \<not> is_linebreak ch) d"
      and "list_all (task_ok d) task_list"
      and "list_all (\<lambda>c. list_all (\<lambda>t. length t = length (hd c)) c) (chunks B task_list)"
  shows "\<exists>bundle_files files'.
           write_task_bundles np task_list (int B) dstdir prefix now d ''%s'' files
             = Inr (bundle_files, files')
           \<and> read_bundles np files' d bundle_files = Inr (map Cols task_list)"
proof -
  define cs where "cs = chunks B task_list"
  define names where "names = bundle_names dstdir prefix now (length cs)"
  define files' where "files' = rev (zip names (map (bundle_text d) cs)) @ files"
  have bc: "bundle_content np d ''%s'' c = Inr (bundle_text d c)"
    if "c \<in> set (chunks B task_list)" for c
    using chunks_nonempty[OF assms(2) that] assms(1) by (simp add: bundle_content_def)
  have i: "imported_numpy np \<or> ''%s'' = ''%s''" by simp
  have w: "write_task_bundles np task_list (int B) dstdir prefix now d ''%s'' files
             = Inr (names, files')"
    using write_task_bundles_eq[OF assms(2) i bc, where task_list=task_list and dstdir=dstdir
            and prefix=prefix and now=now and files=files]
    by (simp add: cs_def names_def files'_def)
  have cc: "concat cs = task_list" using concat_chunks[OF assms(2)] by (simp add: cs_def)
  have r: "read_task_bundle np files' (names ! j) (Some d) 0 True None None True False
             = Inr (map Cols (cs ! j))" if j: "j < length names" for j
  proof (rule read_chunk[OF assms(1,3,4)])
    from j have jc: "j < length cs" by (simp add: names_def)
    then have m: "cs ! j \<in> set cs" by simp
    then have "set (cs ! j) \<subseteq> set task_list" using cc by auto
    with assms(5) show "list_all (task_ok d) (cs ! j)"
      by (auto simp: list_all_iff)
    from chunks_sizes[OF assms(2) m[unfolded cs_def]] show "cs ! j \<noteq> []" by (auto simp: cs_def)
    from assms(6) m show "list_all (\<lambda>t. length t = length (hd (cs ! j))) (cs ! j)"
      by (simp add: list_all_iff cs_def)
    from map_of_written[of names "map (bundle_text d) cs" j files] j jc
    show "map_of files' (names ! j) = Some (bundle_text d (cs ! j))"
      by (simp add: files'_def names_def distinct_bundle_names)
  qed
  have "sequence_sum (map (\<lambda>bundle_file. read_task_bundle np files' bundle_file (Some d) 0 True
                             None None True False) names)
          = Inr (map (\<lambda>j. map Cols (cs ! j)) [0..<length names])"
    by (rule sequence_sum_nth) (rule r)
  moreover have "map (\<lambda>j. map Cols (cs ! j)) [0..<length names] = map (map Cols) cs"
  proof -
    have "map (\<lambda>j. map Cols (cs ! j)) [0..<length cs] = map (map Cols) (map (\<lambda>j. cs ! j) [0..<length cs])"
      by (simp add: comp_def)
    then show ?thesis by (simp only: map_nth names_def length_bundle_names)
  qed
  ultimately have "read_bundles np files' d names = Inr (map Cols task_list)"
    by (simp add: read_bundles_def map_concat cc[symmetric])
  with w show ?thesis by blast
qed

lemma chunks_three_tasks:
  "chunks 2 three_tasks = [[[''/s/a-1'', ''/d/''], [''/s/b'', ''/d/'']], [[''/s/c'', ''/d/'', ''x'']]]"
  by (simp add: three_tasks_def chunks_step)

lemma three_tasks_ok: "list_all (task_ok ARGSTR_SRCLIST_DELIM) three_tasks"
  by (simp add: three_tasks_def ARGSTR_SRCLIST_DELIM_def task_ok_def delimited_def occurs_at_def
        is_linebreak_def strip_def is_space_def)

lemma bundle_names_two:
  "bundle_names ''/b'' ''Copy_srclist'' ''20200101000000'' 2 =
     [''/b/Copy_srclist_20200101000000_001.txt'', ''/b/Copy_srclist_20200101000000_002.txt'']"
proof -
  have u: "[0..<2] = [0, 1]" by (simp add: upt_rec)
  have s: "str_nat (Suc 0) = ''1''" "str_nat (Suc (Suc 0)) = ''2''"
    using str_nat_small by (simp_all add: eval_nat_numeral)
  show ?thesis
    unfolding bundle_names_def u
    by (simp add: s str_nat_small zero_pad_three os_path_join_def endswith_def)
qed

lemma three_tasks_write:
  "write_task_bundles no_numpy three_tasks 2 ''/b'' ''Copy_srclist'' ''20200101000000''
     ARGSTR_SRCLIST_DELIM ''%s'' [] =
     Inr ([''/b/Copy_srclist_20200101000000_001.txt'', ''/b/Copy_srclist_20200101000000_002.txt''],
          [(''/b/Copy_srclist_20200101000000_002.txt'',
            ''/s/c--srclist-delim/d/--srclist-delimx\<newline>''),
           (''/b/Copy_srclist_20200101000000_001.txt'',
            ''/s/a-1--srclist-delim/d/\<newline>/s/b--srclist-delim/d/\<newline>'')])"
proof -
  have p: "0 < (2::nat)" by simp
  have i: "imported_numpy no_numpy \<or> ''%s'' = ''%s''" by simp
  have b: "bundle_content no_numpy ARGSTR_SRCLIST_DELIM ''%s'' c = Inr (bundle_text ARGSTR_SRCLIST_DELIM c)"
    if "c \<in> set (chunks 2 three_tasks)" for c
    using chunks_nonempty[OF p that] by (simp add: bundle_content_def no_numpy_def)
  have n: "length (chunks 2 three_tasks) = 2" by (simp add: chunks_three_tasks)
  note w = write_task_bundles_eq[OF p i b, where task_list=three_tasks and dstdir="''/b''"
         and prefix="''Copy_srclist''" and now="''20200101000000''" and files="[]",
         unfolded n bundle_names_two]
  from w show ?thesis
    unfolding chunks_three_tasks
    by (simp add: bundle_text_def ARGSTR_SRCLIST_DELIM_def)
qed

theorem bundle_round_trip_witness:
  "(\<exists>bundle_files files'.
      write_task_bundles no_numpy three_tasks (int 2) ''/b'' ''Copy_srclist'' ''20200101000000''
        ARGSTR_SRCLIST_DELIM ''%s'' [] = Inr (bundle_files, files')
      \<and> read_bundles no_numpy files' ARGSTR_SRCLIST_DELIM bundle_files
          = Inr (map Cols three_tasks))
   \<and> write_task_bundles no_numpy three_tasks 2 ''/b'' ''Copy_srclist'' ''20200101000000''
        ARGSTR_SRCLIST_DELIM ''%s'' [] =
       Inr ([''/b/Copy_srclist_20200101000000_001.txt'', ''/b/Copy_srclist_20200101000000_002.txt''],
            [(''/b/Copy_srclist_20200101000000_002.txt'',
              ''/s/c--srclist-delim/d/--srclist-delimx\<newline>''),
             (''/b/Copy_srclist_20200101000000_001.txt'',
              ''/s/a-1--srclist-delim/d/\<newline>/s/b--srclist-delim/d/\<newline>'')])
   \<and> read_bundles no_numpy
         [(''/b/Copy_srclist_20200101000000_002.txt'',
           ''/s/c--srclist-delim/d/--srclist-delimx\<newline>''),
          (''/b/Copy_srclist_20200101000000_001.txt'',
           ''/s/a-1--srclist-delim/d/\<newline>/s/b--srclist-delim/d/\<newline>'')]
         ARGSTR_SRCLIST_DELIM
         [''/b/Copy_srclist_20200101000000_001.txt'', ''/b/Copy_srclist_20200101000000_002.txt'']
       = Inr [Cols [''/s/a-1'', ''/d/''], Cols [''/s/b'', ''/d/''], Cols [''/s/c'', ''/d/'', ''x'']]"
proof -
  have a: "\<not> imported_numpy no_numpy" "0 < (2::nat)" "ARGSTR_SRCLIST_DELIM \<noteq> []"
    "list_all (\<lambda>ch. \<not> is_linebreak ch) ARGSTR_SRCLIST_DELIM"
    by (simp_all add: no_numpy_def ARGSTR_SRCLIST_DELIM_def is_linebreak_def)
  have u: "list_all (\<lambda>c. list_all (\<lambda>t. length t = length (hd c)) c) (chunks 2 three_tasks)"
    by (simp add: chunks_three_tasks)
  note t = bundle_round_trip[OF a three_tasks_ok u, where dstdir="''/b''"
             and prefix="''Copy_srclist''" and now="''20200101000000''" and files="[]"]
  from t three_tasks_write have
    "read_bundles no_numpy
         [(''/b/Copy_srclist_20200101000000_002.txt'',
           ''/s/c--srclist-delim/d/--srclist-delimx\<newline>''),
          (''/b/Copy_srclist_20200101000000_001.txt'',
           ''/s/a-1--srclist-delim/d/\<newline>/s/b--srclist-delim/d/\<newline>'')]
         ARGSTR_SRCLIST_DELIM
         [''/b/Copy_srclist_20200101000000_001.txt'', ''/b/Copy_srclist_20200101000000_002.txt'']
       = Inr (map Cols three_tasks)"
    by auto
  then have "read_bundles no_numpy
         [(''/b/Copy_srclist_20200101000000_002.txt'',
           ''/s/c--srclist-delim/d/--srclist-delimx\<newline>''),
          (''/b/Copy_srclist_20200101000000_001.txt'',
           ''/s/a-1--srclist-delim/d/\<newline>/s/b--srclist-delim/d/\<newline>'')]
         ARGSTR_SRCLIST_DELIM
         [''/b/Copy_srclist_20200101000000_001.txt'', ''/b/Copy_srclist_20200101000000_002.txt'']
       = Inr [Cols [''/s/a-1'', ''/d/''], Cols [''/s/b'', ''/d/''], Cols [''/s/c'', ''/d/'', ''x'']]"
    by (simp add: three_tasks_def)
  with t three_tasks_write show ?thesis by (intro conjI)
qed

section \<open>Job submission\<close>

text \<open>
  The same two tasks under PBS: the command of the child script carries
  \<^verbatim>\<open>--email\<close> in the last job only, and no \<^verbatim>\<open>qsub\<close> command has
  \<^verbatim>\<open>-m ae\<close>, which the list of \<^verbatim>\<open>get_jobsubmit_cmd\<close> holds in the else
  branch of the element before it.
\<close>

lemma submit_pbs_no_mail_option:
  \<open>example_run (PStr SCHED_PBS) (PStr ''user@example.com'') =
     (let job1 = ''qsub -N Copy001 -l walltime=1:00:00,mem=5gb -v p0="/js/head.sh",p1="Copy",p2="python file_transfer.py  --src "/s/a" --dst "/d/a"",p3="2.7" "/js/head.sh"'';
          job2 = ''qsub -N Copy002 -l walltime=1:00:00,mem=5gb -v p0="/js/head.sh",p1="Copy",p2="python file_transfer.py  --src "/s/b" --dst "/d/b" --email "user@example.com"",p3="2.7" "/js/head.sh"''
      in ([Print job1, SubprocessCall job1 PNone, Print job2, SubprocessCall job2 PNone],
          [], None))\<close>
  by code_simp

text \<open>
  C9 at a failing input: two tasks are submitted to SLURM, one job each, with
  the email address \<^verbatim>\<open>user@example.com\<close> configured. The run prints and calls
  two \<^verbatim>\<open>sbatch\<close> commands, and the option \<^verbatim>\<open>--mail-user user@example.com\<close> is
  on both of them, the first job's as well as the last one's: only the
  \<^verbatim>\<open>--email\<close> argument of the child script, inside the variable \<^verbatim>\<open>p2\<close>, is
  kept to the last job.
\<close>

theorem submit_mail_user_on_every_job:
  \<open>example_run (PStr SCHED_SLURM) (PStr ''user@example.com'') =
     (let job1 = ''sbatch --job-name Copy001 --time 1:00:00 --mem 5G -v p0="/js/head.sh",p1="Copy",p2="python file_transfer.py  --src "/s/a" --dst "/d/a"",p3="2.7" --mail-user user@example.com "/js/head.sh"'';
          job2 = ''sbatch --job-name Copy002 --time 1:00:00 --mem 5G -v p0="/js/head.sh",p1="Copy",p2="python file_transfer.py  --src "/s/b" --dst "/d/b" --email "user@example.com"",p3="2.7" --mail-user user@example.com "/js/head.sh"''
      in ([Print job1, SubprocessCall job1 PNone, Print job2, SubprocessCall job2 PNone],
          [], None))\<close>
  by code_simp

end
